theory Spec2Isabelle
  imports Main "HOL-Library.Word"
begin

unbundle bit_operations_syntax

section \<open>The x86 instruction database and validator of AsmJit\<close>

text \<open>
  This theory embeds the parts of \<^verbatim>\<open>src/asmjit/x86/x86inst.cpp\<close> that look an
  instruction up by name (\<^verbatim>\<open>X86Inst::getIdByName\<close>), validate an instruction with its
  operands (\<^verbatim>\<open>X86Inst::validate\<close>) and translate condition codes, together with the
  static tables these functions read.

  The enumerations the file uses are declared in headers that are not part of the sources at
  hand (\<^verbatim>\<open>x86inst.h\<close>, \<^verbatim>\<open>x86operand.h\<close>, \<^verbatim>\<open>base/operand.h\<close>,
  \<^verbatim>\<open>base/globals.h\<close>).  The numeric values of their enumerators are therefore not
  fixed here: a flag word is modelled as the set of the enumerators that are or-ed into it,
  \<open>a & b\<close> as intersection and \<open>a | b\<close> as union.  This assumes that the flags which
  the functions test (the flags of an operand of a call against those of a signature, the
  flags of an instruction, the options) have no bit in common with any other enumerator of
  their enumeration.
\<close>

subsection \<open>Results\<close>

text \<open>The error codes returned by \<^verbatim>\<open>X86Inst::validate\<close>.\<close>

datatype Error =
    kErrorOk
  | kErrorInvalidArgument
  | kErrorInvalidState
  | kErrorInvalidArch
  | kErrorInvalidInstruction
  | kErrorInvalidRegType
  | kErrorInvalidPhysId
  | kErrorInvalidAddress
  | kErrorInvalidUseOfGpbHi
  | kErrorInvalidUseOfGpq
  | kErrorInvalidKMaskReg
  | kErrorInvalidKMaskUse
  | kErrorInvalidKZeroUse
  | kErrorInvalidBroadcast
  | kErrorInvalidSAEOrER

text \<open>
  A run of the C++ code can also leave defined behaviour: an index past the end of a
  fixed-size array, or a failed \<^verbatim>\<open>ASMJIT_ASSERT\<close>.  These are not return values of
  the program; the model reports them on the left of a sum.
\<close>

datatype fault = OutOfBounds | AssertionFailed

text \<open>
  Inside a function body, \<open>Inl r\<close> means that the function has finished with the
  outcome \<open>r\<close> (a fault or a returned error), \<open>Inr s\<close> that it goes on with \<open>s\<close>.
\<close>

abbreviation Return :: "Error \<Rightarrow> (fault + Error) + 'a" where
  "Return e \<equiv> Inl (Inr e)"

abbreviation Fault :: "fault \<Rightarrow> (fault + Error) + 'a" where
  "Fault f \<equiv> Inl (Inl f)"

subsection \<open>Operands\<close>

text \<open>
  An operand as \<^verbatim>\<open>validate\<close> reads it: its kind (\<^verbatim>\<open>getOp()\<close>), for a register its
  type and id, for a memory operand its size and the register types of its base and index.
  \<open>OtherOp\<close> stands for an operand whose kind tag is none of the five known ones.
\<close>

datatype Operand =
    NoneOp
  | RegOp (getRegType: nat) (getId: nat)
  | MemOp (getSize: nat) (getBaseType: nat) (getIndexType: nat)
  | ImmOp int
  | LabelOp nat
  | OtherOp

fun isNone :: "Operand \<Rightarrow> bool" where
  "isNone NoneOp = True"
| "isNone _ = False"

abbreviation present :: "Operand \<Rightarrow> bool" where
  "present op \<equiv> \<not> isNone op"

text \<open>
  Register types \<^verbatim>\<open>X86Reg::kReg...\<close>: the values are the row numbers noted in the
  comments of \<^verbatim>\<open>_x86OpFlagFromRegType\<close> (\<^verbatim>\<open>#03 SEG\<close>, \<^verbatim>\<open>#04 GPB-LO\<close>, ...).
\<close>

definition kRegRip :: nat where "kRegRip = 2"
definition kRegSeg :: nat where "kRegSeg = 3"
definition kRegGpbLo :: nat where "kRegGpbLo = 4"
definition kRegGpbHi :: nat where "kRegGpbHi = 5"
definition kRegGpw :: nat where "kRegGpw = 6"
definition kRegGpd :: nat where "kRegGpd = 7"
definition kRegGpq :: nat where "kRegGpq = 8"
definition kRegFp :: nat where "kRegFp = 9"
definition kRegMm :: nat where "kRegMm = 10"
definition kRegK :: nat where "kRegK = 11"
definition kRegXmm :: nat where "kRegXmm = 12"
definition kRegYmm :: nat where "kRegYmm = 13"
definition kRegZmm :: nat where "kRegZmm = 14"
definition kRegBnd :: nat where "kRegBnd = 16"
definition kRegCr :: nat where "kRegCr = 17"
definition kRegDr :: nat where "kRegDr = 18"
definition kRegCount :: nat where "kRegCount = 19"

text \<open>
  Modelled from the spec: \<^verbatim>\<open>Label::kLabelTag\<close> (\<^verbatim>\<open>base/operand.h\<close>), the base type
  of a memory operand whose base is a label.  Its value is not given; the model takes
  \<open>1\<close>, the register type that the tables call reserved.  Only a call with a memory
  operand of this base type depends on it.
\<close>

definition kLabelTag :: nat where "kLabelTag = 1"

text \<open>
  Modelled from the spec: \<^verbatim>\<open>x86::isK\<close> and \<^verbatim>\<open>x86::isZmm\<close>
  (\<^verbatim>\<open>x86operand.h\<close>): the operand is a register of type K, or of type ZMM.
\<close>

fun isK :: "Operand \<Rightarrow> bool" where
  "isK (RegOp t r) = (t = kRegK)"
| "isK _ = False"

fun isZmm :: "Operand \<Rightarrow> bool" where
  "isZmm (RegOp t r) = (t = kRegZmm)"
| "isZmm _ = False"

text \<open>
  The value \<^verbatim>\<open>kInvalidReg\<close> of a register id that is not fixed; the operand
  signature table writes it \<^verbatim>\<open>0xFF\<close>.
\<close>

definition kInvalidReg :: nat where "kInvalidReg = 0xFF"

text \<open>
  The instruction id \<^verbatim>\<open>kInvalidInst\<close>.  The unit test \<^verbatim>\<open>x86_inst_names\<close> expects
  \<^verbatim>\<open>getIdByName("")\<close> to be \<^verbatim>\<open>kInvalidInst\<close> and to be the id \<open>0\<close> of the
  row \<^verbatim>\<open>INST(None, "", ...)\<close>.
\<close>

definition kInvalidInst :: nat where "kInvalidInst = 0"

subsection \<open>Flag words\<close>

text \<open>Operand flags \<^verbatim>\<open>X86Inst::kOp...\<close>; \<^verbatim>\<open>kOpNone\<close> is the empty word.\<close>

datatype OpFlag =
    kOpGpbLo | kOpGpbHi | kOpGpw | kOpGpd | kOpGpq | kOpFp | kOpMm | kOpK
  | kOpXmm | kOpYmm | kOpZmm | kOpBnd | kOpSeg | kOpCr | kOpDr
  | kOpI4 | kOpI8 | kOpI16 | kOpI32 | kOpI64 | kOpRel8 | kOpRel32
  | kOpMem | kOpVm | kOpR | kOpW | kOpX | kOpImplicit

definition kOpNone :: "OpFlag set" where "kOpNone = {}"

text \<open>Memory flags \<^verbatim>\<open>X86Inst::kMemOp...\<close>.\<close>

datatype MemFlag =
    kMemOpM8 | kMemOpM16 | kMemOpM32 | kMemOpM64 | kMemOpM80 | kMemOpM128
  | kMemOpM256 | kMemOpM512 | kMemOpM1024 | kMemOpAny
  | kMemOpVm32x | kMemOpVm32y | kMemOpVm32z | kMemOpVm64x | kMemOpVm64y | kMemOpVm64z

text \<open>
  Instruction flags \<^verbatim>\<open>X86Inst::kInstFlag...\<close>.  The source's \<^verbatim>\<open>kInstFlagEvexK_\<close>
  and \<^verbatim>\<open>kInstFlagEvexSet_F_\<close> lose their last underscore, which a name cannot end with
  here.
\<close>

datatype InstFlag =
    kInstFlagRO | kInstFlagWO | kInstFlagRW | kInstFlagXchg | kInstFlagFlow
  | kInstFlagFp | kInstFlagLock | kInstFlagSpecial | kInstFlagVolatile
  | kInstFlagZeroIfMem | kInstFlagVM | kInstFlagVex | kInstFlagVex_VM
  | kInstFlagFPU_M2 | kInstFlagFPU_M4 | kInstFlagFPU_M8 | kInstFlagFPU_M10
  | kInstFlagEvex | kInstFlagEvexVL | kInstFlagEvexK | kInstFlagEvexKZ
  | kInstFlagEvexSAE | kInstFlagEvexER | kInstFlagEvexB4 | kInstFlagEvexB8
  | kInstFlagEvexSet_F | kInstFlagEvexSet_CDI | kInstFlagEvexSet_PFI
  | kInstFlagEvexSet_ERI | kInstFlagEvexSet_DQ | kInstFlagEvexSet_BW
  | kInstFlagEvexSet_IFMA | kInstFlagEvexSet_VBMI

text \<open>Emission options \<^verbatim>\<open>X86Inst::kOption...\<close>.\<close>

datatype InstOption =
    kOptionRex | kOptionVex3 | kOptionEvex
  | kOptionK | kOption1ToX | kOptionKZ | kOptionSAE | kOptionER

text \<open>Architectures, and the architecture bits of an instruction signature.\<close>

datatype ArchType = kTypeNone | kTypeX86 | kTypeX64 | kTypeArm32 | kTypeArm64

text \<open>
  Modelled from the spec: \<^verbatim>\<open>ArchInfo::isX86Family\<close> (\<^verbatim>\<open>base/arch.h\<close>); the
  x86 family is x86 and x64.
\<close>

fun isX86Family :: "ArchType \<Rightarrow> bool" where
  "isX86Family kTypeX86 = True"
| "isX86Family kTypeX64 = True"
| "isX86Family _ = False"

datatype ArchMask = kArchMaskX86 | kArchMaskX64

subsection \<open>The instruction table\<close>

text \<open>
  A row of \<^verbatim>\<open>X86InstDB::instData\<close>.  The macro \<^verbatim>\<open>INST\<close> keeps the encoding, the
  offset of the name in the name blob and the index of the row of common data; the opcode
  and family columns play no part in what follows and are left out.  \<open>idName\<close> is the
  first macro argument, from which the header names the id \<^verbatim>\<open>X86Inst::kId...\<close> of the
  row; an encoding is written as the name of its enumerator.
\<close>

type_synonym Encoding = string

record X86Inst =
  idName :: string
  encodingType :: Encoding
  nameDataIndex :: nat
  commonDataIndex :: nat

definition INST :: "string \<Rightarrow> Encoding \<Rightarrow> nat \<Rightarrow> nat \<Rightarrow> X86Inst" where
  "INST ident encoding nameIdx commonIdx =
     \<lparr>idName = ident, encodingType = encoding, nameDataIndex = nameIdx,
      commonDataIndex = commonIdx\<rparr>"

text \<open>
  The table, in the order of the source, cut into pieces of a hundred rows each.
\<close>

definition instData_0 :: "X86Inst list" where
  "instData_0 = [
    INST ''None'' ''None'' 0 0,
    INST ''Adc'' ''X86Arith'' 1 1,
    INST ''Adcx'' ''X86Rm'' 5 2,
    INST ''Add'' ''X86Arith'' 657 3,
    INST ''Addpd'' ''ExtRm'' 4545 4,
    INST ''Addps'' ''ExtRm'' 4557 4,
    INST ''Addsd'' ''ExtRm'' 4779 5,
    INST ''Addss'' ''ExtRm'' 4789 6,
    INST ''Addsubpd'' ''ExtRm'' 4284 4,
    INST ''Addsubps'' ''ExtRm'' 4296 4,
    INST ''Adox'' ''X86Rm'' 10 7,
    INST ''Aesdec'' ''ExtRm'' 2790 4,
    INST ''Aesdeclast'' ''ExtRm'' 2798 4,
    INST ''Aesenc'' ''ExtRm'' 2810 4,
    INST ''Aesenclast'' ''ExtRm'' 2818 4,
    INST ''Aesimc'' ''ExtRm'' 2830 8,
    INST ''Aeskeygenassist'' ''ExtRmi'' 2838 9,
    INST ''And'' ''X86Arith'' 2034 3,
    INST ''Andn'' ''VexRvm_Wx'' 6055 10,
    INST ''Andnpd'' ''ExtRm'' 2871 4,
    INST ''Andnps'' ''ExtRm'' 2879 4,
    INST ''Andpd'' ''ExtRm'' 3798 4,
    INST ''Andps'' ''ExtRm'' 3808 4,
    INST ''Bextr'' ''VexRmv_Wx'' 15 11,
    INST ''Blcfill'' ''VexVm_Wx'' 21 12,
    INST ''Blci'' ''VexVm_Wx'' 29 12,
    INST ''Blcic'' ''VexVm_Wx'' 34 12,
    INST ''Blcmsk'' ''VexVm_Wx'' 40 12,
    INST ''Blcs'' ''VexVm_Wx'' 47 12,
    INST ''Blendpd'' ''ExtRmi'' 2957 13,
    INST ''Blendps'' ''ExtRmi'' 2966 13,
    INST ''Blendvpd'' ''ExtRmXMM0'' 2975 14,
    INST ''Blendvps'' ''ExtRmXMM0'' 2985 14,
    INST ''Blsfill'' ''VexVm_Wx'' 52 12,
    INST ''Blsi'' ''VexVm_Wx'' 60 15,
    INST ''Blsic'' ''VexVm_Wx'' 65 12,
    INST ''Blsmsk'' ''VexVm_Wx'' 71 15,
    INST ''Blsr'' ''VexVm_Wx'' 78 15,
    INST ''Bsf'' ''X86Rm'' 83 16,
    INST ''Bsr'' ''X86Rm'' 87 16,
    INST ''Bswap'' ''X86Bswap'' 91 17,
    INST ''Bt'' ''X86Bt'' 97 18,
    INST ''Btc'' ''X86Bt'' 100 19,
    INST ''Btr'' ''X86Bt'' 104 20,
    INST ''Bts'' ''X86Bt'' 108 21,
    INST ''Bzhi'' ''VexRmv_Wx'' 112 11,
    INST ''Call'' ''X86Call'' 117 22,
    INST ''Cbw'' ''X86OpAx'' 122 23,
    INST ''Cdq'' ''X86OpDxAx'' 126 24,
    INST ''Cdqe'' ''X86OpAx'' 130 25,
    INST ''Clac'' ''X86Op'' 135 26,
    INST ''Clc'' ''X86Op'' 140 27,
    INST ''Cld'' ''X86Op'' 144 28,
    INST ''Clflush'' ''X86M_Only'' 148 29,
    INST ''Clflushopt'' ''X86M_Only'' 156 29,
    INST ''Clwb'' ''X86M_Only'' 167 29,
    INST ''Clzero'' ''X86Op'' 172 30,
    INST ''Cmc'' ''X86Op'' 179 31,
    INST ''Cmova'' ''X86Rm'' 183 32,
    INST ''Cmovae'' ''X86Rm'' 189 33,
    INST ''Cmovb'' ''X86Rm'' 514 33,
    INST ''Cmovbe'' ''X86Rm'' 521 32,
    INST ''Cmovc'' ''X86Rm'' 196 33,
    INST ''Cmove'' ''X86Rm'' 529 34,
    INST ''Cmovg'' ''X86Rm'' 202 35,
    INST ''Cmovge'' ''X86Rm'' 208 36,
    INST ''Cmovl'' ''X86Rm'' 215 36,
    INST ''Cmovle'' ''X86Rm'' 221 35,
    INST ''Cmovna'' ''X86Rm'' 228 32,
    INST ''Cmovnae'' ''X86Rm'' 235 33,
    INST ''Cmovnb'' ''X86Rm'' 536 33,
    INST ''Cmovnbe'' ''X86Rm'' 544 32,
    INST ''Cmovnc'' ''X86Rm'' 243 33,
    INST ''Cmovne'' ''X86Rm'' 553 34,
    INST ''Cmovng'' ''X86Rm'' 250 35,
    INST ''Cmovnge'' ''X86Rm'' 257 36,
    INST ''Cmovnl'' ''X86Rm'' 265 36,
    INST ''Cmovnle'' ''X86Rm'' 272 35,
    INST ''Cmovno'' ''X86Rm'' 280 37,
    INST ''Cmovnp'' ''X86Rm'' 287 38,
    INST ''Cmovns'' ''X86Rm'' 294 39,
    INST ''Cmovnz'' ''X86Rm'' 301 34,
    INST ''Cmovo'' ''X86Rm'' 308 37,
    INST ''Cmovp'' ''X86Rm'' 314 38,
    INST ''Cmovpe'' ''X86Rm'' 320 38,
    INST ''Cmovpo'' ''X86Rm'' 327 38,
    INST ''Cmovs'' ''X86Rm'' 334 39,
    INST ''Cmovz'' ''X86Rm'' 340 34,
    INST ''Cmp'' ''X86Arith'' 346 40,
    INST ''Cmppd'' ''ExtRmi'' 3211 13,
    INST ''Cmpps'' ''ExtRmi'' 3218 13,
    INST ''CmpsB'' ''X86Op'' 2292 41,
    INST ''CmpsD'' ''X86Op'' 2305 41,
    INST ''CmpsQ'' ''X86Op'' 2318 41,
    INST ''CmpsW'' ''X86Op'' 2331 41,
    INST ''Cmpsd'' ''ExtRmi'' 3225 42,
    INST ''Cmpss'' ''ExtRmi'' 3232 43,
    INST ''Cmpxchg'' ''X86Cmpxchg'' 350 44,
    INST ''Cmpxchg16b'' ''X86M_Only'' 358 45,
    INST ''Cmpxchg8b'' ''X86M_Only'' 369 46]"

definition instData_1 :: "X86Inst list" where
  "instData_1 = [
    INST ''Comisd'' ''ExtRm'' 9258 47,
    INST ''Comiss'' ''ExtRm'' 9267 48,
    INST ''Cpuid'' ''X86Op'' 379 49,
    INST ''Cqo'' ''X86OpDxAx'' 385 50,
    INST ''Crc32'' ''X86Crc'' 389 51,
    INST ''Cvtdq2pd'' ''ExtRm'' 3279 52,
    INST ''Cvtdq2ps'' ''ExtRm'' 3289 53,
    INST ''Cvtpd2dq'' ''ExtRm'' 3299 53,
    INST ''Cvtpd2pi'' ''ExtRm'' 395 54,
    INST ''Cvtpd2ps'' ''ExtRm'' 3309 53,
    INST ''Cvtpi2pd'' ''ExtRm'' 404 55,
    INST ''Cvtpi2ps'' ''ExtRm'' 413 56,
    INST ''Cvtps2dq'' ''ExtRm'' 3361 53,
    INST ''Cvtps2pd'' ''ExtRm'' 3371 52,
    INST ''Cvtps2pi'' ''ExtRm'' 422 57,
    INST ''Cvtsd2si'' ''ExtRm_Wx'' 3443 58,
    INST ''Cvtsd2ss'' ''ExtRm'' 3453 59,
    INST ''Cvtsi2sd'' ''ExtRm_Wx'' 3474 60,
    INST ''Cvtsi2ss'' ''ExtRm_Wx'' 3484 61,
    INST ''Cvtss2sd'' ''ExtRm'' 3494 62,
    INST ''Cvtss2si'' ''ExtRm_Wx'' 3504 63,
    INST ''Cvttpd2dq'' ''ExtRm'' 3525 53,
    INST ''Cvttpd2pi'' ''ExtRm'' 431 54,
    INST ''Cvttps2dq'' ''ExtRm'' 3571 53,
    INST ''Cvttps2pi'' ''ExtRm'' 441 57,
    INST ''Cvttsd2si'' ''ExtRm_Wx'' 3617 58,
    INST ''Cvttss2si'' ''ExtRm_Wx'' 3640 63,
    INST ''Cwd'' ''X86OpDxAx'' 451 64,
    INST ''Cwde'' ''X86OpAx'' 455 65,
    INST ''Daa'' ''X86Op'' 460 66,
    INST ''Das'' ''X86Op'' 464 66,
    INST ''Dec'' ''X86IncDec'' 2793 67,
    INST ''Div'' ''X86M_Bx_MulDiv'' 676 68,
    INST ''Divpd'' ''ExtRm'' 3739 4,
    INST ''Divps'' ''ExtRm'' 3746 4,
    INST ''Divsd'' ''ExtRm'' 3753 5,
    INST ''Divss'' ''ExtRm'' 3760 6,
    INST ''Dppd'' ''ExtRmi'' 3767 13,
    INST ''Dpps'' ''ExtRmi'' 3773 13,
    INST ''Emms'' ''X86Op'' 644 69,
    INST ''Enter'' ''X86Enter'' 468 70,
    INST ''Extractps'' ''ExtExtract'' 3953 71,
    INST ''Extrq'' ''ExtExtrq'' 6769 72,
    INST ''F2xm1'' ''FpuOp'' 474 73,
    INST ''Fabs'' ''FpuOp'' 480 73,
    INST ''Fadd'' ''FpuArith'' 1756 74,
    INST ''Faddp'' ''FpuRDef'' 485 75,
    INST ''Fbld'' ''X86M_Only'' 491 76,
    INST ''Fbstp'' ''X86M_Only'' 496 76,
    INST ''Fchs'' ''FpuOp'' 502 73,
    INST ''Fclex'' ''FpuOp'' 507 73,
    INST ''Fcmovb'' ''FpuR'' 513 77,
    INST ''Fcmovbe'' ''FpuR'' 520 78,
    INST ''Fcmove'' ''FpuR'' 528 79,
    INST ''Fcmovnb'' ''FpuR'' 535 77,
    INST ''Fcmovnbe'' ''FpuR'' 543 78,
    INST ''Fcmovne'' ''FpuR'' 552 79,
    INST ''Fcmovnu'' ''FpuR'' 560 80,
    INST ''Fcmovu'' ''FpuR'' 568 80,
    INST ''Fcom'' ''FpuCom'' 575 81,
    INST ''Fcomi'' ''FpuR'' 580 82,
    INST ''Fcomip'' ''FpuR'' 586 82,
    INST ''Fcomp'' ''FpuCom'' 593 81,
    INST ''Fcompp'' ''FpuOp'' 599 73,
    INST ''Fcos'' ''FpuOp'' 606 73,
    INST ''Fdecstp'' ''FpuOp'' 611 73,
    INST ''Fdiv'' ''FpuArith'' 619 74,
    INST ''Fdivp'' ''FpuRDef'' 624 75,
    INST ''Fdivr'' ''FpuArith'' 630 74,
    INST ''Fdivrp'' ''FpuRDef'' 636 75,
    INST ''Femms'' ''X86Op'' 643 73,
    INST ''Ffree'' ''FpuR'' 649 83,
    INST ''Fiadd'' ''FpuM'' 655 84,
    INST ''Ficom'' ''FpuM'' 661 84,
    INST ''Ficomp'' ''FpuM'' 667 84,
    INST ''Fidiv'' ''FpuM'' 674 84,
    INST ''Fidivr'' ''FpuM'' 680 84,
    INST ''Fild'' ''FpuM'' 687 85,
    INST ''Fimul'' ''FpuM'' 692 84,
    INST ''Fincstp'' ''FpuOp'' 698 73,
    INST ''Finit'' ''FpuOp'' 706 73,
    INST ''Fist'' ''FpuM'' 712 84,
    INST ''Fistp'' ''FpuM'' 717 86,
    INST ''Fisttp'' ''FpuM'' 723 87,
    INST ''Fisub'' ''FpuM'' 730 84,
    INST ''Fisubr'' ''FpuM'' 736 84,
    INST ''Fld'' ''FpuFldFst'' 743 88,
    INST ''Fld1'' ''FpuOp'' 747 73,
    INST ''Fldcw'' ''X86M_Only'' 752 89,
    INST ''Fldenv'' ''X86M_Only'' 758 90,
    INST ''Fldl2e'' ''FpuOp'' 765 73,
    INST ''Fldl2t'' ''FpuOp'' 772 73,
    INST ''Fldlg2'' ''FpuOp'' 779 73,
    INST ''Fldln2'' ''FpuOp'' 786 73,
    INST ''Fldpi'' ''FpuOp'' 793 73,
    INST ''Fldz'' ''FpuOp'' 799 73,
    INST ''Fmul'' ''FpuArith'' 1798 74,
    INST ''Fmulp'' ''FpuRDef'' 804 75,
    INST ''Fnclex'' ''FpuOp'' 810 73,
    INST ''Fninit'' ''FpuOp'' 817 73]"

definition instData_2 :: "X86Inst list" where
  "instData_2 = [
    INST ''Fnop'' ''FpuOp'' 824 73,
    INST ''Fnsave'' ''X86M_Only'' 829 90,
    INST ''Fnstcw'' ''X86M_Only'' 836 89,
    INST ''Fnstenv'' ''X86M_Only'' 843 90,
    INST ''Fnstsw'' ''FpuStsw'' 851 91,
    INST ''Fpatan'' ''FpuOp'' 858 73,
    INST ''Fprem'' ''FpuOp'' 865 73,
    INST ''Fprem1'' ''FpuOp'' 871 73,
    INST ''Fptan'' ''FpuOp'' 878 73,
    INST ''Frndint'' ''FpuOp'' 884 73,
    INST ''Frstor'' ''X86M_Only'' 892 90,
    INST ''Fsave'' ''X86M_Only'' 899 90,
    INST ''Fscale'' ''FpuOp'' 905 73,
    INST ''Fsin'' ''FpuOp'' 912 73,
    INST ''Fsincos'' ''FpuOp'' 917 73,
    INST ''Fsqrt'' ''FpuOp'' 925 73,
    INST ''Fst'' ''FpuFldFst'' 931 92,
    INST ''Fstcw'' ''X86M_Only'' 935 89,
    INST ''Fstenv'' ''X86M_Only'' 941 90,
    INST ''Fstp'' ''FpuFldFst'' 948 93,
    INST ''Fstsw'' ''FpuStsw'' 953 94,
    INST ''Fsub'' ''FpuArith'' 1876 74,
    INST ''Fsubp'' ''FpuRDef'' 959 75,
    INST ''Fsubr'' ''FpuArith'' 1882 74,
    INST ''Fsubrp'' ''FpuRDef'' 965 75,
    INST ''Ftst'' ''FpuOp'' 972 73,
    INST ''Fucom'' ''FpuRDef'' 977 75,
    INST ''Fucomi'' ''FpuR'' 983 82,
    INST ''Fucomip'' ''FpuR'' 990 82,
    INST ''Fucomp'' ''FpuRDef'' 998 75,
    INST ''Fucompp'' ''FpuOp'' 1005 73,
    INST ''Fwait'' ''X86Op'' 1013 95,
    INST ''Fxam'' ''FpuOp'' 1019 73,
    INST ''Fxch'' ''FpuR'' 1024 75,
    INST ''Fxrstor'' ''X86M_Only'' 1029 90,
    INST ''Fxrstor64'' ''X86M_Only'' 1037 96,
    INST ''Fxsave'' ''X86M_Only'' 1047 90,
    INST ''Fxsave64'' ''X86M_Only'' 1054 96,
    INST ''Fxtract'' ''FpuOp'' 1063 73,
    INST ''Fyl2x'' ''FpuOp'' 1071 73,
    INST ''Fyl2xp1'' ''FpuOp'' 1077 73,
    INST ''Haddpd'' ''ExtRm'' 5308 4,
    INST ''Haddps'' ''ExtRm'' 5316 4,
    INST ''Hsubpd'' ''ExtRm'' 5324 4,
    INST ''Hsubps'' ''ExtRm'' 5332 4,
    INST ''Idiv'' ''X86M_Bx_MulDiv'' 675 97,
    INST ''Imul'' ''X86Imul'' 693 98,
    INST ''Inc'' ''X86IncDec'' 1085 99,
    INST ''Insertps'' ''ExtRmi'' 5468 43,
    INST ''Insertq'' ''ExtInsertq'' 1089 100,
    INST ''Int'' ''X86Int'' 888 101,
    INST ''Int3'' ''X86Op'' 1097 102,
    INST ''Into'' ''X86Op'' 1102 102,
    INST ''Ja'' ''X86Jcc'' 1107 103,
    INST ''Jae'' ''X86Jcc'' 1110 104,
    INST ''Jb'' ''X86Jcc'' 1114 104,
    INST ''Jbe'' ''X86Jcc'' 1117 103,
    INST ''Jc'' ''X86Jcc'' 1121 105,
    INST ''Je'' ''X86Jcc'' 1124 106,
    INST ''Jg'' ''X86Jcc'' 1133 107,
    INST ''Jge'' ''X86Jcc'' 1136 108,
    INST ''Jl'' ''X86Jcc'' 1140 108,
    INST ''Jle'' ''X86Jcc'' 1143 107,
    INST ''Jna'' ''X86Jcc'' 1151 103,
    INST ''Jnae'' ''X86Jcc'' 1155 104,
    INST ''Jnb'' ''X86Jcc'' 1160 104,
    INST ''Jnbe'' ''X86Jcc'' 1164 103,
    INST ''Jnc'' ''X86Jcc'' 1169 105,
    INST ''Jne'' ''X86Jcc'' 1173 106,
    INST ''Jng'' ''X86Jcc'' 1177 107,
    INST ''Jnge'' ''X86Jcc'' 1181 108,
    INST ''Jnl'' ''X86Jcc'' 1186 108,
    INST ''Jnle'' ''X86Jcc'' 1190 107,
    INST ''Jno'' ''X86Jcc'' 1195 109,
    INST ''Jnp'' ''X86Jcc'' 1199 110,
    INST ''Jns'' ''X86Jcc'' 1203 111,
    INST ''Jnz'' ''X86Jcc'' 1207 106,
    INST ''Jo'' ''X86Jcc'' 1211 109,
    INST ''Jp'' ''X86Jcc'' 1214 110,
    INST ''Jpe'' ''X86Jcc'' 1217 110,
    INST ''Jpo'' ''X86Jcc'' 1221 110,
    INST ''Js'' ''X86Jcc'' 1225 111,
    INST ''Jz'' ''X86Jcc'' 1228 106,
    INST ''Jecxz'' ''X86Jecxz'' 1127 112,
    INST ''Jmp'' ''X86Jmp'' 1147 113,
    INST ''Kaddb'' ''VexRvm'' 1231 114,
    INST ''Kaddd'' ''VexRvm'' 1237 114,
    INST ''Kaddq'' ''VexRvm'' 1243 114,
    INST ''Kaddw'' ''VexRvm'' 1249 114,
    INST ''Kandb'' ''VexRvm'' 1255 114,
    INST ''Kandd'' ''VexRvm'' 1261 114,
    INST ''Kandnb'' ''VexRvm'' 1267 114,
    INST ''Kandnd'' ''VexRvm'' 1274 114,
    INST ''Kandnq'' ''VexRvm'' 1281 114,
    INST ''Kandnw'' ''VexRvm'' 1288 114,
    INST ''Kandq'' ''VexRvm'' 1295 114,
    INST ''Kandw'' ''VexRvm'' 1301 114,
    INST ''Kmovb'' ''VexKmov'' 1307 115,
    INST ''Kmovd'' ''VexKmov'' 7249 116,
    INST ''Kmovq'' ''VexKmov'' 7260 117]"

definition instData_3 :: "X86Inst list" where
  "instData_3 = [
    INST ''Kmovw'' ''VexKmov'' 1313 118,
    INST ''Knotb'' ''VexRm'' 1319 119,
    INST ''Knotd'' ''VexRm'' 1325 119,
    INST ''Knotq'' ''VexRm'' 1331 119,
    INST ''Knotw'' ''VexRm'' 1337 119,
    INST ''Korb'' ''VexRvm'' 1343 114,
    INST ''Kord'' ''VexRvm'' 1348 114,
    INST ''Korq'' ''VexRvm'' 1353 114,
    INST ''Kortestb'' ''VexRm'' 1358 120,
    INST ''Kortestd'' ''VexRm'' 1367 120,
    INST ''Kortestq'' ''VexRm'' 1376 120,
    INST ''Kortestw'' ''VexRm'' 1385 120,
    INST ''Korw'' ''VexRvm'' 1394 114,
    INST ''Kshiftlb'' ''VexRmi'' 1399 121,
    INST ''Kshiftld'' ''VexRmi'' 1408 121,
    INST ''Kshiftlq'' ''VexRmi'' 1417 121,
    INST ''Kshiftlw'' ''VexRmi'' 1426 121,
    INST ''Kshiftrb'' ''VexRmi'' 1435 121,
    INST ''Kshiftrd'' ''VexRmi'' 1444 121,
    INST ''Kshiftrq'' ''VexRmi'' 1453 121,
    INST ''Kshiftrw'' ''VexRmi'' 1462 121,
    INST ''Ktestb'' ''VexRm'' 1471 120,
    INST ''Ktestd'' ''VexRm'' 1478 120,
    INST ''Ktestq'' ''VexRm'' 1485 120,
    INST ''Ktestw'' ''VexRm'' 1492 120,
    INST ''Kunpckbw'' ''VexRvm'' 1499 114,
    INST ''Kunpckdq'' ''VexRvm'' 1508 114,
    INST ''Kunpckwd'' ''VexRvm'' 1517 114,
    INST ''Kxnorb'' ''VexRvm'' 1526 114,
    INST ''Kxnord'' ''VexRvm'' 1533 114,
    INST ''Kxnorq'' ''VexRvm'' 1540 114,
    INST ''Kxnorw'' ''VexRvm'' 1547 114,
    INST ''Kxorb'' ''VexRvm'' 1554 114,
    INST ''Kxord'' ''VexRvm'' 1560 114,
    INST ''Kxorq'' ''VexRvm'' 1566 114,
    INST ''Kxorw'' ''VexRvm'' 1572 114,
    INST ''Lahf'' ''X86Op'' 1578 122,
    INST ''Lddqu'' ''ExtRm'' 5478 123,
    INST ''Ldmxcsr'' ''X86M_Only'' 5485 124,
    INST ''Lea'' ''X86Lea'' 1583 125,
    INST ''Leave'' ''X86Op'' 1587 126,
    INST ''Lfence'' ''X86Fence'' 1593 69,
    INST ''LodsB'' ''X86Op'' 2062 127,
    INST ''LodsD'' ''X86Op'' 2073 128,
    INST ''LodsQ'' ''X86Op'' 2084 129,
    INST ''LodsW'' ''X86Op'' 2095 130,
    INST ''Lzcnt'' ''X86Rm'' 1600 131,
    INST ''Maskmovdqu'' ''ExtRmZDI'' 5494 132,
    INST ''Maskmovq'' ''ExtRmZDI'' 7257 133,
    INST ''Maxpd'' ''ExtRm'' 5528 4,
    INST ''Maxps'' ''ExtRm'' 5535 4,
    INST ''Maxsd'' ''ExtRm'' 7276 5,
    INST ''Maxss'' ''ExtRm'' 5549 6,
    INST ''Mfence'' ''X86Fence'' 1606 134,
    INST ''Minpd'' ''ExtRm'' 5556 4,
    INST ''Minps'' ''ExtRm'' 5563 4,
    INST ''Minsd'' ''ExtRm'' 7340 5,
    INST ''Minss'' ''ExtRm'' 5577 6,
    INST ''Monitor'' ''X86Op'' 1613 135,
    INST ''Mov'' ''X86Mov'' 6223 136,
    INST ''Movapd'' ''ExtMov'' 5584 137,
    INST ''Movaps'' ''ExtMov'' 5592 138,
    INST ''Movbe'' ''ExtMovbe'' 522 139,
    INST ''Movd'' ''ExtMovd'' 7250 140,
    INST ''Movddup'' ''ExtMov'' 5606 52,
    INST ''Movdq2q'' ''ExtMov'' 1621 141,
    INST ''Movdqa'' ''ExtMov'' 5615 142,
    INST ''Movdqu'' ''ExtMov'' 5498 143,
    INST ''Movhlps'' ''ExtMov'' 5690 144,
    INST ''Movhpd'' ''ExtMov'' 5699 145,
    INST ''Movhps'' ''ExtMov'' 5707 146,
    INST ''Movlhps'' ''ExtMov'' 5715 147,
    INST ''Movlpd'' ''ExtMov'' 5724 148,
    INST ''Movlps'' ''ExtMov'' 5732 149,
    INST ''Movmskpd'' ''ExtMov'' 5740 150,
    INST ''Movmskps'' ''ExtMov'' 5750 150,
    INST ''Movntdq'' ''ExtMov'' 5760 151,
    INST ''Movntdqa'' ''ExtMov'' 5769 123,
    INST ''Movnti'' ''ExtMovnti'' 1629 152,
    INST ''Movntpd'' ''ExtMov'' 5779 153,
    INST ''Movntps'' ''ExtMov'' 5788 154,
    INST ''Movntq'' ''ExtMov'' 1636 155,
    INST ''Movntsd'' ''ExtMov'' 1643 156,
    INST ''Movntss'' ''ExtMov'' 1651 157,
    INST ''Movq'' ''ExtMovq'' 7261 158,
    INST ''Movq2dq'' ''ExtRm'' 1659 159,
    INST ''MovsB'' ''X86Op'' 2106 160,
    INST ''MovsD'' ''X86Op'' 2117 160,
    INST ''MovsQ'' ''X86Op'' 2128 160,
    INST ''MovsW'' ''X86Op'' 2139 160,
    INST ''Movsd'' ''ExtMov'' 5803 161,
    INST ''Movshdup'' ''ExtRm'' 5810 53,
    INST ''Movsldup'' ''ExtRm'' 5820 53,
    INST ''Movss'' ''ExtMov'' 5830 162,
    INST ''Movsx'' ''X86MovsxMovzx'' 1667 163,
    INST ''Movsxd'' ''X86Rm'' 1673 164,
    INST ''Movupd'' ''ExtMov'' 5837 165,
    INST ''Movups'' ''ExtMov'' 5845 166,
    INST ''Movzx'' ''X86MovsxMovzx'' 1680 163,
    INST ''Mpsadbw'' ''ExtRmi'' 5853 13]"

definition instData_4 :: "X86Inst list" where
  "instData_4 = [
    INST ''Mul'' ''X86M_Bx_MulDiv'' 694 167,
    INST ''Mulpd'' ''ExtRm'' 5862 4,
    INST ''Mulps'' ''ExtRm'' 5869 4,
    INST ''Mulsd'' ''ExtRm'' 5876 5,
    INST ''Mulss'' ''ExtRm'' 5883 6,
    INST ''Mulx'' ''VexRvmZDX_Wx'' 1686 168,
    INST ''Mwait'' ''X86Op'' 1691 135,
    INST ''Neg'' ''X86M_Bx'' 1697 169,
    INST ''Nop'' ''X86Op'' 825 170,
    INST ''Not'' ''X86M_Bx'' 1701 171,
    INST ''Or'' ''X86Arith'' 1034 3,
    INST ''Orpd'' ''ExtRm'' 9316 4,
    INST ''Orps'' ''ExtRm'' 9323 4,
    INST ''Pabsb'' ''ExtRm_P'' 5902 172,
    INST ''Pabsd'' ''ExtRm_P'' 5909 172,
    INST ''Pabsw'' ''ExtRm_P'' 5923 172,
    INST ''Packssdw'' ''ExtRm_P'' 5930 172,
    INST ''Packsswb'' ''ExtRm_P'' 5940 172,
    INST ''Packusdw'' ''ExtRm'' 5950 4,
    INST ''Packuswb'' ''ExtRm_P'' 5960 172,
    INST ''Paddb'' ''ExtRm_P'' 5970 172,
    INST ''Paddd'' ''ExtRm_P'' 5977 172,
    INST ''Paddq'' ''ExtRm_P'' 5984 172,
    INST ''Paddsb'' ''ExtRm_P'' 5991 172,
    INST ''Paddsw'' ''ExtRm_P'' 5999 172,
    INST ''Paddusb'' ''ExtRm_P'' 6007 172,
    INST ''Paddusw'' ''ExtRm_P'' 6016 172,
    INST ''Paddw'' ''ExtRm_P'' 6025 172,
    INST ''Palignr'' ''ExtRmi_P'' 6032 173,
    INST ''Pand'' ''ExtRm_P'' 6041 172,
    INST ''Pandn'' ''ExtRm_P'' 6054 172,
    INST ''Pause'' ''X86Op'' 1705 174,
    INST ''Pavgb'' ''ExtRm_P'' 6084 172,
    INST ''Pavgusb'' ''Ext3dNow'' 1711 175,
    INST ''Pavgw'' ''ExtRm_P'' 6091 172,
    INST ''Pblendvb'' ''ExtRmXMM0'' 6107 14,
    INST ''Pblendw'' ''ExtRmi'' 6117 13,
    INST ''Pclmulqdq'' ''ExtRmi'' 6210 13,
    INST ''Pcmpeqb'' ''ExtRm_P'' 6242 172,
    INST ''Pcmpeqd'' ''ExtRm_P'' 6251 172,
    INST ''Pcmpeqq'' ''ExtRm'' 6260 4,
    INST ''Pcmpeqw'' ''ExtRm_P'' 6269 172,
    INST ''Pcmpestri'' ''ExtRmi'' 6278 176,
    INST ''Pcmpestrm'' ''ExtRmi'' 6289 177,
    INST ''Pcmpgtb'' ''ExtRm_P'' 6300 172,
    INST ''Pcmpgtd'' ''ExtRm_P'' 6309 172,
    INST ''Pcmpgtq'' ''ExtRm'' 6318 4,
    INST ''Pcmpgtw'' ''ExtRm_P'' 6327 172,
    INST ''Pcmpistri'' ''ExtRmi'' 6336 178,
    INST ''Pcmpistrm'' ''ExtRmi'' 6347 179,
    INST ''Pcommit'' ''X86Op_O'' 1719 69,
    INST ''Pdep'' ''VexRvm_Wx'' 1727 180,
    INST ''Pext'' ''VexRvm_Wx'' 1732 180,
    INST ''Pextrb'' ''ExtExtract'' 6752 181,
    INST ''Pextrd'' ''ExtExtract'' 6760 71,
    INST ''Pextrq'' ''ExtExtract'' 6768 182,
    INST ''Pextrw'' ''ExtPextrw'' 6776 183,
    INST ''Pf2id'' ''Ext3dNow'' 1737 184,
    INST ''Pf2iw'' ''Ext3dNow'' 1743 184,
    INST ''Pfacc'' ''Ext3dNow'' 1749 175,
    INST ''Pfadd'' ''Ext3dNow'' 1755 175,
    INST ''Pfcmpeq'' ''Ext3dNow'' 1761 175,
    INST ''Pfcmpge'' ''Ext3dNow'' 1769 175,
    INST ''Pfcmpgt'' ''Ext3dNow'' 1777 175,
    INST ''Pfmax'' ''Ext3dNow'' 1785 175,
    INST ''Pfmin'' ''Ext3dNow'' 1791 175,
    INST ''Pfmul'' ''Ext3dNow'' 1797 175,
    INST ''Pfnacc'' ''Ext3dNow'' 1803 175,
    INST ''Pfpnacc'' ''Ext3dNow'' 1810 175,
    INST ''Pfrcp'' ''Ext3dNow'' 1818 184,
    INST ''Pfrcpit1'' ''Ext3dNow'' 1824 175,
    INST ''Pfrcpit2'' ''Ext3dNow'' 1833 175,
    INST ''Pfrcpv'' ''Ext3dNow'' 1842 175,
    INST ''Pfrsqit1'' ''Ext3dNow'' 1849 185,
    INST ''Pfrsqrt'' ''Ext3dNow'' 1858 185,
    INST ''Pfrsqrtv'' ''Ext3dNow'' 1866 175,
    INST ''Pfsub'' ''Ext3dNow'' 1875 175,
    INST ''Pfsubr'' ''Ext3dNow'' 1881 175,
    INST ''Phaddd'' ''ExtRm_P'' 6855 172,
    INST ''Phaddsw'' ''ExtRm_P'' 6872 172,
    INST ''Phaddw'' ''ExtRm_P'' 6941 172,
    INST ''Phminposuw'' ''ExtRm'' 6967 4,
    INST ''Phsubd'' ''ExtRm_P'' 6988 172,
    INST ''Phsubsw'' ''ExtRm_P'' 7005 172,
    INST ''Phsubw'' ''ExtRm_P'' 7014 172,
    INST ''Pi2fd'' ''Ext3dNow'' 1888 184,
    INST ''Pi2fw'' ''Ext3dNow'' 1894 184,
    INST ''Pinsrb'' ''ExtRmi'' 7031 186,
    INST ''Pinsrd'' ''ExtRmi'' 7039 187,
    INST ''Pinsrq'' ''ExtRmi'' 7047 188,
    INST ''Pinsrw'' ''ExtRmi_P'' 7055 189,
    INST ''Pmaddubsw'' ''ExtRm_P'' 7225 172,
    INST ''Pmaddwd'' ''ExtRm_P'' 7236 172,
    INST ''Pmaxsb'' ''ExtRm'' 7267 4,
    INST ''Pmaxsd'' ''ExtRm'' 7275 4,
    INST ''Pmaxsw'' ''ExtRm_P'' 7291 172,
    INST ''Pmaxub'' ''ExtRm_P'' 7299 172,
    INST ''Pmaxud'' ''ExtRm'' 7307 4,
    INST ''Pmaxuw'' ''ExtRm'' 7323 4,
    INST ''Pminsb'' ''ExtRm'' 7331 4]"

definition instData_5 :: "X86Inst list" where
  "instData_5 = [
    INST ''Pminsd'' ''ExtRm'' 7339 4,
    INST ''Pminsw'' ''ExtRm_P'' 7355 172,
    INST ''Pminub'' ''ExtRm_P'' 7363 172,
    INST ''Pminud'' ''ExtRm'' 7371 4,
    INST ''Pminuw'' ''ExtRm'' 7387 4,
    INST ''Pmovmskb'' ''ExtRm_P'' 7465 190,
    INST ''Pmovsxbd'' ''ExtRm'' 7562 191,
    INST ''Pmovsxbq'' ''ExtRm'' 7572 192,
    INST ''Pmovsxbw'' ''ExtRm'' 7582 52,
    INST ''Pmovsxdq'' ''ExtRm'' 7592 52,
    INST ''Pmovsxwd'' ''ExtRm'' 7602 52,
    INST ''Pmovsxwq'' ''ExtRm'' 7612 191,
    INST ''Pmovzxbd'' ''ExtRm'' 7699 191,
    INST ''Pmovzxbq'' ''ExtRm'' 7709 192,
    INST ''Pmovzxbw'' ''ExtRm'' 7719 52,
    INST ''Pmovzxdq'' ''ExtRm'' 7729 52,
    INST ''Pmovzxwd'' ''ExtRm'' 7739 52,
    INST ''Pmovzxwq'' ''ExtRm'' 7749 191,
    INST ''Pmuldq'' ''ExtRm'' 7759 4,
    INST ''Pmulhrsw'' ''ExtRm_P'' 7767 172,
    INST ''Pmulhrw'' ''Ext3dNow'' 1900 175,
    INST ''Pmulhuw'' ''ExtRm_P'' 7777 172,
    INST ''Pmulhw'' ''ExtRm_P'' 7786 172,
    INST ''Pmulld'' ''ExtRm'' 7794 4,
    INST ''Pmullw'' ''ExtRm_P'' 7810 172,
    INST ''Pmuludq'' ''ExtRm_P'' 7833 172,
    INST ''Pop'' ''X86Pop'' 1908 193,
    INST ''Popa'' ''X86Op'' 1912 194,
    INST ''Popcnt'' ''X86Rm'' 1917 195,
    INST ''Popf'' ''X86Op'' 1924 196,
    INST ''Por'' ''ExtRm_P'' 7842 172,
    INST ''Prefetch'' ''X86Prefetch'' 1929 197,
    INST ''Prefetch3dNow'' ''X86M_Only'' 1938 29,
    INST ''Prefetchw'' ''X86M_Only'' 1952 198,
    INST ''Prefetchwt1'' ''X86M_Only'' 1962 198,
    INST ''Psadbw'' ''ExtRm_P'' 3731 172,
    INST ''Pshufb'' ''ExtRm_P'' 8066 199,
    INST ''Pshufd'' ''ExtRmi'' 8074 200,
    INST ''Pshufhw'' ''ExtRmi'' 8082 200,
    INST ''Pshuflw'' ''ExtRmi'' 8091 200,
    INST ''Pshufw'' ''ExtRmi_P'' 1974 201,
    INST ''Psignb'' ''ExtRm_P'' 8100 172,
    INST ''Psignd'' ''ExtRm_P'' 8108 172,
    INST ''Psignw'' ''ExtRm_P'' 8116 172,
    INST ''Pslld'' ''ExtRmRi_P'' 8124 202,
    INST ''Pslldq'' ''ExtRmRi'' 8131 203,
    INST ''Psllq'' ''ExtRmRi_P'' 8139 204,
    INST ''Psllw'' ''ExtRmRi_P'' 8170 205,
    INST ''Psrad'' ''ExtRmRi_P'' 8177 206,
    INST ''Psraw'' ''ExtRmRi_P'' 8215 207,
    INST ''Psrld'' ''ExtRmRi_P'' 8222 208,
    INST ''Psrldq'' ''ExtRmRi'' 8229 209,
    INST ''Psrlq'' ''ExtRmRi_P'' 8237 210,
    INST ''Psrlw'' ''ExtRmRi_P'' 8268 211,
    INST ''Psubb'' ''ExtRm_P'' 8275 172,
    INST ''Psubd'' ''ExtRm_P'' 8282 172,
    INST ''Psubq'' ''ExtRm_P'' 8289 172,
    INST ''Psubsb'' ''ExtRm_P'' 8296 172,
    INST ''Psubsw'' ''ExtRm_P'' 8304 172,
    INST ''Psubusb'' ''ExtRm_P'' 8312 172,
    INST ''Psubusw'' ''ExtRm_P'' 8321 172,
    INST ''Psubw'' ''ExtRm_P'' 8330 172,
    INST ''Pswapd'' ''Ext3dNow'' 1981 184,
    INST ''Ptest'' ''ExtRm'' 8359 212,
    INST ''Punpckhbw'' ''ExtRm_P'' 8442 172,
    INST ''Punpckhdq'' ''ExtRm_P'' 8453 172,
    INST ''Punpckhqdq'' ''ExtRm'' 8464 4,
    INST ''Punpckhwd'' ''ExtRm_P'' 8476 172,
    INST ''Punpcklbw'' ''ExtRm_P'' 8487 172,
    INST ''Punpckldq'' ''ExtRm_P'' 8498 172,
    INST ''Punpcklqdq'' ''ExtRm'' 8509 4,
    INST ''Punpcklwd'' ''ExtRm_P'' 8521 172,
    INST ''Push'' ''X86Push'' 1988 213,
    INST ''Pusha'' ''X86Op'' 1993 194,
    INST ''Pushf'' ''X86Op'' 1999 214,
    INST ''Pxor'' ''ExtRm_P'' 8532 172,
    INST ''Rcl'' ''X86Rot'' 2005 215,
    INST ''Rcpps'' ''ExtRm'' 8660 53,
    INST ''Rcpss'' ''ExtRm'' 8667 216,
    INST ''Rcr'' ''X86Rot'' 2009 215,
    INST ''Rdfsbase'' ''X86M'' 2013 217,
    INST ''Rdgsbase'' ''X86M'' 2022 217,
    INST ''Rdrand'' ''X86M'' 2031 218,
    INST ''Rdseed'' ''X86M'' 2038 218,
    INST ''Rdtsc'' ''X86Op'' 2045 219,
    INST ''Rdtscp'' ''X86Op'' 2051 220,
    INST ''RepLodsB'' ''X86Rep'' 2058 221,
    INST ''RepLodsD'' ''X86Rep'' 2069 221,
    INST ''RepLodsQ'' ''X86Rep'' 2080 221,
    INST ''RepLodsW'' ''X86Rep'' 2091 221,
    INST ''RepMovsB'' ''X86Rep'' 2102 221,
    INST ''RepMovsD'' ''X86Rep'' 2113 221,
    INST ''RepMovsQ'' ''X86Rep'' 2124 221,
    INST ''RepMovsW'' ''X86Rep'' 2135 221,
    INST ''RepStosB'' ''X86Rep'' 2146 221,
    INST ''RepStosD'' ''X86Rep'' 2157 221,
    INST ''RepStosQ'' ''X86Rep'' 2168 221,
    INST ''RepStosW'' ''X86Rep'' 2179 221,
    INST ''RepeCmpsB'' ''X86Rep'' 2190 41,
    INST ''RepeCmpsD'' ''X86Rep'' 2202 41]"

definition instData_6 :: "X86Inst list" where
  "instData_6 = [
    INST ''RepeCmpsQ'' ''X86Rep'' 2214 41,
    INST ''RepeCmpsW'' ''X86Rep'' 2226 41,
    INST ''RepeScasB'' ''X86Rep'' 2238 41,
    INST ''RepeScasD'' ''X86Rep'' 2250 41,
    INST ''RepeScasQ'' ''X86Rep'' 2262 41,
    INST ''RepeScasW'' ''X86Rep'' 2274 41,
    INST ''RepneCmpsB'' ''X86Rep'' 2286 41,
    INST ''RepneCmpsD'' ''X86Rep'' 2299 41,
    INST ''RepneCmpsQ'' ''X86Rep'' 2312 41,
    INST ''RepneCmpsW'' ''X86Rep'' 2325 41,
    INST ''RepneScasB'' ''X86Rep'' 2338 41,
    INST ''RepneScasD'' ''X86Rep'' 2351 41,
    INST ''RepneScasQ'' ''X86Rep'' 2364 41,
    INST ''RepneScasW'' ''X86Rep'' 2377 41,
    INST ''Ret'' ''X86Ret'' 2390 222,
    INST ''Rol'' ''X86Rot'' 2394 223,
    INST ''Ror'' ''X86Rot'' 2398 223,
    INST ''Rorx'' ''VexRmi_Wx'' 2402 224,
    INST ''Roundpd'' ''ExtRmi'' 8762 200,
    INST ''Roundps'' ''ExtRmi'' 8771 200,
    INST ''Roundsd'' ''ExtRmi'' 8780 225,
    INST ''Roundss'' ''ExtRmi'' 8789 226,
    INST ''Rsqrtps'' ''ExtRm'' 8886 53,
    INST ''Rsqrtss'' ''ExtRm'' 8895 216,
    INST ''Sahf'' ''X86Op'' 2407 227,
    INST ''Sal'' ''X86Rot'' 2412 228,
    INST ''Sar'' ''X86Rot'' 2416 228,
    INST ''Sarx'' ''VexRmv_Wx'' 2420 229,
    INST ''Sbb'' ''X86Arith'' 2425 1,
    INST ''ScasB'' ''X86Op'' 2344 41,
    INST ''ScasD'' ''X86Op'' 2357 41,
    INST ''ScasQ'' ''X86Op'' 2370 41,
    INST ''ScasW'' ''X86Op'' 2383 41,
    INST ''Seta'' ''X86Set'' 2429 230,
    INST ''Setae'' ''X86Set'' 2434 231,
    INST ''Setb'' ''X86Set'' 2440 231,
    INST ''Setbe'' ''X86Set'' 2445 230,
    INST ''Setc'' ''X86Set'' 2451 231,
    INST ''Sete'' ''X86Set'' 2456 232,
    INST ''Setg'' ''X86Set'' 2461 233,
    INST ''Setge'' ''X86Set'' 2466 234,
    INST ''Setl'' ''X86Set'' 2472 234,
    INST ''Setle'' ''X86Set'' 2477 233,
    INST ''Setna'' ''X86Set'' 2483 230,
    INST ''Setnae'' ''X86Set'' 2489 231,
    INST ''Setnb'' ''X86Set'' 2496 231,
    INST ''Setnbe'' ''X86Set'' 2502 230,
    INST ''Setnc'' ''X86Set'' 2509 231,
    INST ''Setne'' ''X86Set'' 2515 232,
    INST ''Setng'' ''X86Set'' 2521 233,
    INST ''Setnge'' ''X86Set'' 2527 234,
    INST ''Setnl'' ''X86Set'' 2534 234,
    INST ''Setnle'' ''X86Set'' 2540 233,
    INST ''Setno'' ''X86Set'' 2547 235,
    INST ''Setnp'' ''X86Set'' 2553 236,
    INST ''Setns'' ''X86Set'' 2559 237,
    INST ''Setnz'' ''X86Set'' 2565 232,
    INST ''Seto'' ''X86Set'' 2571 235,
    INST ''Setp'' ''X86Set'' 2576 236,
    INST ''Setpe'' ''X86Set'' 2581 236,
    INST ''Setpo'' ''X86Set'' 2587 236,
    INST ''Sets'' ''X86Set'' 2593 237,
    INST ''Setz'' ''X86Set'' 2598 232,
    INST ''Sfence'' ''X86Fence'' 2603 69,
    INST ''Sha1msg1'' ''ExtRm'' 2610 4,
    INST ''Sha1msg2'' ''ExtRm'' 2619 4,
    INST ''Sha1nexte'' ''ExtRm'' 2628 4,
    INST ''Sha1rnds4'' ''ExtRmi'' 2638 13,
    INST ''Sha256msg1'' ''ExtRm'' 2648 4,
    INST ''Sha256msg2'' ''ExtRm'' 2659 4,
    INST ''Sha256rnds2'' ''ExtRmXMM0'' 2670 14,
    INST ''Shl'' ''X86Rot'' 2682 228,
    INST ''Shld'' ''X86ShldShrd'' 8046 238,
    INST ''Shlx'' ''VexRmv_Wx'' 2686 229,
    INST ''Shr'' ''X86Rot'' 2691 228,
    INST ''Shrd'' ''X86ShldShrd'' 2695 238,
    INST ''Shrx'' ''VexRmv_Wx'' 2700 229,
    INST ''Shufpd'' ''ExtRmi'' 9156 13,
    INST ''Shufps'' ''ExtRmi'' 9164 13,
    INST ''Sqrtpd'' ''ExtRm'' 9172 53,
    INST ''Sqrtps'' ''ExtRm'' 8887 53,
    INST ''Sqrtsd'' ''ExtRm'' 9188 239,
    INST ''Sqrtss'' ''ExtRm'' 8896 216,
    INST ''Stac'' ''X86Op'' 2705 26,
    INST ''Stc'' ''X86Op'' 2710 240,
    INST ''Std'' ''X86Op'' 6147 241,
    INST ''Sti'' ''X86Op'' 2714 242,
    INST ''Stmxcsr'' ''X86M_Only'' 9204 243,
    INST ''StosB'' ''X86Op'' 2150 221,
    INST ''StosD'' ''X86Op'' 2161 221,
    INST ''StosQ'' ''X86Op'' 2172 221,
    INST ''StosW'' ''X86Op'' 2183 221,
    INST ''Sub'' ''X86Arith'' 732 3,
    INST ''Subpd'' ''ExtRm'' 4287 4,
    INST ''Subps'' ''ExtRm'' 4299 4,
    INST ''Subsd'' ''ExtRm'' 4975 5,
    INST ''Subss'' ''ExtRm'' 4985 6,
    INST ''T1mskc'' ''VexVm_Wx'' 2718 12,
    INST ''Test'' ''X86Test'' 8360 244,
    INST ''Tzcnt'' ''X86Rm'' 2725 195]"

definition instData_7 :: "X86Inst list" where
  "instData_7 = [
    INST ''Tzmsk'' ''VexVm_Wx'' 2731 12,
    INST ''Ucomisd'' ''ExtRm'' 9257 47,
    INST ''Ucomiss'' ''ExtRm'' 9266 48,
    INST ''Ud2'' ''X86Op'' 2737 245,
    INST ''Unpckhpd'' ''ExtRm'' 9275 4,
    INST ''Unpckhps'' ''ExtRm'' 9285 4,
    INST ''Unpcklpd'' ''ExtRm'' 9295 4,
    INST ''Unpcklps'' ''ExtRm'' 9305 4,
    INST ''Vaddpd'' ''VexRvm_Lx'' 2741 246,
    INST ''Vaddps'' ''VexRvm_Lx'' 2748 247,
    INST ''Vaddsd'' ''VexRvm'' 2755 248,
    INST ''Vaddss'' ''VexRvm'' 2762 249,
    INST ''Vaddsubpd'' ''VexRvm_Lx'' 2769 250,
    INST ''Vaddsubps'' ''VexRvm_Lx'' 2779 250,
    INST ''Vaesdec'' ''VexRvm'' 2789 251,
    INST ''Vaesdeclast'' ''VexRvm'' 2797 251,
    INST ''Vaesenc'' ''VexRvm'' 2809 251,
    INST ''Vaesenclast'' ''VexRvm'' 2817 251,
    INST ''Vaesimc'' ''VexRm'' 2829 252,
    INST ''Vaeskeygenassist'' ''VexRmi'' 2837 253,
    INST ''Valignd'' ''VexRvmi_Lx'' 2854 254,
    INST ''Valignq'' ''VexRvmi_Lx'' 2862 255,
    INST ''Vandnpd'' ''VexRvm_Lx'' 2870 256,
    INST ''Vandnps'' ''VexRvm_Lx'' 2878 257,
    INST ''Vandpd'' ''VexRvm_Lx'' 2886 256,
    INST ''Vandps'' ''VexRvm_Lx'' 2893 257,
    INST ''Vblendmb'' ''VexRvm_Lx'' 2900 258,
    INST ''Vblendmd'' ''VexRvm_Lx'' 2909 259,
    INST ''Vblendmpd'' ''VexRvm_Lx'' 2918 260,
    INST ''Vblendmps'' ''VexRvm_Lx'' 2928 259,
    INST ''Vblendmq'' ''VexRvm_Lx'' 2938 260,
    INST ''Vblendmw'' ''VexRvm_Lx'' 2947 258,
    INST ''Vblendpd'' ''VexRvmi_Lx'' 2956 261,
    INST ''Vblendps'' ''VexRvmi_Lx'' 2965 261,
    INST ''Vblendvpd'' ''VexRvmr_Lx'' 2974 262,
    INST ''Vblendvps'' ''VexRvmr_Lx'' 2984 262,
    INST ''Vbroadcastf128'' ''VexRm'' 2994 263,
    INST ''Vbroadcastf32x2'' ''VexRm_Lx'' 3009 264,
    INST ''Vbroadcastf32x4'' ''VexRm_Lx'' 3025 265,
    INST ''Vbroadcastf32x8'' ''VexRm'' 3041 266,
    INST ''Vbroadcastf64x2'' ''VexRm_Lx'' 3057 267,
    INST ''Vbroadcastf64x4'' ''VexRm'' 3073 268,
    INST ''Vbroadcasti128'' ''VexRm'' 3089 263,
    INST ''Vbroadcasti32x2'' ''VexRm_Lx'' 3104 269,
    INST ''Vbroadcasti32x4'' ''VexRm_Lx'' 3120 270,
    INST ''Vbroadcasti32x8'' ''VexRm'' 3136 271,
    INST ''Vbroadcasti64x2'' ''VexRm_Lx'' 3152 264,
    INST ''Vbroadcasti64x4'' ''VexRm'' 3168 272,
    INST ''Vbroadcastsd'' ''VexRm_Lx'' 3184 273,
    INST ''Vbroadcastss'' ''VexRm_Lx'' 3197 274,
    INST ''Vcmppd'' ''VexRvmi_Lx'' 3210 275,
    INST ''Vcmpps'' ''VexRvmi_Lx'' 3217 276,
    INST ''Vcmpsd'' ''VexRvmi'' 3224 277,
    INST ''Vcmpss'' ''VexRvmi'' 3231 278,
    INST ''Vcomisd'' ''VexRm'' 3238 279,
    INST ''Vcomiss'' ''VexRm'' 3246 280,
    INST ''Vcompresspd'' ''VexMr_Lx'' 3254 281,
    INST ''Vcompressps'' ''VexMr_Lx'' 3266 281,
    INST ''Vcvtdq2pd'' ''VexRm_Lx'' 3278 282,
    INST ''Vcvtdq2ps'' ''VexRm_Lx'' 3288 283,
    INST ''Vcvtpd2dq'' ''VexRm_Lx'' 3298 284,
    INST ''Vcvtpd2ps'' ''VexRm_Lx'' 3308 285,
    INST ''Vcvtpd2qq'' ''VexRm_Lx'' 3318 286,
    INST ''Vcvtpd2udq'' ''VexRm_Lx'' 3328 287,
    INST ''Vcvtpd2uqq'' ''VexRm_Lx'' 3339 286,
    INST ''Vcvtph2ps'' ''VexRm_Lx'' 3350 288,
    INST ''Vcvtps2dq'' ''VexRm_Lx'' 3360 283,
    INST ''Vcvtps2pd'' ''VexRm_Lx'' 3370 289,
    INST ''Vcvtps2ph'' ''VexMri_Lx'' 3380 290,
    INST ''Vcvtps2qq'' ''VexRm_Lx'' 3390 291,
    INST ''Vcvtps2udq'' ''VexRm_Lx'' 3400 292,
    INST ''Vcvtps2uqq'' ''VexRm_Lx'' 3411 291,
    INST ''Vcvtqq2pd'' ''VexRm_Lx'' 3422 286,
    INST ''Vcvtqq2ps'' ''VexRm_Lx'' 3432 293,
    INST ''Vcvtsd2si'' ''VexRm'' 3442 294,
    INST ''Vcvtsd2ss'' ''VexRvm'' 3452 248,
    INST ''Vcvtsd2usi'' ''VexRm'' 3462 295,
    INST ''Vcvtsi2sd'' ''VexRvm'' 3473 296,
    INST ''Vcvtsi2ss'' ''VexRvm'' 3483 296,
    INST ''Vcvtss2sd'' ''VexRvm'' 3493 297,
    INST ''Vcvtss2si'' ''VexRm'' 3503 298,
    INST ''Vcvtss2usi'' ''VexRm'' 3513 299,
    INST ''Vcvttpd2dq'' ''VexRm_Lx'' 3524 300,
    INST ''Vcvttpd2qq'' ''VexRm_Lx'' 3535 301,
    INST ''Vcvttpd2udq'' ''VexRm_Lx'' 3546 302,
    INST ''Vcvttpd2uqq'' ''VexRm_Lx'' 3558 303,
    INST ''Vcvttps2dq'' ''VexRm_Lx'' 3570 304,
    INST ''Vcvttps2qq'' ''VexRm_Lx'' 3581 305,
    INST ''Vcvttps2udq'' ''VexRm_Lx'' 3592 306,
    INST ''Vcvttps2uqq'' ''VexRm_Lx'' 3604 305,
    INST ''Vcvttsd2si'' ''VexRm'' 3616 307,
    INST ''Vcvttsd2usi'' ''VexRm'' 3627 308,
    INST ''Vcvttss2si'' ''VexRm'' 3639 309,
    INST ''Vcvttss2usi'' ''VexRm'' 3650 310,
    INST ''Vcvtudq2pd'' ''VexRm_Lx'' 3662 311,
    INST ''Vcvtudq2ps'' ''VexRm_Lx'' 3673 292,
    INST ''Vcvtuqq2pd'' ''VexRm_Lx'' 3684 286,
    INST ''Vcvtuqq2ps'' ''VexRm_Lx'' 3695 293,
    INST ''Vcvtusi2sd'' ''VexRvm'' 3706 312,
    INST ''Vcvtusi2ss'' ''VexRvm'' 3717 312]"

definition instData_8 :: "X86Inst list" where
  "instData_8 = [
    INST ''Vdbpsadbw'' ''VexRvmi_Lx'' 3728 313,
    INST ''Vdivpd'' ''VexRvm_Lx'' 3738 246,
    INST ''Vdivps'' ''VexRvm_Lx'' 3745 247,
    INST ''Vdivsd'' ''VexRvm'' 3752 248,
    INST ''Vdivss'' ''VexRvm'' 3759 249,
    INST ''Vdppd'' ''VexRvmi_Lx'' 3766 261,
    INST ''Vdpps'' ''VexRvmi_Lx'' 3772 261,
    INST ''Vexp2pd'' ''VexRm'' 3778 314,
    INST ''Vexp2ps'' ''VexRm'' 3786 315,
    INST ''Vexpandpd'' ''VexRm_Lx'' 3794 316,
    INST ''Vexpandps'' ''VexRm_Lx'' 3804 316,
    INST ''Vextractf128'' ''VexMri'' 3814 317,
    INST ''Vextractf32x4'' ''VexMri_Lx'' 3827 318,
    INST ''Vextractf32x8'' ''VexMri'' 3841 319,
    INST ''Vextractf64x2'' ''VexMri_Lx'' 3855 320,
    INST ''Vextractf64x4'' ''VexMri'' 3869 321,
    INST ''Vextracti128'' ''VexMri'' 3883 317,
    INST ''Vextracti32x4'' ''VexMri_Lx'' 3896 318,
    INST ''Vextracti32x8'' ''VexMri'' 3910 319,
    INST ''Vextracti64x2'' ''VexMri_Lx'' 3924 320,
    INST ''Vextracti64x4'' ''VexMri'' 3938 321,
    INST ''Vextractps'' ''VexMri'' 3952 322,
    INST ''Vfixupimmpd'' ''VexRvmi_Lx'' 3963 323,
    INST ''Vfixupimmps'' ''VexRvmi_Lx'' 3975 324,
    INST ''Vfixupimmsd'' ''VexRvmi'' 3987 325,
    INST ''Vfixupimmss'' ''VexRvmi'' 3999 326,
    INST ''Vfmadd132pd'' ''VexRvm_Lx'' 4011 327,
    INST ''Vfmadd132ps'' ''VexRvm_Lx'' 4023 328,
    INST ''Vfmadd132sd'' ''VexRvm'' 4035 329,
    INST ''Vfmadd132ss'' ''VexRvm'' 4047 330,
    INST ''Vfmadd213pd'' ''VexRvm_Lx'' 4059 327,
    INST ''Vfmadd213ps'' ''VexRvm_Lx'' 4071 328,
    INST ''Vfmadd213sd'' ''VexRvm'' 4083 329,
    INST ''Vfmadd213ss'' ''VexRvm'' 4095 330,
    INST ''Vfmadd231pd'' ''VexRvm_Lx'' 4107 327,
    INST ''Vfmadd231ps'' ''VexRvm_Lx'' 4119 328,
    INST ''Vfmadd231sd'' ''VexRvm'' 4131 329,
    INST ''Vfmadd231ss'' ''VexRvm'' 4143 330,
    INST ''Vfmaddpd'' ''Fma4_Lx'' 4155 331,
    INST ''Vfmaddps'' ''Fma4_Lx'' 4164 331,
    INST ''Vfmaddsd'' ''Fma4'' 4173 332,
    INST ''Vfmaddss'' ''Fma4'' 4182 333,
    INST ''Vfmaddsub132pd'' ''VexRvm_Lx'' 4191 327,
    INST ''Vfmaddsub132ps'' ''VexRvm_Lx'' 4206 328,
    INST ''Vfmaddsub213pd'' ''VexRvm_Lx'' 4221 327,
    INST ''Vfmaddsub213ps'' ''VexRvm_Lx'' 4236 328,
    INST ''Vfmaddsub231pd'' ''VexRvm_Lx'' 4251 327,
    INST ''Vfmaddsub231ps'' ''VexRvm_Lx'' 4266 328,
    INST ''Vfmaddsubpd'' ''Fma4_Lx'' 4281 331,
    INST ''Vfmaddsubps'' ''Fma4_Lx'' 4293 331,
    INST ''Vfmsub132pd'' ''VexRvm_Lx'' 4305 327,
    INST ''Vfmsub132ps'' ''VexRvm_Lx'' 4317 328,
    INST ''Vfmsub132sd'' ''VexRvm'' 4329 329,
    INST ''Vfmsub132ss'' ''VexRvm'' 4341 330,
    INST ''Vfmsub213pd'' ''VexRvm_Lx'' 4353 327,
    INST ''Vfmsub213ps'' ''VexRvm_Lx'' 4365 328,
    INST ''Vfmsub213sd'' ''VexRvm'' 4377 329,
    INST ''Vfmsub213ss'' ''VexRvm'' 4389 330,
    INST ''Vfmsub231pd'' ''VexRvm_Lx'' 4401 327,
    INST ''Vfmsub231ps'' ''VexRvm_Lx'' 4413 328,
    INST ''Vfmsub231sd'' ''VexRvm'' 4425 329,
    INST ''Vfmsub231ss'' ''VexRvm'' 4437 330,
    INST ''Vfmsubadd132pd'' ''VexRvm_Lx'' 4449 327,
    INST ''Vfmsubadd132ps'' ''VexRvm_Lx'' 4464 328,
    INST ''Vfmsubadd213pd'' ''VexRvm_Lx'' 4479 327,
    INST ''Vfmsubadd213ps'' ''VexRvm_Lx'' 4494 328,
    INST ''Vfmsubadd231pd'' ''VexRvm_Lx'' 4509 327,
    INST ''Vfmsubadd231ps'' ''VexRvm_Lx'' 4524 328,
    INST ''Vfmsubaddpd'' ''Fma4_Lx'' 4539 331,
    INST ''Vfmsubaddps'' ''Fma4_Lx'' 4551 331,
    INST ''Vfmsubpd'' ''Fma4_Lx'' 4563 331,
    INST ''Vfmsubps'' ''Fma4_Lx'' 4572 331,
    INST ''Vfmsubsd'' ''Fma4'' 4581 332,
    INST ''Vfmsubss'' ''Fma4'' 4590 333,
    INST ''Vfnmadd132pd'' ''VexRvm_Lx'' 4599 327,
    INST ''Vfnmadd132ps'' ''VexRvm_Lx'' 4612 328,
    INST ''Vfnmadd132sd'' ''VexRvm'' 4625 329,
    INST ''Vfnmadd132ss'' ''VexRvm'' 4638 330,
    INST ''Vfnmadd213pd'' ''VexRvm_Lx'' 4651 327,
    INST ''Vfnmadd213ps'' ''VexRvm_Lx'' 4664 328,
    INST ''Vfnmadd213sd'' ''VexRvm'' 4677 329,
    INST ''Vfnmadd213ss'' ''VexRvm'' 4690 330,
    INST ''Vfnmadd231pd'' ''VexRvm_Lx'' 4703 327,
    INST ''Vfnmadd231ps'' ''VexRvm_Lx'' 4716 328,
    INST ''Vfnmadd231sd'' ''VexRvm'' 4729 329,
    INST ''Vfnmadd231ss'' ''VexRvm'' 4742 330,
    INST ''Vfnmaddpd'' ''Fma4_Lx'' 4755 331,
    INST ''Vfnmaddps'' ''Fma4_Lx'' 4765 331,
    INST ''Vfnmaddsd'' ''Fma4'' 4775 332,
    INST ''Vfnmaddss'' ''Fma4'' 4785 333,
    INST ''Vfnmsub132pd'' ''VexRvm_Lx'' 4795 327,
    INST ''Vfnmsub132ps'' ''VexRvm_Lx'' 4808 328,
    INST ''Vfnmsub132sd'' ''VexRvm'' 4821 329,
    INST ''Vfnmsub132ss'' ''VexRvm'' 4834 330,
    INST ''Vfnmsub213pd'' ''VexRvm_Lx'' 4847 327,
    INST ''Vfnmsub213ps'' ''VexRvm_Lx'' 4860 328,
    INST ''Vfnmsub213sd'' ''VexRvm'' 4873 329,
    INST ''Vfnmsub213ss'' ''VexRvm'' 4886 330,
    INST ''Vfnmsub231pd'' ''VexRvm_Lx'' 4899 327,
    INST ''Vfnmsub231ps'' ''VexRvm_Lx'' 4912 328]"

definition instData_9 :: "X86Inst list" where
  "instData_9 = [
    INST ''Vfnmsub231sd'' ''VexRvm'' 4925 329,
    INST ''Vfnmsub231ss'' ''VexRvm'' 4938 330,
    INST ''Vfnmsubpd'' ''Fma4_Lx'' 4951 331,
    INST ''Vfnmsubps'' ''Fma4_Lx'' 4961 331,
    INST ''Vfnmsubsd'' ''Fma4'' 4971 332,
    INST ''Vfnmsubss'' ''Fma4'' 4981 333,
    INST ''Vfpclasspd'' ''VexRmi_Lx'' 4991 334,
    INST ''Vfpclassps'' ''VexRmi_Lx'' 5002 335,
    INST ''Vfpclasssd'' ''VexRmi_Lx'' 5013 336,
    INST ''Vfpclassss'' ''VexRmi_Lx'' 5024 337,
    INST ''Vfrczpd'' ''VexRm_Lx'' 5035 338,
    INST ''Vfrczps'' ''VexRm_Lx'' 5043 338,
    INST ''Vfrczsd'' ''VexRm'' 5051 339,
    INST ''Vfrczss'' ''VexRm'' 5059 340,
    INST ''Vgatherdpd'' ''VexRmvRm_VM'' 5067 341,
    INST ''Vgatherdps'' ''VexRmvRm_VM'' 5078 342,
    INST ''Vgatherpf0dpd'' ''VexM_VM'' 5089 343,
    INST ''Vgatherpf0dps'' ''VexM_VM'' 5103 344,
    INST ''Vgatherpf0qpd'' ''VexM_VM'' 5117 345,
    INST ''Vgatherpf0qps'' ''VexM_VM'' 5131 345,
    INST ''Vgatherpf1dpd'' ''VexM_VM'' 5145 343,
    INST ''Vgatherpf1dps'' ''VexM_VM'' 5159 344,
    INST ''Vgatherpf1qpd'' ''VexM_VM'' 5173 345,
    INST ''Vgatherpf1qps'' ''VexM_VM'' 5187 345,
    INST ''Vgatherqpd'' ''VexRmvRm_VM'' 5201 346,
    INST ''Vgatherqps'' ''VexRmvRm_VM'' 5212 347,
    INST ''Vgetexppd'' ''VexRm_Lx'' 5223 301,
    INST ''Vgetexpps'' ''VexRm_Lx'' 5233 306,
    INST ''Vgetexpsd'' ''VexRm'' 5243 348,
    INST ''Vgetexpss'' ''VexRm'' 5253 349,
    INST ''Vgetmantpd'' ''VexRmi_Lx'' 5263 350,
    INST ''Vgetmantps'' ''VexRmi_Lx'' 5274 351,
    INST ''Vgetmantsd'' ''VexRmi'' 5285 352,
    INST ''Vgetmantss'' ''VexRmi'' 5296 353,
    INST ''Vhaddpd'' ''VexRvm_Lx'' 5307 250,
    INST ''Vhaddps'' ''VexRvm_Lx'' 5315 250,
    INST ''Vhsubpd'' ''VexRvm_Lx'' 5323 250,
    INST ''Vhsubps'' ''VexRvm_Lx'' 5331 250,
    INST ''Vinsertf128'' ''VexRvmi'' 5339 354,
    INST ''Vinsertf32x4'' ''VexRvmi_Lx'' 5351 355,
    INST ''Vinsertf32x8'' ''VexRvmi'' 5364 356,
    INST ''Vinsertf64x2'' ''VexRvmi_Lx'' 5377 357,
    INST ''Vinsertf64x4'' ''VexRvmi'' 5390 358,
    INST ''Vinserti128'' ''VexRvmi'' 5403 354,
    INST ''Vinserti32x4'' ''VexRvmi_Lx'' 5415 355,
    INST ''Vinserti32x8'' ''VexRvmi'' 5428 356,
    INST ''Vinserti64x2'' ''VexRvmi_Lx'' 5441 357,
    INST ''Vinserti64x4'' ''VexRvmi'' 5454 358,
    INST ''Vinsertps'' ''VexRvmi'' 5467 359,
    INST ''Vlddqu'' ''VexRm_Lx'' 5477 360,
    INST ''Vldmxcsr'' ''VexM'' 5484 361,
    INST ''Vmaskmovdqu'' ''VexRmZDI'' 5493 362,
    INST ''Vmaskmovpd'' ''VexRvmMvr_Lx'' 5505 363,
    INST ''Vmaskmovps'' ''VexRvmMvr_Lx'' 5516 364,
    INST ''Vmaxpd'' ''VexRvm_Lx'' 5527 365,
    INST ''Vmaxps'' ''VexRvm_Lx'' 5534 366,
    INST ''Vmaxsd'' ''VexRvm'' 5541 367,
    INST ''Vmaxss'' ''VexRvm'' 5548 368,
    INST ''Vminpd'' ''VexRvm_Lx'' 5555 365,
    INST ''Vminps'' ''VexRvm_Lx'' 5562 366,
    INST ''Vminsd'' ''VexRvm'' 5569 367,
    INST ''Vminss'' ''VexRvm'' 5576 368,
    INST ''Vmovapd'' ''VexRmMr_Lx'' 5583 369,
    INST ''Vmovaps'' ''VexRmMr_Lx'' 5591 370,
    INST ''Vmovd'' ''VexMovDQ'' 5599 371,
    INST ''Vmovddup'' ''VexRm_Lx'' 5605 372,
    INST ''Vmovdqa'' ''VexRmMr_Lx'' 5614 373,
    INST ''Vmovdqa32'' ''VexRmMr_Lx'' 5622 374,
    INST ''Vmovdqa64'' ''VexRmMr_Lx'' 5632 375,
    INST ''Vmovdqu'' ''VexRmMr_Lx'' 5642 376,
    INST ''Vmovdqu16'' ''VexRmMr_Lx'' 5650 377,
    INST ''Vmovdqu32'' ''VexRmMr_Lx'' 5660 378,
    INST ''Vmovdqu64'' ''VexRmMr_Lx'' 5670 379,
    INST ''Vmovdqu8'' ''VexRmMr_Lx'' 5680 380,
    INST ''Vmovhlps'' ''VexRvm'' 5689 381,
    INST ''Vmovhpd'' ''VexRvmMr'' 5698 382,
    INST ''Vmovhps'' ''VexRvmMr'' 5706 383,
    INST ''Vmovlhps'' ''VexRvm'' 5714 381,
    INST ''Vmovlpd'' ''VexRvmMr'' 5723 384,
    INST ''Vmovlps'' ''VexRvmMr'' 5731 385,
    INST ''Vmovmskpd'' ''VexRm_Lx'' 5739 386,
    INST ''Vmovmskps'' ''VexRm_Lx'' 5749 386,
    INST ''Vmovntdq'' ''VexMr_Lx'' 5759 387,
    INST ''Vmovntdqa'' ''VexRm_Lx'' 5768 388,
    INST ''Vmovntpd'' ''VexMr_Lx'' 5778 387,
    INST ''Vmovntps'' ''VexMr_Lx'' 5787 387,
    INST ''Vmovq'' ''VexMovDQ'' 5796 389,
    INST ''Vmovsd'' ''VexMovSsSd'' 5802 390,
    INST ''Vmovshdup'' ''VexRm_Lx'' 5809 391,
    INST ''Vmovsldup'' ''VexRm_Lx'' 5819 391,
    INST ''Vmovss'' ''VexMovSsSd'' 5829 392,
    INST ''Vmovupd'' ''VexRmMr_Lx'' 5836 393,
    INST ''Vmovups'' ''VexRmMr_Lx'' 5844 394,
    INST ''Vmpsadbw'' ''VexRvmi_Lx'' 5852 261,
    INST ''Vmulpd'' ''VexRvm_Lx'' 5861 246,
    INST ''Vmulps'' ''VexRvm_Lx'' 5868 247,
    INST ''Vmulsd'' ''VexRvm_Lx'' 5875 248,
    INST ''Vmulss'' ''VexRvm_Lx'' 5882 249,
    INST ''Vorpd'' ''VexRvm_Lx'' 5889 256,
    INST ''Vorps'' ''VexRvm_Lx'' 5895 395]"

definition instData_10 :: "X86Inst list" where
  "instData_10 = [
    INST ''Vpabsb'' ''VexRm_Lx'' 5901 396,
    INST ''Vpabsd'' ''VexRm_Lx'' 5908 391,
    INST ''Vpabsq'' ''VexRm_Lx'' 5915 316,
    INST ''Vpabsw'' ''VexRm_Lx'' 5922 396,
    INST ''Vpackssdw'' ''VexRvm_Lx'' 5929 397,
    INST ''Vpacksswb'' ''VexRvm_Lx'' 5939 398,
    INST ''Vpackusdw'' ''VexRvm_Lx'' 5949 397,
    INST ''Vpackuswb'' ''VexRvm_Lx'' 5959 398,
    INST ''Vpaddb'' ''VexRvm_Lx'' 5969 398,
    INST ''Vpaddd'' ''VexRvm_Lx'' 5976 395,
    INST ''Vpaddq'' ''VexRvm_Lx'' 5983 399,
    INST ''Vpaddsb'' ''VexRvm_Lx'' 5990 398,
    INST ''Vpaddsw'' ''VexRvm_Lx'' 5998 398,
    INST ''Vpaddusb'' ''VexRvm_Lx'' 6006 398,
    INST ''Vpaddusw'' ''VexRvm_Lx'' 6015 398,
    INST ''Vpaddw'' ''VexRvm_Lx'' 6024 398,
    INST ''Vpalignr'' ''VexRvmi_Lx'' 6031 400,
    INST ''Vpand'' ''VexRvm_Lx'' 6040 250,
    INST ''Vpandd'' ''VexRvm_Lx'' 6046 259,
    INST ''Vpandn'' ''VexRvm_Lx'' 6053 250,
    INST ''Vpandnd'' ''VexRvm_Lx'' 6060 259,
    INST ''Vpandnq'' ''VexRvm_Lx'' 6068 260,
    INST ''Vpandq'' ''VexRvm_Lx'' 6076 260,
    INST ''Vpavgb'' ''VexRvm_Lx'' 6083 398,
    INST ''Vpavgw'' ''VexRvm_Lx'' 6090 398,
    INST ''Vpblendd'' ''VexRvmi_Lx'' 6097 261,
    INST ''Vpblendvb'' ''VexRvmr'' 6106 262,
    INST ''Vpblendw'' ''VexRvmi_Lx'' 6116 261,
    INST ''Vpbroadcastb'' ''VexRm_Lx'' 6125 401,
    INST ''Vpbroadcastd'' ''VexRm_Lx'' 6138 402,
    INST ''Vpbroadcastmb2d'' ''VexRm_Lx'' 6151 403,
    INST ''Vpbroadcastmb2q'' ''VexRm_Lx'' 6167 403,
    INST ''Vpbroadcastq'' ''VexRm_Lx'' 6183 404,
    INST ''Vpbroadcastw'' ''VexRm_Lx'' 6196 405,
    INST ''Vpclmulqdq'' ''VexRvmi'' 6209 406,
    INST ''Vpcmov'' ''VexRvrmRvmr_Lx'' 6220 331,
    INST ''Vpcmpb'' ''VexRvm_Lx'' 6227 407,
    INST ''Vpcmpd'' ''VexRvm_Lx'' 6234 408,
    INST ''Vpcmpeqb'' ''VexRvm_Lx'' 6241 409,
    INST ''Vpcmpeqd'' ''VexRvm_Lx'' 6250 410,
    INST ''Vpcmpeqq'' ''VexRvm_Lx'' 6259 411,
    INST ''Vpcmpeqw'' ''VexRvm_Lx'' 6268 409,
    INST ''Vpcmpestri'' ''VexRmi'' 6277 412,
    INST ''Vpcmpestrm'' ''VexRmi'' 6288 413,
    INST ''Vpcmpgtb'' ''VexRvm_Lx'' 6299 409,
    INST ''Vpcmpgtd'' ''VexRvm_Lx'' 6308 410,
    INST ''Vpcmpgtq'' ''VexRvm_Lx'' 6317 411,
    INST ''Vpcmpgtw'' ''VexRvm_Lx'' 6326 409,
    INST ''Vpcmpistri'' ''VexRmi'' 6335 414,
    INST ''Vpcmpistrm'' ''VexRmi'' 6346 415,
    INST ''Vpcmpq'' ''VexRvm_Lx'' 6357 416,
    INST ''Vpcmpub'' ''VexRvm_Lx'' 6364 407,
    INST ''Vpcmpud'' ''VexRvm_Lx'' 6372 408,
    INST ''Vpcmpuq'' ''VexRvm_Lx'' 6380 416,
    INST ''Vpcmpuw'' ''VexRvm_Lx'' 6388 417,
    INST ''Vpcmpw'' ''VexRvm_Lx'' 6396 417,
    INST ''Vpcomb'' ''VexRvmi'' 6403 406,
    INST ''Vpcomd'' ''VexRvmi'' 6410 406,
    INST ''Vpcompressd'' ''VexMr_Lx'' 6417 281,
    INST ''Vpcompressq'' ''VexMr_Lx'' 6429 281,
    INST ''Vpcomq'' ''VexRvmi'' 6441 406,
    INST ''Vpcomub'' ''VexRvmi'' 6448 406,
    INST ''Vpcomud'' ''VexRvmi'' 6456 406,
    INST ''Vpcomuq'' ''VexRvmi'' 6464 406,
    INST ''Vpcomuw'' ''VexRvmi'' 6472 406,
    INST ''Vpcomw'' ''VexRvmi'' 6480 406,
    INST ''Vpconflictd'' ''VexRm_Lx'' 6487 418,
    INST ''Vpconflictq'' ''VexRm_Lx'' 6499 418,
    INST ''Vperm2f128'' ''VexRvmi'' 6511 419,
    INST ''Vperm2i128'' ''VexRvmi'' 6522 419,
    INST ''Vpermb'' ''VexRvm_Lx'' 6533 420,
    INST ''Vpermd'' ''VexRvm_Lx'' 6540 421,
    INST ''Vpermi2b'' ''VexRvm_Lx'' 6547 420,
    INST ''Vpermi2d'' ''VexRvm_Lx'' 6556 422,
    INST ''Vpermi2pd'' ''VexRvm_Lx'' 6565 260,
    INST ''Vpermi2ps'' ''VexRvm_Lx'' 6575 259,
    INST ''Vpermi2q'' ''VexRvm_Lx'' 6585 423,
    INST ''Vpermi2w'' ''VexRvm_Lx'' 6594 424,
    INST ''Vpermil2pd'' ''VexRvrmiRvmri_Lx'' 6603 425,
    INST ''Vpermil2ps'' ''VexRvrmiRvmri_Lx'' 6614 425,
    INST ''Vpermilpd'' ''VexRvmRmi_Lx'' 6625 426,
    INST ''Vpermilps'' ''VexRvmRmi_Lx'' 6635 427,
    INST ''Vpermpd'' ''VexRmi'' 6645 428,
    INST ''Vpermps'' ''VexRvm'' 6653 429,
    INST ''Vpermq'' ''VexRvmRmi_Lx'' 6661 430,
    INST ''Vpermt2b'' ''VexRvm_Lx'' 6668 420,
    INST ''Vpermt2d'' ''VexRvm_Lx'' 6677 422,
    INST ''Vpermt2pd'' ''VexRvm_Lx'' 6686 423,
    INST ''Vpermt2ps'' ''VexRvm_Lx'' 6696 422,
    INST ''Vpermt2q'' ''VexRvm_Lx'' 6706 423,
    INST ''Vpermt2w'' ''VexRvm_Lx'' 6715 424,
    INST ''Vpermw'' ''VexRvm_Lx'' 6724 258,
    INST ''Vpexpandd'' ''VexRm_Lx'' 6731 316,
    INST ''Vpexpandq'' ''VexRm_Lx'' 6741 316,
    INST ''Vpextrb'' ''VexMri'' 6751 431,
    INST ''Vpextrd'' ''VexMri'' 6759 432,
    INST ''Vpextrq'' ''VexMri'' 6767 433,
    INST ''Vpextrw'' ''VexMri'' 6775 434,
    INST ''Vpgatherdd'' ''VexRmvRm_VM'' 6783 435,
    INST ''Vpgatherdq'' ''VexRmvRm_VM'' 6794 436]"

definition instData_11 :: "X86Inst list" where
  "instData_11 = [
    INST ''Vpgatherqd'' ''VexRmvRm_VM'' 6805 437,
    INST ''Vpgatherqq'' ''VexRmvRm_VM'' 6816 438,
    INST ''Vphaddbd'' ''VexRm'' 6827 252,
    INST ''Vphaddbq'' ''VexRm'' 6836 252,
    INST ''Vphaddbw'' ''VexRm'' 6845 252,
    INST ''Vphaddd'' ''VexRvm_Lx'' 6854 250,
    INST ''Vphadddq'' ''VexRm'' 6862 252,
    INST ''Vphaddsw'' ''VexRvm_Lx'' 6871 250,
    INST ''Vphaddubd'' ''VexRm'' 6880 252,
    INST ''Vphaddubq'' ''VexRm'' 6890 252,
    INST ''Vphaddubw'' ''VexRm'' 6900 252,
    INST ''Vphaddudq'' ''VexRm'' 6910 252,
    INST ''Vphadduwd'' ''VexRm'' 6920 252,
    INST ''Vphadduwq'' ''VexRm'' 6930 252,
    INST ''Vphaddw'' ''VexRvm_Lx'' 6940 250,
    INST ''Vphaddwd'' ''VexRm'' 6948 252,
    INST ''Vphaddwq'' ''VexRm'' 6957 252,
    INST ''Vphminposuw'' ''VexRm'' 6966 252,
    INST ''Vphsubbw'' ''VexRm'' 6978 252,
    INST ''Vphsubd'' ''VexRvm_Lx'' 6987 250,
    INST ''Vphsubdq'' ''VexRm'' 6995 252,
    INST ''Vphsubsw'' ''VexRvm_Lx'' 7004 250,
    INST ''Vphsubw'' ''VexRvm_Lx'' 7013 250,
    INST ''Vphsubwd'' ''VexRm'' 7021 252,
    INST ''Vpinsrb'' ''VexRvmi'' 7030 439,
    INST ''Vpinsrd'' ''VexRvmi'' 7038 440,
    INST ''Vpinsrq'' ''VexRvmi'' 7046 441,
    INST ''Vpinsrw'' ''VexRvmi'' 7054 442,
    INST ''Vplzcntd'' ''VexRm_Lx'' 7062 418,
    INST ''Vplzcntq'' ''VexRm_Lx'' 7071 443,
    INST ''Vpmacsdd'' ''VexRvmr'' 7080 444,
    INST ''Vpmacsdqh'' ''VexRvmr'' 7089 444,
    INST ''Vpmacsdql'' ''VexRvmr'' 7099 444,
    INST ''Vpmacssdd'' ''VexRvmr'' 7109 444,
    INST ''Vpmacssdqh'' ''VexRvmr'' 7119 444,
    INST ''Vpmacssdql'' ''VexRvmr'' 7130 444,
    INST ''Vpmacsswd'' ''VexRvmr'' 7141 444,
    INST ''Vpmacssww'' ''VexRvmr'' 7151 444,
    INST ''Vpmacswd'' ''VexRvmr'' 7161 444,
    INST ''Vpmacsww'' ''VexRvmr'' 7170 444,
    INST ''Vpmadcsswd'' ''VexRvmr'' 7179 444,
    INST ''Vpmadcswd'' ''VexRvmr'' 7190 444,
    INST ''Vpmadd52huq'' ''VexRvm_Lx'' 7200 445,
    INST ''Vpmadd52luq'' ''VexRvm_Lx'' 7212 445,
    INST ''Vpmaddubsw'' ''VexRvm_Lx'' 7224 398,
    INST ''Vpmaddwd'' ''VexRvm_Lx'' 7235 398,
    INST ''Vpmaskmovd'' ''VexRvmMvr_Lx'' 7244 446,
    INST ''Vpmaskmovq'' ''VexRvmMvr_Lx'' 7255 447,
    INST ''Vpmaxsb'' ''VexRvm_Lx'' 7266 398,
    INST ''Vpmaxsd'' ''VexRvm_Lx'' 7274 395,
    INST ''Vpmaxsq'' ''VexRvm_Lx'' 7282 260,
    INST ''Vpmaxsw'' ''VexRvm_Lx'' 7290 398,
    INST ''Vpmaxub'' ''VexRvm_Lx'' 7298 398,
    INST ''Vpmaxud'' ''VexRvm_Lx'' 7306 395,
    INST ''Vpmaxuq'' ''VexRvm_Lx'' 7314 260,
    INST ''Vpmaxuw'' ''VexRvm_Lx'' 7322 398,
    INST ''Vpminsb'' ''VexRvm_Lx'' 7330 398,
    INST ''Vpminsd'' ''VexRvm_Lx'' 7338 395,
    INST ''Vpminsq'' ''VexRvm_Lx'' 7346 260,
    INST ''Vpminsw'' ''VexRvm_Lx'' 7354 398,
    INST ''Vpminub'' ''VexRvm_Lx'' 7362 398,
    INST ''Vpminud'' ''VexRvm_Lx'' 7370 395,
    INST ''Vpminuq'' ''VexRvm_Lx'' 7378 260,
    INST ''Vpminuw'' ''VexRvm_Lx'' 7386 398,
    INST ''Vpmovb2m'' ''VexRm_Lx'' 7394 448,
    INST ''Vpmovd2m'' ''VexRm_Lx'' 7403 449,
    INST ''Vpmovdb'' ''VexMr_Lx'' 7412 450,
    INST ''Vpmovdw'' ''VexMr_Lx'' 7420 451,
    INST ''Vpmovm2b'' ''VexRm_Lx'' 7428 452,
    INST ''Vpmovm2d'' ''VexRm_Lx'' 7437 453,
    INST ''Vpmovm2q'' ''VexRm_Lx'' 7446 453,
    INST ''Vpmovm2w'' ''VexRm_Lx'' 7455 452,
    INST ''Vpmovmskb'' ''VexRm_Lx'' 7464 386,
    INST ''Vpmovq2m'' ''VexRm_Lx'' 7474 449,
    INST ''Vpmovqb'' ''VexMr_Lx'' 7483 454,
    INST ''Vpmovqd'' ''VexMr_Lx'' 7491 451,
    INST ''Vpmovqw'' ''VexMr_Lx'' 7499 450,
    INST ''Vpmovsdb'' ''VexMr_Lx'' 7507 450,
    INST ''Vpmovsdw'' ''VexMr_Lx'' 7516 451,
    INST ''Vpmovsqb'' ''VexMr_Lx'' 7525 454,
    INST ''Vpmovsqd'' ''VexMr_Lx'' 7534 451,
    INST ''Vpmovsqw'' ''VexMr_Lx'' 7543 450,
    INST ''Vpmovswb'' ''VexMr_Lx'' 7552 455,
    INST ''Vpmovsxbd'' ''VexRm_Lx'' 7561 456,
    INST ''Vpmovsxbq'' ''VexRm_Lx'' 7571 457,
    INST ''Vpmovsxbw'' ''VexRm_Lx'' 7581 458,
    INST ''Vpmovsxdq'' ''VexRm_Lx'' 7591 459,
    INST ''Vpmovsxwd'' ''VexRm_Lx'' 7601 460,
    INST ''Vpmovsxwq'' ''VexRm_Lx'' 7611 456,
    INST ''Vpmovusdb'' ''VexMr_Lx'' 7621 450,
    INST ''Vpmovusdw'' ''VexMr_Lx'' 7631 451,
    INST ''Vpmovusqb'' ''VexMr_Lx'' 7641 454,
    INST ''Vpmovusqd'' ''VexMr_Lx'' 7651 451,
    INST ''Vpmovusqw'' ''VexMr_Lx'' 7661 450,
    INST ''Vpmovuswb'' ''VexMr_Lx'' 7671 455,
    INST ''Vpmovw2m'' ''VexRm_Lx'' 7681 448,
    INST ''Vpmovwb'' ''VexMr_Lx'' 7690 455,
    INST ''Vpmovzxbd'' ''VexRm_Lx'' 7698 456,
    INST ''Vpmovzxbq'' ''VexRm_Lx'' 7708 457,
    INST ''Vpmovzxbw'' ''VexRm_Lx'' 7718 458]"

definition instData_12 :: "X86Inst list" where
  "instData_12 = [
    INST ''Vpmovzxdq'' ''VexRm_Lx'' 7728 459,
    INST ''Vpmovzxwd'' ''VexRm_Lx'' 7738 460,
    INST ''Vpmovzxwq'' ''VexRm_Lx'' 7748 456,
    INST ''Vpmuldq'' ''VexRvm_Lx'' 7758 399,
    INST ''Vpmulhrsw'' ''VexRvm_Lx'' 7766 398,
    INST ''Vpmulhuw'' ''VexRvm_Lx'' 7776 398,
    INST ''Vpmulhw'' ''VexRvm_Lx'' 7785 398,
    INST ''Vpmulld'' ''VexRvm_Lx'' 7793 395,
    INST ''Vpmullq'' ''VexRvm_Lx'' 7801 461,
    INST ''Vpmullw'' ''VexRvm_Lx'' 7809 398,
    INST ''Vpmultishiftqb'' ''VexRvm_Lx'' 7817 462,
    INST ''Vpmuludq'' ''VexRvm_Lx'' 7832 399,
    INST ''Vpor'' ''VexRvm_Lx'' 7841 250,
    INST ''Vpord'' ''VexRvm_Lx'' 7846 259,
    INST ''Vporq'' ''VexRvm_Lx'' 7852 260,
    INST ''Vpperm'' ''VexRvrmRvmr'' 7858 463,
    INST ''Vprold'' ''VexVmi_Lx'' 7865 464,
    INST ''Vprolq'' ''VexVmi_Lx'' 7872 465,
    INST ''Vprolvd'' ''VexRvm_Lx'' 7879 259,
    INST ''Vprolvq'' ''VexRvm_Lx'' 7887 260,
    INST ''Vprord'' ''VexVmi_Lx'' 7895 464,
    INST ''Vprorq'' ''VexVmi_Lx'' 7902 465,
    INST ''Vprorvd'' ''VexRvm_Lx'' 7909 259,
    INST ''Vprorvq'' ''VexRvm_Lx'' 7917 260,
    INST ''Vprotb'' ''VexRvmRmvRmi'' 7925 466,
    INST ''Vprotd'' ''VexRvmRmvRmi'' 7932 467,
    INST ''Vprotq'' ''VexRvmRmvRmi'' 7939 468,
    INST ''Vprotw'' ''VexRvmRmvRmi'' 7946 469,
    INST ''Vpsadbw'' ''VexRvm_Lx'' 7953 470,
    INST ''Vpscatterdd'' ''VexMr_VM'' 7961 471,
    INST ''Vpscatterdq'' ''VexMr_VM'' 7973 471,
    INST ''Vpscatterqd'' ''VexMr_VM'' 7985 472,
    INST ''Vpscatterqq'' ''VexMr_VM'' 7997 473,
    INST ''Vpshab'' ''VexRvmRmv'' 8009 474,
    INST ''Vpshad'' ''VexRvmRmv'' 8016 474,
    INST ''Vpshaq'' ''VexRvmRmv'' 8023 474,
    INST ''Vpshaw'' ''VexRvmRmv'' 8030 474,
    INST ''Vpshlb'' ''VexRvmRmv'' 8037 474,
    INST ''Vpshld'' ''VexRvmRmv'' 8044 474,
    INST ''Vpshlq'' ''VexRvmRmv'' 8051 474,
    INST ''Vpshlw'' ''VexRvmRmv'' 8058 474,
    INST ''Vpshufb'' ''VexRvm_Lx'' 8065 398,
    INST ''Vpshufd'' ''VexRmi_Lx'' 8073 475,
    INST ''Vpshufhw'' ''VexRmi_Lx'' 8081 476,
    INST ''Vpshuflw'' ''VexRmi_Lx'' 8090 476,
    INST ''Vpsignb'' ''VexRvm_Lx'' 8099 250,
    INST ''Vpsignd'' ''VexRvm_Lx'' 8107 250,
    INST ''Vpsignw'' ''VexRvm_Lx'' 8115 250,
    INST ''Vpslld'' ''VexRvmVmi_Lx'' 8123 477,
    INST ''Vpslldq'' ''VexEvexVmi_Lx'' 8130 478,
    INST ''Vpsllq'' ''VexRvmVmi_Lx'' 8138 479,
    INST ''Vpsllvd'' ''VexRvm_Lx'' 8145 395,
    INST ''Vpsllvq'' ''VexRvm_Lx'' 8153 399,
    INST ''Vpsllvw'' ''VexRvm_Lx'' 8161 258,
    INST ''Vpsllw'' ''VexRvmVmi_Lx'' 8169 480,
    INST ''Vpsrad'' ''VexRvmVmi_Lx'' 8176 481,
    INST ''Vpsraq'' ''VexRvmVmi_Lx'' 8183 482,
    INST ''Vpsravd'' ''VexRvm_Lx'' 8190 395,
    INST ''Vpsravq'' ''VexRvm_Lx'' 8198 260,
    INST ''Vpsravw'' ''VexRvm_Lx'' 8206 258,
    INST ''Vpsraw'' ''VexRvmVmi_Lx'' 8214 483,
    INST ''Vpsrld'' ''VexRvmVmi_Lx'' 8221 484,
    INST ''Vpsrldq'' ''VexEvexVmi_Lx'' 8228 478,
    INST ''Vpsrlq'' ''VexRvmVmi_Lx'' 8236 485,
    INST ''Vpsrlvd'' ''VexRvm_Lx'' 8243 395,
    INST ''Vpsrlvq'' ''VexRvm_Lx'' 8251 399,
    INST ''Vpsrlvw'' ''VexRvm_Lx'' 8259 258,
    INST ''Vpsrlw'' ''VexRvmVmi_Lx'' 8267 486,
    INST ''Vpsubb'' ''VexRvm_Lx'' 8274 398,
    INST ''Vpsubd'' ''VexRvm_Lx'' 8281 395,
    INST ''Vpsubq'' ''VexRvm_Lx'' 8288 399,
    INST ''Vpsubsb'' ''VexRvm_Lx'' 8295 398,
    INST ''Vpsubsw'' ''VexRvm_Lx'' 8303 398,
    INST ''Vpsubusb'' ''VexRvm_Lx'' 8311 398,
    INST ''Vpsubusw'' ''VexRvm_Lx'' 8320 398,
    INST ''Vpsubw'' ''VexRvm_Lx'' 8329 398,
    INST ''Vpternlogd'' ''VexRvmi_Lx'' 8336 487,
    INST ''Vpternlogq'' ''VexRvmi_Lx'' 8347 488,
    INST ''Vptest'' ''VexRm_Lx'' 8358 489,
    INST ''Vptestmb'' ''VexRvm_Lx'' 8365 490,
    INST ''Vptestmd'' ''VexRvm_Lx'' 8374 491,
    INST ''Vptestmq'' ''VexRvm_Lx'' 8383 492,
    INST ''Vptestmw'' ''VexRvm_Lx'' 8392 490,
    INST ''Vptestnmb'' ''VexRvm_Lx'' 8401 490,
    INST ''Vptestnmd'' ''VexRvm_Lx'' 8411 491,
    INST ''Vptestnmq'' ''VexRvm_Lx'' 8421 492,
    INST ''Vptestnmw'' ''VexRvm_Lx'' 8431 490,
    INST ''Vpunpckhbw'' ''VexRvm_Lx'' 8441 398,
    INST ''Vpunpckhdq'' ''VexRvm_Lx'' 8452 395,
    INST ''Vpunpckhqdq'' ''VexRvm_Lx'' 8463 399,
    INST ''Vpunpckhwd'' ''VexRvm_Lx'' 8475 398,
    INST ''Vpunpcklbw'' ''VexRvm_Lx'' 8486 398,
    INST ''Vpunpckldq'' ''VexRvm_Lx'' 8497 395,
    INST ''Vpunpcklqdq'' ''VexRvm_Lx'' 8508 399,
    INST ''Vpunpcklwd'' ''VexRvm_Lx'' 8520 398,
    INST ''Vpxor'' ''VexRvm_Lx'' 8531 250,
    INST ''Vpxord'' ''VexRvm_Lx'' 8537 259,
    INST ''Vpxorq'' ''VexRvm_Lx'' 8544 260,
    INST ''Vrangepd'' ''VexRvmi_Lx'' 8551 493,
    INST ''Vrangeps'' ''VexRvmi_Lx'' 8560 494]"

definition instData_13 :: "X86Inst list" where
  "instData_13 = [
    INST ''Vrangesd'' ''VexRvmi'' 8569 495,
    INST ''Vrangess'' ''VexRvmi'' 8578 496,
    INST ''Vrcp14pd'' ''VexRm_Lx'' 8587 497,
    INST ''Vrcp14ps'' ''VexRm_Lx'' 8596 498,
    INST ''Vrcp14sd'' ''VexRvm'' 8605 499,
    INST ''Vrcp14ss'' ''VexRvm'' 8614 500,
    INST ''Vrcp28pd'' ''VexRm'' 8623 314,
    INST ''Vrcp28ps'' ''VexRm'' 8632 315,
    INST ''Vrcp28sd'' ''VexRvm'' 8641 501,
    INST ''Vrcp28ss'' ''VexRvm'' 8650 502,
    INST ''Vrcpps'' ''VexRm_Lx'' 8659 338,
    INST ''Vrcpss'' ''VexRvm'' 8666 503,
    INST ''Vreducepd'' ''VexRmi_Lx'' 8673 504,
    INST ''Vreduceps'' ''VexRmi_Lx'' 8683 505,
    INST ''Vreducesd'' ''VexRvmi'' 8693 506,
    INST ''Vreducess'' ''VexRvmi'' 8703 507,
    INST ''Vrndscalepd'' ''VexRmi_Lx'' 8713 350,
    INST ''Vrndscaleps'' ''VexRmi_Lx'' 8725 351,
    INST ''Vrndscalesd'' ''VexRvmi'' 8737 508,
    INST ''Vrndscaless'' ''VexRvmi'' 8749 509,
    INST ''Vroundpd'' ''VexRmi_Lx'' 8761 510,
    INST ''Vroundps'' ''VexRmi_Lx'' 8770 510,
    INST ''Vroundsd'' ''VexRvmi'' 8779 511,
    INST ''Vroundss'' ''VexRvmi'' 8788 512,
    INST ''Vrsqrt14pd'' ''VexRm_Lx'' 8797 497,
    INST ''Vrsqrt14ps'' ''VexRm_Lx'' 8808 498,
    INST ''Vrsqrt14sd'' ''VexRvm'' 8819 499,
    INST ''Vrsqrt14ss'' ''VexRvm'' 8830 500,
    INST ''Vrsqrt28pd'' ''VexRm'' 8841 314,
    INST ''Vrsqrt28ps'' ''VexRm'' 8852 315,
    INST ''Vrsqrt28sd'' ''VexRvm'' 8863 501,
    INST ''Vrsqrt28ss'' ''VexRvm'' 8874 502,
    INST ''Vrsqrtps'' ''VexRm_Lx'' 8885 338,
    INST ''Vrsqrtss'' ''VexRvm'' 8894 503,
    INST ''Vscalefpd'' ''VexRvm_Lx'' 8903 513,
    INST ''Vscalefps'' ''VexRvm_Lx'' 8913 514,
    INST ''Vscalefsd'' ''VexRvm'' 8923 515,
    INST ''Vscalefss'' ''VexRvm'' 8933 516,
    INST ''Vscatterdpd'' ''VexMr_Lx'' 8943 517,
    INST ''Vscatterdps'' ''VexMr_Lx'' 8955 471,
    INST ''Vscatterpf0dpd'' ''VexM_VM'' 8967 343,
    INST ''Vscatterpf0dps'' ''VexM_VM'' 8982 344,
    INST ''Vscatterpf0qpd'' ''VexM_VM'' 8997 345,
    INST ''Vscatterpf0qps'' ''VexM_VM'' 9012 345,
    INST ''Vscatterpf1dpd'' ''VexM_VM'' 9027 343,
    INST ''Vscatterpf1dps'' ''VexM_VM'' 9042 344,
    INST ''Vscatterpf1qpd'' ''VexM_VM'' 9057 345,
    INST ''Vscatterpf1qps'' ''VexM_VM'' 9072 345,
    INST ''Vscatterqpd'' ''VexMr_Lx'' 9087 473,
    INST ''Vscatterqps'' ''VexMr_Lx'' 9099 472,
    INST ''Vshuff32x4'' ''VexRvmi_Lx'' 9111 518,
    INST ''Vshuff64x2'' ''VexRvmi_Lx'' 9122 519,
    INST ''Vshufi32x4'' ''VexRvmi_Lx'' 9133 518,
    INST ''Vshufi64x2'' ''VexRvmi_Lx'' 9144 519,
    INST ''Vshufpd'' ''VexRvmi_Lx'' 9155 520,
    INST ''Vshufps'' ''VexRvmi_Lx'' 9163 521,
    INST ''Vsqrtpd'' ''VexRm_Lx'' 9171 522,
    INST ''Vsqrtps'' ''VexRm_Lx'' 9179 283,
    INST ''Vsqrtsd'' ''VexRvm'' 9187 248,
    INST ''Vsqrtss'' ''VexRvm'' 9195 249,
    INST ''Vstmxcsr'' ''VexM'' 9203 523,
    INST ''Vsubpd'' ''VexRvm_Lx'' 9212 246,
    INST ''Vsubps'' ''VexRvm_Lx'' 9219 247,
    INST ''Vsubsd'' ''VexRvm'' 9226 248,
    INST ''Vsubss'' ''VexRvm'' 9233 249,
    INST ''Vtestpd'' ''VexRm_Lx'' 9240 489,
    INST ''Vtestps'' ''VexRm_Lx'' 9248 489,
    INST ''Vucomisd'' ''VexRm'' 9256 279,
    INST ''Vucomiss'' ''VexRm'' 9265 280,
    INST ''Vunpckhpd'' ''VexRvm_Lx'' 9274 399,
    INST ''Vunpckhps'' ''VexRvm_Lx'' 9284 395,
    INST ''Vunpcklpd'' ''VexRvm_Lx'' 9294 399,
    INST ''Vunpcklps'' ''VexRvm_Lx'' 9304 395,
    INST ''Vxorpd'' ''VexRvm_Lx'' 9314 256,
    INST ''Vxorps'' ''VexRvm_Lx'' 9321 257,
    INST ''Vzeroall'' ''VexOp'' 9328 524,
    INST ''Vzeroupper'' ''VexOp'' 9337 524,
    INST ''Wrfsbase'' ''X86M'' 9348 525,
    INST ''Wrgsbase'' ''X86M'' 9357 525,
    INST ''Xadd'' ''X86Xadd'' 9366 526,
    INST ''Xchg'' ''X86Xchg'' 353 527,
    INST ''Xgetbv'' ''X86Op'' 9371 528,
    INST ''Xor'' ''X86Arith'' 8533 3,
    INST ''Xorpd'' ''ExtRm'' 9315 4,
    INST ''Xorps'' ''ExtRm'' 9322 4,
    INST ''Xrstor'' ''X86M_Only'' 1030 529,
    INST ''Xrstor64'' ''X86M_Only'' 1038 530,
    INST ''Xrstors'' ''X86M_Only'' 9378 529,
    INST ''Xrstors64'' ''X86M_Only'' 9386 530,
    INST ''Xsave'' ''X86M_Only'' 1048 531,
    INST ''Xsave64'' ''X86M_Only'' 1055 532,
    INST ''Xsavec'' ''X86M_Only'' 9396 531,
    INST ''Xsavec64'' ''X86M_Only'' 9403 532,
    INST ''Xsaveopt'' ''X86M_Only'' 9412 531,
    INST ''Xsaveopt64'' ''X86M_Only'' 9421 532,
    INST ''Xsaves'' ''X86M_Only'' 9432 531,
    INST ''Xsaves64'' ''X86M_Only'' 9439 532,
    INST ''Xsetbv'' ''X86Op'' 9448 533]"

definition instData :: "X86Inst list" where
  "instData =
     instData_0 @ instData_1 @ instData_2 @ instData_3 @ instData_4 @ instData_5 @ instData_6 @
     instData_7 @ instData_8 @ instData_9 @ instData_10 @ instData_11 @ instData_12 @
     instData_13"

text \<open>\<^verbatim>\<open>X86Inst::_kIdCount\<close>, the number of rows of the table.\<close>

definition kIdCount :: nat where
  "kIdCount = length instData"

text \<open>
  The ids \<^verbatim>\<open>X86Inst::kId...\<close> that the source mentions by name: the id of an
  instruction is the position of its row in \<open>instData\<close>.
\<close>

definition kIdAdc :: nat where "kIdAdc = 1"
definition kIdBextr :: nat where "kIdBextr = 23"
definition kIdCall :: nat where "kIdCall = 46"
definition kIdCmp :: nat where "kIdCmp = 88"
definition kIdDaa :: nat where "kIdDaa = 129"
definition kIdEmms :: nat where "kIdEmms = 139"
definition kIdF2xm1 :: nat where "kIdF2xm1 = 143"
definition kIdHaddpd :: nat where "kIdHaddpd = 241"
definition kIdIdiv :: nat where "kIdIdiv = 245"
definition kIdJa :: nat where "kIdJa = 253"
definition kIdKaddb :: nat where "kIdKaddb = 285"
definition kIdLahf :: nat where "kIdLahf = 336"
definition kIdMaskmovdqu :: nat where "kIdMaskmovdqu = 347"
definition kIdMov :: nat where "kIdMov = 359"
definition kIdNeg :: nat where "kIdNeg = 407"
definition kIdOr :: nat where "kIdOr = 410"
definition kIdPabsb :: nat where "kIdPabsb = 413"
definition kIdRcl :: nat where "kIdRcl = 576"
definition kIdSahf :: nat where "kIdSahf = 624"
definition kIdT1mskc :: nat where "kIdT1mskc = 697"
definition kIdUcomisd :: nat where "kIdUcomisd = 701"
definition kIdVaddpd :: nat where "kIdVaddpd = 708"
definition kIdWrfsbase :: nat where "kIdWrfsbase = 1377"
definition kIdXadd :: nat where "kIdXadd = 1379"

subsection \<open>Common data\<close>

text \<open>
  A row of \<^verbatim>\<open>X86InstDB::commonData\<close>: the instruction flags (first column) and the
  position and length of the instruction's group in the signature table (seventh and eighth
  column; the marks \<^verbatim>\<open>// #13\<close> in the signature table are the starts of the groups).
  The other columns are not read by the functions modelled here.
\<close>

record CommonData =
  flags :: "InstFlag set"
  iSignatureIndex :: nat
  iSignatureCount :: nat

definition COMMON :: "InstFlag set \<Rightarrow> nat \<Rightarrow> nat \<Rightarrow> CommonData" where
  "COMMON f sigIndex sigCount =
     \<lparr>flags = f, iSignatureIndex = sigIndex, iSignatureCount = sigCount\<rparr>"

text \<open>
  The macro \<^verbatim>\<open>A512(CPU, VL, MASKING, SAE_ER, BROADCAST)\<close>.  Its last three arguments
  are flag words; the table writes \<^verbatim>\<open>0\<close> for the enumerators
  \<^verbatim>\<open>kInstFlagEvex0\<close> and \<^verbatim>\<open>kInstFlagEvexB0\<close>, which stand for no flag.
\<close>

definition A512 ::
  "InstFlag \<Rightarrow> bool \<Rightarrow> InstFlag set \<Rightarrow> InstFlag set \<Rightarrow> InstFlag set \<Rightarrow> InstFlag set" where
  "A512 CPU VL MASKING SAE_ER BROADCAST =
     {kInstFlagEvex} \<union> {CPU} \<union>
     (if VL then {kInstFlagEvexVL} else {}) \<union>
     (if MASKING \<noteq> {} then MASKING \<union> {kInstFlagEvexK} else {}) \<union>
     SAE_ER \<union> BROADCAST"

definition hasFlag :: "CommonData \<Rightarrow> InstFlag \<Rightarrow> bool" where
  "hasFlag cd f = (flags cd \<inter> {f} \<noteq> {})"

definition commonData_0 :: "CommonData list" where
  "commonData_0 = [
    COMMON {} 0 0,
    COMMON {kInstFlagRW, kInstFlagLock} 13 10,
    COMMON {kInstFlagRW} 21 2,
    COMMON {kInstFlagRW, kInstFlagLock} 13 10,
    COMMON {kInstFlagRW} 288 1,
    COMMON {kInstFlagRW} 345 1,
    COMMON {kInstFlagRW} 346 1,
    COMMON {kInstFlagRW} 21 2,
    COMMON {kInstFlagWO} 63 1,
    COMMON {kInstFlagWO} 70 1,
    COMMON {kInstFlagRW} 245 2,
    COMMON {kInstFlagRW} 247 2,
    COMMON {kInstFlagWO} 153 2,
    COMMON {kInstFlagRW} 290 1,
    COMMON {kInstFlagRW, kInstFlagSpecial} 347 1,
    COMMON {kInstFlagRW} 153 2,
    COMMON {kInstFlagRW} 20 3,
    COMMON {kInstFlagRW} 348 1,
    COMMON {kInstFlagRO} 143 3,
    COMMON {kInstFlagRW, kInstFlagLock} 146 3,
    COMMON {kInstFlagRW, kInstFlagLock} 146 3,
    COMMON {kInstFlagRW, kInstFlagLock} 146 3,
    COMMON {kInstFlagRW, kInstFlagFlow, kInstFlagVolatile} 249 2,
    COMMON {kInstFlagRW, kInstFlagSpecial} 349 1,
    COMMON {kInstFlagRW, kInstFlagSpecial} 350 1,
    COMMON {kInstFlagRW, kInstFlagSpecial} 351 1,
    COMMON {kInstFlagVolatile} 259 1,
    COMMON {kInstFlagVolatile} 259 1,
    COMMON {kInstFlagVolatile} 259 1,
    COMMON {kInstFlagRO, kInstFlagVolatile} 352 1,
    COMMON {kInstFlagWO, kInstFlagVolatile, kInstFlagSpecial} 353 1,
    COMMON {} 259 1,
    COMMON {kInstFlagRW} 20 3,
    COMMON {kInstFlagRW} 20 3,
    COMMON {kInstFlagRW} 20 3,
    COMMON {kInstFlagRW} 20 3,
    COMMON {kInstFlagRW} 20 3,
    COMMON {kInstFlagRW} 20 3,
    COMMON {kInstFlagRW} 20 3,
    COMMON {kInstFlagRW} 20 3,
    COMMON {kInstFlagRO} 23 10,
    COMMON {kInstFlagRW, kInstFlagVolatile, kInstFlagSpecial} 0 0,
    COMMON {kInstFlagRW} 251 2,
    COMMON {kInstFlagRW} 354 1,
    COMMON {kInstFlagRW, kInstFlagLock, kInstFlagSpecial} 107 4,
    COMMON {kInstFlagRW, kInstFlagLock, kInstFlagSpecial} 355 1,
    COMMON {kInstFlagRW, kInstFlagLock, kInstFlagSpecial} 356 1,
    COMMON {kInstFlagRO} 357 1,
    COMMON {kInstFlagRO} 358 1,
    COMMON {kInstFlagRW, kInstFlagVolatile, kInstFlagSpecial} 359 1,
    COMMON {kInstFlagRW, kInstFlagSpecial} 360 1,
    COMMON {kInstFlagRW} 253 2,
    COMMON {kInstFlagWO} 61 1,
    COMMON {kInstFlagWO} 63 1,
    COMMON {kInstFlagWO} 361 1,
    COMMON {kInstFlagWO} 362 1,
    COMMON {kInstFlagWO} 362 1,
    COMMON {kInstFlagWO} 363 1,
    COMMON {kInstFlagWO} 364 1,
    COMMON {kInstFlagWO} 61 1,
    COMMON {kInstFlagWO} 365 1,
    COMMON {kInstFlagWO} 365 1,
    COMMON {kInstFlagWO} 227 1,
    COMMON {kInstFlagWO} 309 1,
    COMMON {kInstFlagRW, kInstFlagSpecial} 366 1,
    COMMON {kInstFlagRW, kInstFlagSpecial} 367 1,
    COMMON {kInstFlagRW, kInstFlagSpecial} 368 1,
    COMMON {kInstFlagRW, kInstFlagLock} 255 2,
    COMMON {kInstFlagRW, kInstFlagSpecial} 111 4,
    COMMON {kInstFlagVolatile} 259 1,
    COMMON {kInstFlagVolatile, kInstFlagSpecial} 369 1,
    COMMON {kInstFlagWO} 370 1,
    COMMON {kInstFlagRW} 257 2,
    COMMON {kInstFlagFp} 259 1,
    COMMON {kInstFlagFp, kInstFlagFPU_M4, kInstFlagFPU_M8} 149 3,
    COMMON {kInstFlagFp} 259 2,
    COMMON {kInstFlagFp} 371 1,
    COMMON {kInstFlagFp} 260 1,
    COMMON {kInstFlagFp} 260 1,
    COMMON {kInstFlagFp} 260 1,
    COMMON {kInstFlagFp} 260 1,
    COMMON {kInstFlagFp} 261 2,
    COMMON {kInstFlagFp} 260 1,
    COMMON {kInstFlagFp} 260 1,
    COMMON {kInstFlagFp, kInstFlagFPU_M2, kInstFlagFPU_M4} 372 1,
    COMMON {kInstFlagFp, kInstFlagFPU_M2, kInstFlagFPU_M4, kInstFlagFPU_M8} 373 1,
    COMMON {kInstFlagFp, kInstFlagFPU_M2, kInstFlagFPU_M4, kInstFlagFPU_M8} 373 1,
    COMMON {kInstFlagFp, kInstFlagFPU_M2, kInstFlagFPU_M4, kInstFlagFPU_M8} 373 1,
    COMMON {kInstFlagFp, kInstFlagFPU_M2, kInstFlagFPU_M4, kInstFlagFPU_M8} 374 1,
    COMMON {kInstFlagFp} 375 1,
    COMMON {kInstFlagFp} 376 1,
    COMMON {kInstFlagFp} 377 1,
    COMMON {kInstFlagFp, kInstFlagFPU_M4, kInstFlagFPU_M8} 262 1,
    COMMON {kInstFlagFp, kInstFlagFPU_M4, kInstFlagFPU_M8, kInstFlagFPU_M10} 374 1,
    COMMON {kInstFlagFp} 377 1,
    COMMON {kInstFlagFp, kInstFlagVolatile} 259 1,
    COMMON {kInstFlagFp} 378 1,
    COMMON {kInstFlagRW, kInstFlagSpecial} 115 4,
    COMMON {kInstFlagRW, kInstFlagSpecial} 33 10,
    COMMON {kInstFlagRW, kInstFlagLock} 255 2]"

definition commonData_1 :: "CommonData list" where
  "commonData_1 = [
    COMMON {kInstFlagRW} 263 2,
    COMMON {kInstFlagVolatile} 379 1,
    COMMON {kInstFlagVolatile} 259 1,
    COMMON {kInstFlagFlow, kInstFlagVolatile} 380 1,
    COMMON {kInstFlagFlow, kInstFlagVolatile} 380 1,
    COMMON {kInstFlagFlow, kInstFlagVolatile} 381 1,
    COMMON {kInstFlagFlow, kInstFlagVolatile} 380 1,
    COMMON {kInstFlagFlow, kInstFlagVolatile} 380 1,
    COMMON {kInstFlagFlow, kInstFlagVolatile} 380 1,
    COMMON {kInstFlagFlow, kInstFlagVolatile} 380 1,
    COMMON {kInstFlagFlow, kInstFlagVolatile} 380 1,
    COMMON {kInstFlagFlow, kInstFlagVolatile} 380 1,
    COMMON {kInstFlagFlow, kInstFlagVolatile, kInstFlagSpecial} 265 2,
    COMMON {kInstFlagFlow, kInstFlagVolatile} 267 2,
    COMMON {kInstFlagWO, kInstFlagVex} 382 1,
    COMMON {kInstFlagWO, kInstFlagVex} 269 2,
    COMMON {kInstFlagWO, kInstFlagVex} 271 2,
    COMMON {kInstFlagWO, kInstFlagVex} 273 2,
    COMMON {kInstFlagWO, kInstFlagVex} 275 2,
    COMMON {kInstFlagWO, kInstFlagVex} 383 1,
    COMMON {kInstFlagRO, kInstFlagVex} 384 1,
    COMMON {kInstFlagWO, kInstFlagVex} 385 1,
    COMMON {kInstFlagRW, kInstFlagVolatile, kInstFlagSpecial} 386 1,
    COMMON {kInstFlagWO} 200 1,
    COMMON {kInstFlagRO, kInstFlagVolatile} 387 1,
    COMMON {kInstFlagWO} 388 1,
    COMMON {kInstFlagVolatile, kInstFlagSpecial} 259 1,
    COMMON {kInstFlagWO, kInstFlagSpecial} 0 0,
    COMMON {kInstFlagWO, kInstFlagSpecial} 0 0,
    COMMON {kInstFlagWO, kInstFlagSpecial} 0 0,
    COMMON {kInstFlagWO, kInstFlagSpecial} 0 0,
    COMMON {kInstFlagRW} 152 3,
    COMMON {kInstFlagRO, kInstFlagSpecial} 389 1,
    COMMON {kInstFlagRO, kInstFlagSpecial} 390 1,
    COMMON {kInstFlagRW, kInstFlagVolatile} 259 1,
    COMMON {kInstFlagRO, kInstFlagVolatile, kInstFlagSpecial} 0 0,
    COMMON {kInstFlagWO} 0 13,
    COMMON {kInstFlagWO} 63 2,
    COMMON {kInstFlagWO} 63 2,
    COMMON {kInstFlagWO} 51 6,
    COMMON {kInstFlagWO} 277 2,
    COMMON {kInstFlagWO} 391 1,
    COMMON {kInstFlagWO} 63 2,
    COMMON {kInstFlagWO} 63 2,
    COMMON {kInstFlagWO} 392 1,
    COMMON {kInstFlagRW} 206 2,
    COMMON {kInstFlagRW} 206 2,
    COMMON {kInstFlagRW} 392 1,
    COMMON {kInstFlagWO} 206 2,
    COMMON {kInstFlagWO} 206 2,
    COMMON {kInstFlagWO} 393 1,
    COMMON {kInstFlagWO} 197 1,
    COMMON {kInstFlagWO} 55 2,
    COMMON {kInstFlagWO} 197 1,
    COMMON {kInstFlagWO} 197 1,
    COMMON {kInstFlagWO} 394 1,
    COMMON {kInstFlagWO} 157 1,
    COMMON {kInstFlagWO} 280 1,
    COMMON {kInstFlagWO} 57 6,
    COMMON {kInstFlagWO} 395 1,
    COMMON {kInstFlagWO, kInstFlagSpecial} 0 0,
    COMMON {kInstFlagWO, kInstFlagZeroIfMem} 155 3,
    COMMON {kInstFlagWO, kInstFlagZeroIfMem} 279 2,
    COMMON {kInstFlagWO} 281 2,
    COMMON {kInstFlagWO} 396 1,
    COMMON {kInstFlagWO} 63 2,
    COMMON {kInstFlagWO} 63 2,
    COMMON {kInstFlagRW, kInstFlagSpecial} 33 4,
    COMMON {kInstFlagRW, kInstFlagSpecial} 283 2,
    COMMON {kInstFlagRW, kInstFlagLock} 256 1,
    COMMON {} 285 2,
    COMMON {kInstFlagRW, kInstFlagLock} 256 1,
    COMMON {kInstFlagRW} 287 2,
    COMMON {kInstFlagRW} 289 2,
    COMMON {kInstFlagRW} 259 1,
    COMMON {kInstFlagRW} 287 1,
    COMMON {kInstFlagWO, kInstFlagSpecial} 397 1,
    COMMON {kInstFlagWO, kInstFlagSpecial} 398 1,
    COMMON {kInstFlagWO, kInstFlagSpecial} 399 1,
    COMMON {kInstFlagWO, kInstFlagSpecial} 400 1,
    COMMON {kInstFlagWO} 245 2,
    COMMON {kInstFlagWO} 401 1,
    COMMON {kInstFlagWO} 402 1,
    COMMON {kInstFlagWO} 291 2,
    COMMON {kInstFlagWO} 295 1,
    COMMON {kInstFlagWO} 295 1,
    COMMON {kInstFlagRW} 403 1,
    COMMON {kInstFlagRW} 404 1,
    COMMON {kInstFlagRW} 405 1,
    COMMON {kInstFlagRW} 406 1,
    COMMON {kInstFlagWO} 407 1,
    COMMON {kInstFlagWO} 227 1,
    COMMON {kInstFlagWO} 230 1,
    COMMON {kInstFlagWO, kInstFlagVolatile, kInstFlagSpecial} 293 2,
    COMMON {kInstFlagVolatile, kInstFlagSpecial} 408 1,
    COMMON {kInstFlagWO} 152 3,
    COMMON {kInstFlagVolatile, kInstFlagSpecial} 259 1,
    COMMON {kInstFlagRO, kInstFlagVolatile} 0 0,
    COMMON {kInstFlagRO, kInstFlagVolatile} 352 1,
    COMMON {kInstFlagRW} 295 2]"

definition commonData_2 :: "CommonData list" where
  "commonData_2 = [
    COMMON {kInstFlagWO} 70 1,
    COMMON {kInstFlagWO} 409 1,
    COMMON {kInstFlagRW} 297 2,
    COMMON {kInstFlagRW} 410 1,
    COMMON {kInstFlagRW} 297 2,
    COMMON {kInstFlagRW} 297 2,
    COMMON {kInstFlagRW} 297 2,
    COMMON {kInstFlagRW} 297 2,
    COMMON {kInstFlagRW} 297 2,
    COMMON {kInstFlagRW} 410 1,
    COMMON {kInstFlagRW} 297 2,
    COMMON {kInstFlagRW} 297 2,
    COMMON {kInstFlagRO} 341 1,
    COMMON {kInstFlagRO, kInstFlagVolatile, kInstFlagSpecial} 299 2,
    COMMON {kInstFlagVolatile, kInstFlagSpecial} 259 1,
    COMMON {kInstFlagRW, kInstFlagSpecial} 411 1,
    COMMON {kInstFlagWO} 227 1,
    COMMON {kInstFlagWO} 412 1,
    COMMON {kInstFlagWO} 413 1,
    COMMON {kInstFlagWO, kInstFlagVolatile, kInstFlagSpecial} 414 1,
    COMMON {kInstFlagWO, kInstFlagVolatile, kInstFlagSpecial} 415 1,
    COMMON {kInstFlagRW, kInstFlagVolatile, kInstFlagSpecial} 0 0,
    COMMON {kInstFlagRW, kInstFlagVolatile, kInstFlagSpecial} 301 2,
    COMMON {kInstFlagRW, kInstFlagSpecial} 411 1,
    COMMON {kInstFlagWO} 303 2,
    COMMON {kInstFlagWO} 416 1,
    COMMON {kInstFlagWO} 417 1,
    COMMON {kInstFlagRO, kInstFlagVolatile, kInstFlagSpecial} 418 1,
    COMMON {kInstFlagRW, kInstFlagSpecial} 411 1,
    COMMON {kInstFlagWO} 247 2,
    COMMON {kInstFlagWO} 419 1,
    COMMON {kInstFlagWO} 419 1,
    COMMON {kInstFlagWO} 419 1,
    COMMON {kInstFlagWO} 419 1,
    COMMON {kInstFlagWO} 419 1,
    COMMON {kInstFlagWO} 419 1,
    COMMON {kInstFlagWO} 419 1,
    COMMON {kInstFlagWO} 419 1,
    COMMON {kInstFlagRW, kInstFlagSpecial} 158 3,
    COMMON {kInstFlagWO} 61 1,
    COMMON {} 259 1,
    COMMON {} 259 1,
    COMMON {} 259 1,
    COMMON {kInstFlagVolatile} 420 1,
    COMMON {kInstFlagRO} 87 5,
    COMMON {} 259 1,
    COMMON ({kInstFlagWO, kInstFlagVex} \<union> A512 kInstFlagEvexSet_F True {kInstFlagEvexKZ} {kInstFlagEvexER} {kInstFlagEvexB8}) 161 3,
    COMMON ({kInstFlagWO, kInstFlagVex} \<union> A512 kInstFlagEvexSet_F True {kInstFlagEvexKZ} {kInstFlagEvexER} {kInstFlagEvexB4}) 161 3,
    COMMON ({kInstFlagWO, kInstFlagVex} \<union> A512 kInstFlagEvexSet_F False {kInstFlagEvexKZ} {kInstFlagEvexER} {}) 421 1,
    COMMON ({kInstFlagWO, kInstFlagVex} \<union> A512 kInstFlagEvexSet_F False {kInstFlagEvexKZ} {kInstFlagEvexER} {}) 422 1,
    COMMON {kInstFlagWO, kInstFlagVex} 161 2,
    COMMON {kInstFlagWO, kInstFlagVex} 69 1,
    COMMON {kInstFlagWO, kInstFlagVex} 63 1,
    COMMON {kInstFlagWO, kInstFlagVex} 70 1,
    COMMON ({kInstFlagWO} \<union> A512 kInstFlagEvexSet_F True {kInstFlagEvexKZ} {} {kInstFlagEvexB4}) 164 3,
    COMMON ({kInstFlagWO} \<union> A512 kInstFlagEvexSet_F True {kInstFlagEvexKZ} {} {kInstFlagEvexB8}) 164 3,
    COMMON ({kInstFlagWO, kInstFlagVex} \<union> A512 kInstFlagEvexSet_DQ True {kInstFlagEvexKZ} {} {kInstFlagEvexB8}) 161 3,
    COMMON ({kInstFlagWO, kInstFlagVex} \<union> A512 kInstFlagEvexSet_DQ True {kInstFlagEvexKZ} {} {kInstFlagEvexB4}) 161 3,
    COMMON ({kInstFlagWO} \<union> A512 kInstFlagEvexSet_BW True {kInstFlagEvexKZ} {} {}) 161 3,
    COMMON ({kInstFlagWO} \<union> A512 kInstFlagEvexSet_F True {kInstFlagEvexKZ} {} {kInstFlagEvexB4}) 161 3,
    COMMON ({kInstFlagWO} \<union> A512 kInstFlagEvexSet_F True {kInstFlagEvexKZ} {} {kInstFlagEvexB8}) 161 3,
    COMMON {kInstFlagWO, kInstFlagVex} 164 2,
    COMMON {kInstFlagWO, kInstFlagVex} 305 2,
    COMMON {kInstFlagWO, kInstFlagVex} 423 1,
    COMMON ({kInstFlagWO} \<union> A512 kInstFlagEvexSet_DQ True {kInstFlagEvexKZ} {} {}) 424 1,
    COMMON ({kInstFlagWO} \<union> A512 kInstFlagEvexSet_F False {kInstFlagEvexKZ} {} {}) 425 1,
    COMMON ({kInstFlagWO} \<union> A512 kInstFlagEvexSet_DQ False {kInstFlagEvexKZ} {} {}) 426 1,
    COMMON ({kInstFlagWO} \<union> A512 kInstFlagEvexSet_DQ True {kInstFlagEvexKZ} {} {}) 425 1,
    COMMON ({kInstFlagWO} \<union> A512 kInstFlagEvexSet_F False {kInstFlagEvexKZ} {} {}) 426 1,
    COMMON ({kInstFlagWO} \<union> A512 kInstFlagEvexSet_DQ True {kInstFlagEvexKZ} {} {}) 427 1,
    COMMON ({kInstFlagWO} \<union> A512 kInstFlagEvexSet_F True {kInstFlagEvexKZ} {} {}) 424 1,
    COMMON ({kInstFlagWO} \<union> A512 kInstFlagEvexSet_DQ False {kInstFlagEvexKZ} {} {}) 232 1,
    COMMON ({kInstFlagWO} \<union> A512 kInstFlagEvexSet_F False {kInstFlagEvexKZ} {} {}) 232 1,
    COMMON ({kInstFlagWO, kInstFlagVex} \<union> A512 kInstFlagEvexSet_F True {kInstFlagEvexKZ} {} {}) 424 1,
    COMMON ({kInstFlagWO, kInstFlagVex} \<union> A512 kInstFlagEvexSet_F True {kInstFlagEvexKZ} {} {}) 325 1,
    COMMON ({kInstFlagWO, kInstFlagVex} \<union> A512 kInstFlagEvexSet_F True {kInstFlagEvexKZ} {kInstFlagEvexSAE} {kInstFlagEvexB8}) 167 3,
    COMMON ({kInstFlagWO, kInstFlagVex} \<union> A512 kInstFlagEvexSet_F True {kInstFlagEvexKZ} {kInstFlagEvexSAE} {kInstFlagEvexB4}) 167 3,
    COMMON ({kInstFlagWO, kInstFlagVex} \<union> A512 kInstFlagEvexSet_F False {kInstFlagEvexKZ} {kInstFlagEvexSAE} {}) 428 1,
    COMMON ({kInstFlagWO, kInstFlagVex} \<union> A512 kInstFlagEvexSet_F False {kInstFlagEvexKZ} {kInstFlagEvexSAE} {}) 429 1,
    COMMON ({kInstFlagRO, kInstFlagVex} \<union> A512 kInstFlagEvexSet_F False {} {kInstFlagEvexSAE} {}) 357 1,
    COMMON ({kInstFlagRO, kInstFlagVex} \<union> A512 kInstFlagEvexSet_F False {} {kInstFlagEvexSAE} {}) 358 1,
    COMMON ({kInstFlagWO} \<union> A512 kInstFlagEvexSet_F True {kInstFlagEvexKZ} {} {}) 170 3,
    COMMON ({kInstFlagWO, kInstFlagVex} \<union> A512 kInstFlagEvexSet_F True {kInstFlagEvexKZ} {} {kInstFlagEvexB4}) 173 3,
    COMMON ({kInstFlagWO, kInstFlagVex} \<union> A512 kInstFlagEvexSet_F True {kInstFlagEvexKZ} {kInstFlagEvexER} {kInstFlagEvexB4}) 176 3,
    COMMON ({kInstFlagWO, kInstFlagVex} \<union> A512 kInstFlagEvexSet_F True {kInstFlagEvexKZ} {kInstFlagEvexER} {kInstFlagEvexB8}) 307 2,
    COMMON ({kInstFlagWO, kInstFlagVex} \<union> A512 kInstFlagEvexSet_F True {kInstFlagEvexKZ} {kInstFlagEvexER} {kInstFlagEvexB8}) 179 3,
    COMMON ({kInstFlagWO} \<union> A512 kInstFlagEvexSet_DQ True {kInstFlagEvexKZ} {kInstFlagEvexER} {kInstFlagEvexB8}) 176 3,
    COMMON ({kInstFlagWO} \<union> A512 kInstFlagEvexSet_F True {kInstFlagEvexKZ} {kInstFlagEvexER} {kInstFlagEvexB8}) 307 2,
    COMMON ({kInstFlagWO, kInstFlagVex} \<union> A512 kInstFlagEvexSet_F True {kInstFlagEvexKZ} {kInstFlagEvexSAE} {}) 173 3,
    COMMON ({kInstFlagWO, kInstFlagVex} \<union> A512 kInstFlagEvexSet_F True {kInstFlagEvexKZ} {kInstFlagEvexER} {kInstFlagEvexB4}) 173 3,
    COMMON ({kInstFlagWO, kInstFlagVex} \<union> A512 kInstFlagEvexSet_F True {kInstFlagEvexKZ} {kInstFlagEvexSAE} {}) 182 3,
    COMMON ({kInstFlagWO} \<union> A512 kInstFlagEvexSet_DQ True {kInstFlagEvexKZ} {kInstFlagEvexER} {kInstFlagEvexB4}) 173 3,
    COMMON ({kInstFlagWO} \<union> A512 kInstFlagEvexSet_F True {kInstFlagEvexKZ} {kInstFlagEvexER} {kInstFlagEvexB4}) 176 3,
    COMMON ({kInstFlagWO} \<union> A512 kInstFlagEvexSet_DQ True {kInstFlagEvexKZ} {kInstFlagEvexER} {kInstFlagEvexB8}) 307 2,
    COMMON ({kInstFlagWO, kInstFlagVex} \<union> A512 kInstFlagEvexSet_F False {} {kInstFlagEvexER} {}) 364 1,
    COMMON ({kInstFlagWO} \<union> A512 kInstFlagEvexSet_F False {} {kInstFlagEvexER} {}) 364 1,
    COMMON ({kInstFlagWO, kInstFlagVex} \<union> A512 kInstFlagEvexSet_F False {} {kInstFlagEvexER} {}) 430 1,
    COMMON ({kInstFlagWO, kInstFlagVex} \<union> A512 kInstFlagEvexSet_F False {kInstFlagEvexKZ} {kInstFlagEvexSAE} {}) 422 1,
    COMMON ({kInstFlagWO, kInstFlagVex} \<union> A512 kInstFlagEvexSet_F False {} {kInstFlagEvexER} {}) 309 2,
    COMMON ({kInstFlagWO} \<union> A512 kInstFlagEvexSet_F False {} {kInstFlagEvexER} {}) 311 2]"

definition commonData_3 :: "CommonData list" where
  "commonData_3 = [
    COMMON ({kInstFlagWO, kInstFlagVex} \<union> A512 kInstFlagEvexSet_F True {kInstFlagEvexKZ} {kInstFlagEvexSAE} {kInstFlagEvexB8}) 307 2,
    COMMON ({kInstFlagWO} \<union> A512 kInstFlagEvexSet_F True {kInstFlagEvexKZ} {kInstFlagEvexSAE} {kInstFlagEvexB8}) 176 3,
    COMMON ({kInstFlagWO} \<union> A512 kInstFlagEvexSet_F True {kInstFlagEvexKZ} {kInstFlagEvexSAE} {kInstFlagEvexB8}) 307 2,
    COMMON ({kInstFlagWO} \<union> A512 kInstFlagEvexSet_DQ True {kInstFlagEvexKZ} {kInstFlagEvexSAE} {kInstFlagEvexB8}) 176 3,
    COMMON ({kInstFlagWO, kInstFlagVex} \<union> A512 kInstFlagEvexSet_F True {kInstFlagEvexKZ} {kInstFlagEvexSAE} {kInstFlagEvexB4}) 176 3,
    COMMON ({kInstFlagWO} \<union> A512 kInstFlagEvexSet_DQ True {kInstFlagEvexKZ} {kInstFlagEvexSAE} {kInstFlagEvexB4}) 173 3,
    COMMON ({kInstFlagWO} \<union> A512 kInstFlagEvexSet_F True {kInstFlagEvexKZ} {kInstFlagEvexSAE} {kInstFlagEvexB4}) 176 3,
    COMMON ({kInstFlagWO, kInstFlagVex} \<union> A512 kInstFlagEvexSet_F False {} {kInstFlagEvexSAE} {}) 364 1,
    COMMON ({kInstFlagWO} \<union> A512 kInstFlagEvexSet_F False {} {kInstFlagEvexSAE} {}) 364 1,
    COMMON ({kInstFlagWO, kInstFlagVex} \<union> A512 kInstFlagEvexSet_F False {} {kInstFlagEvexSAE} {}) 309 2,
    COMMON ({kInstFlagWO} \<union> A512 kInstFlagEvexSet_F False {} {kInstFlagEvexSAE} {}) 311 2,
    COMMON ({kInstFlagWO} \<union> A512 kInstFlagEvexSet_F True {kInstFlagEvexKZ} {} {kInstFlagEvexB4}) 173 3,
    COMMON ({kInstFlagWO} \<union> A512 kInstFlagEvexSet_F False {} {kInstFlagEvexER} {}) 430 1,
    COMMON ({kInstFlagWO} \<union> A512 kInstFlagEvexSet_BW True {kInstFlagEvexKZ} {} {}) 164 3,
    COMMON ({kInstFlagWO} \<union> A512 kInstFlagEvexSet_ERI False {kInstFlagEvexKZ} {kInstFlagEvexSAE} {kInstFlagEvexB8}) 67 1,
    COMMON ({kInstFlagWO} \<union> A512 kInstFlagEvexSet_ERI False {kInstFlagEvexKZ} {kInstFlagEvexSAE} {kInstFlagEvexB4}) 67 1,
    COMMON ({kInstFlagWO} \<union> A512 kInstFlagEvexSet_F True {kInstFlagEvexKZ} {} {}) 176 3,
    COMMON {kInstFlagWO, kInstFlagVex} 183 1,
    COMMON ({kInstFlagWO} \<union> A512 kInstFlagEvexSet_F True {kInstFlagEvexKZ} {} {}) 431 1,
    COMMON ({kInstFlagWO} \<union> A512 kInstFlagEvexSet_DQ False {kInstFlagEvexKZ} {} {}) 184 1,
    COMMON ({kInstFlagWO} \<union> A512 kInstFlagEvexSet_DQ True {kInstFlagEvexKZ} {} {}) 431 1,
    COMMON ({kInstFlagWO} \<union> A512 kInstFlagEvexSet_F False {kInstFlagEvexKZ} {} {}) 184 1,
    COMMON ({kInstFlagWO, kInstFlagVex} \<union> A512 kInstFlagEvexSet_F False {} {} {}) 370 1,
    COMMON ({kInstFlagRW} \<union> A512 kInstFlagEvexSet_F True {kInstFlagEvexKZ} {kInstFlagEvexSAE} {kInstFlagEvexB8}) 185 3,
    COMMON ({kInstFlagRW} \<union> A512 kInstFlagEvexSet_F True {kInstFlagEvexKZ} {kInstFlagEvexSAE} {kInstFlagEvexB4}) 185 3,
    COMMON ({kInstFlagRW} \<union> A512 kInstFlagEvexSet_F False {kInstFlagEvexKZ} {kInstFlagEvexSAE} {}) 432 1,
    COMMON ({kInstFlagRW} \<union> A512 kInstFlagEvexSet_F False {kInstFlagEvexKZ} {kInstFlagEvexSAE} {}) 433 1,
    COMMON ({kInstFlagRW, kInstFlagVex} \<union> A512 kInstFlagEvexSet_F True {kInstFlagEvexKZ} {kInstFlagEvexER} {kInstFlagEvexB8}) 188 3,
    COMMON ({kInstFlagRW, kInstFlagVex} \<union> A512 kInstFlagEvexSet_F True {kInstFlagEvexKZ} {kInstFlagEvexER} {kInstFlagEvexB4}) 188 3,
    COMMON ({kInstFlagRW, kInstFlagVex} \<union> A512 kInstFlagEvexSet_F False {kInstFlagEvexKZ} {kInstFlagEvexER} {}) 434 1,
    COMMON ({kInstFlagRW, kInstFlagVex} \<union> A512 kInstFlagEvexSet_F False {kInstFlagEvexKZ} {kInstFlagEvexER} {}) 435 1,
    COMMON {kInstFlagWO, kInstFlagVex} 119 4,
    COMMON {kInstFlagWO, kInstFlagVex} 313 2,
    COMMON {kInstFlagWO, kInstFlagVex} 315 2,
    COMMON ({kInstFlagWO} \<union> A512 kInstFlagEvexSet_DQ True {kInstFlagEvexK} {} {kInstFlagEvexB8}) 436 1,
    COMMON ({kInstFlagWO} \<union> A512 kInstFlagEvexSet_DQ True {kInstFlagEvexK} {} {kInstFlagEvexB4}) 436 1,
    COMMON ({kInstFlagWO} \<union> A512 kInstFlagEvexSet_DQ False {kInstFlagEvexK} {} {}) 437 1,
    COMMON ({kInstFlagWO} \<union> A512 kInstFlagEvexSet_DQ False {kInstFlagEvexK} {} {}) 438 1,
    COMMON {kInstFlagWO, kInstFlagVex} 176 2,
    COMMON {kInstFlagWO, kInstFlagVex} 61 1,
    COMMON {kInstFlagWO, kInstFlagVex} 227 1,
    COMMON ({kInstFlagRW, kInstFlagVex_VM} \<union> A512 kInstFlagEvexSet_F True {kInstFlagEvexK} {} {}) 92 5,
    COMMON ({kInstFlagRW, kInstFlagVex_VM} \<union> A512 kInstFlagEvexSet_F True {kInstFlagEvexK} {} {}) 97 5,
    COMMON ({kInstFlagRO, kInstFlagVM} \<union> A512 kInstFlagEvexSet_PFI False {kInstFlagEvexK} {} {}) 439 1,
    COMMON ({kInstFlagRO, kInstFlagVM} \<union> A512 kInstFlagEvexSet_PFI False {kInstFlagEvexK} {} {}) 440 1,
    COMMON ({kInstFlagRO, kInstFlagVM} \<union> A512 kInstFlagEvexSet_PFI False {kInstFlagEvexK} {} {}) 441 1,
    COMMON ({kInstFlagRW, kInstFlagVex_VM} \<union> A512 kInstFlagEvexSet_F True {kInstFlagEvexK} {} {}) 102 5,
    COMMON ({kInstFlagRW, kInstFlagVex_VM} \<union> A512 kInstFlagEvexSet_F True {kInstFlagEvexK} {} {}) 123 4,
    COMMON ({kInstFlagWO} \<union> A512 kInstFlagEvexSet_F False {kInstFlagEvexKZ} {kInstFlagEvexSAE} {}) 61 1,
    COMMON ({kInstFlagWO} \<union> A512 kInstFlagEvexSet_F False {kInstFlagEvexKZ} {kInstFlagEvexSAE} {}) 227 1,
    COMMON ({kInstFlagWO} \<union> A512 kInstFlagEvexSet_F True {kInstFlagEvexKZ} {kInstFlagEvexSAE} {kInstFlagEvexB8}) 191 3,
    COMMON ({kInstFlagWO} \<union> A512 kInstFlagEvexSet_F True {kInstFlagEvexKZ} {kInstFlagEvexSAE} {kInstFlagEvexB4}) 191 3,
    COMMON ({kInstFlagWO} \<union> A512 kInstFlagEvexSet_F False {kInstFlagEvexKZ} {kInstFlagEvexSAE} {}) 416 1,
    COMMON ({kInstFlagWO} \<union> A512 kInstFlagEvexSet_F False {kInstFlagEvexKZ} {kInstFlagEvexSAE} {}) 417 1,
    COMMON {kInstFlagWO, kInstFlagVex} 317 1,
    COMMON ({kInstFlagWO} \<union> A512 kInstFlagEvexSet_F True {kInstFlagEvexKZ} {} {}) 317 2,
    COMMON ({kInstFlagWO} \<union> A512 kInstFlagEvexSet_DQ False {kInstFlagEvexKZ} {} {}) 442 1,
    COMMON ({kInstFlagWO} \<union> A512 kInstFlagEvexSet_DQ True {kInstFlagEvexKZ} {} {}) 317 2,
    COMMON ({kInstFlagWO} \<union> A512 kInstFlagEvexSet_F False {kInstFlagEvexKZ} {} {}) 442 1,
    COMMON ({kInstFlagWO, kInstFlagVex} \<union> A512 kInstFlagEvexSet_F False {} {} {}) 443 1,
    COMMON {kInstFlagWO, kInstFlagVex} 200 2,
    COMMON {kInstFlagRO, kInstFlagVex, kInstFlagVolatile} 387 1,
    COMMON {kInstFlagRO, kInstFlagVex, kInstFlagSpecial} 444 1,
    COMMON {kInstFlagRW, kInstFlagVex} 127 4,
    COMMON {kInstFlagRW, kInstFlagVex} 127 4,
    COMMON ({kInstFlagWO, kInstFlagVex} \<union> A512 kInstFlagEvexSet_F True {kInstFlagEvexKZ} {kInstFlagEvexSAE} {kInstFlagEvexB8}) 161 3,
    COMMON ({kInstFlagWO, kInstFlagVex} \<union> A512 kInstFlagEvexSet_F True {kInstFlagEvexKZ} {kInstFlagEvexSAE} {kInstFlagEvexB4}) 161 3,
    COMMON ({kInstFlagWO, kInstFlagVex} \<union> A512 kInstFlagEvexSet_F True {kInstFlagEvexKZ} {kInstFlagEvexSAE} {}) 421 1,
    COMMON ({kInstFlagWO, kInstFlagVex} \<union> A512 kInstFlagEvexSet_F True {kInstFlagEvexKZ} {kInstFlagEvexSAE} {}) 422 1,
    COMMON ({kInstFlagWO, kInstFlagVex} \<union> A512 kInstFlagEvexSet_F True {kInstFlagEvexKZ} {} {}) 63 6,
    COMMON ({kInstFlagWO, kInstFlagVex} \<union> A512 kInstFlagEvexSet_F True {kInstFlagEvexKZ} {} {}) 63 6,
    COMMON ({kInstFlagWO, kInstFlagVex} \<union> A512 kInstFlagEvexSet_F False {} {} {}) 319 2,
    COMMON ({kInstFlagWO, kInstFlagVex} \<union> A512 kInstFlagEvexSet_F True {kInstFlagEvexKZ} {} {}) 194 3,
    COMMON {kInstFlagWO, kInstFlagVex} 63 4,
    COMMON ({kInstFlagWO} \<union> A512 kInstFlagEvexSet_F True {kInstFlagEvexKZ} {} {}) 63 6,
    COMMON ({kInstFlagWO} \<union> A512 kInstFlagEvexSet_F True {kInstFlagEvexKZ} {} {}) 63 6,
    COMMON {kInstFlagWO, kInstFlagVex} 63 4,
    COMMON ({kInstFlagWO} \<union> A512 kInstFlagEvexSet_BW True {kInstFlagEvexKZ} {} {}) 63 6,
    COMMON ({kInstFlagWO} \<union> A512 kInstFlagEvexSet_F True {kInstFlagEvexKZ} {} {}) 63 6,
    COMMON ({kInstFlagWO} \<union> A512 kInstFlagEvexSet_F True {kInstFlagEvexKZ} {} {}) 63 6,
    COMMON ({kInstFlagWO} \<union> A512 kInstFlagEvexSet_BW True {kInstFlagEvexKZ} {} {}) 63 6,
    COMMON ({kInstFlagWO, kInstFlagVex} \<union> A512 kInstFlagEvexSet_F False {} {} {}) 208 1,
    COMMON ({kInstFlagWO, kInstFlagVex} \<union> A512 kInstFlagEvexSet_F False {} {} {}) 321 2,
    COMMON ({kInstFlagWO, kInstFlagVex} \<union> A512 kInstFlagEvexSet_F False {} {} {}) 321 2,
    COMMON ({kInstFlagWO, kInstFlagVex} \<union> A512 kInstFlagEvexSet_F False {} {} {}) 321 2,
    COMMON ({kInstFlagWO, kInstFlagVex} \<union> A512 kInstFlagEvexSet_F False {} {} {}) 321 2,
    COMMON {kInstFlagWO, kInstFlagVex} 445 1,
    COMMON ({kInstFlagWO, kInstFlagVex} \<union> A512 kInstFlagEvexSet_F True {} {} {}) 197 3,
    COMMON ({kInstFlagWO, kInstFlagVex} \<union> A512 kInstFlagEvexSet_F True {} {} {}) 200 3,
    COMMON ({kInstFlagWO, kInstFlagVex} \<union> A512 kInstFlagEvexSet_F False {} {} {}) 203 3,
    COMMON ({kInstFlagWO, kInstFlagVex} \<union> A512 kInstFlagEvexSet_F False {kInstFlagEvexKZ} {} {}) 206 3,
    COMMON ({kInstFlagWO, kInstFlagVex} \<union> A512 kInstFlagEvexSet_F True {kInstFlagEvexKZ} {} {}) 176 3,
    COMMON ({kInstFlagWO, kInstFlagVex} \<union> A512 kInstFlagEvexSet_F False {kInstFlagEvexKZ} {} {}) 209 3,
    COMMON ({kInstFlagWO, kInstFlagVex} \<union> A512 kInstFlagEvexSet_F True {kInstFlagEvexKZ} {} {}) 63 6,
    COMMON ({kInstFlagWO, kInstFlagVex} \<union> A512 kInstFlagEvexSet_F True {kInstFlagEvexKZ} {} {}) 63 6,
    COMMON ({kInstFlagWO, kInstFlagVex} \<union> A512 kInstFlagEvexSet_F True {kInstFlagEvexKZ} {} {kInstFlagEvexB4}) 161 3,
    COMMON ({kInstFlagWO, kInstFlagVex} \<union> A512 kInstFlagEvexSet_BW True {kInstFlagEvexKZ} {} {}) 176 3,
    COMMON ({kInstFlagWO, kInstFlagVex} \<union> A512 kInstFlagEvexSet_BW True {kInstFlagEvexKZ} {} {kInstFlagEvexB4}) 161 3,
    COMMON ({kInstFlagWO, kInstFlagVex} \<union> A512 kInstFlagEvexSet_BW True {kInstFlagEvexKZ} {} {}) 161 3,
    COMMON ({kInstFlagWO, kInstFlagVex} \<union> A512 kInstFlagEvexSet_F True {kInstFlagEvexKZ} {} {kInstFlagEvexB8}) 161 3]"

definition commonData_4 :: "CommonData list" where
  "commonData_4 = [
    COMMON ({kInstFlagWO, kInstFlagVex} \<union> A512 kInstFlagEvexSet_BW True {kInstFlagEvexKZ} {} {}) 164 3,
    COMMON ({kInstFlagWO, kInstFlagVex} \<union> A512 kInstFlagEvexSet_BW True {kInstFlagEvexKZ} {} {}) 323 2,
    COMMON ({kInstFlagWO, kInstFlagVex} \<union> A512 kInstFlagEvexSet_F True {kInstFlagEvexKZ} {} {}) 325 2,
    COMMON ({kInstFlagWO} \<union> A512 kInstFlagEvexSet_CDI True {} {} {}) 446 1,
    COMMON ({kInstFlagWO, kInstFlagVex} \<union> A512 kInstFlagEvexSet_F True {kInstFlagEvexKZ} {} {}) 447 1,
    COMMON ({kInstFlagWO, kInstFlagVex} \<union> A512 kInstFlagEvexSet_BW True {kInstFlagEvexKZ} {} {}) 327 2,
    COMMON {kInstFlagWO, kInstFlagVex} 164 1,
    COMMON ({kInstFlagWO} \<union> A512 kInstFlagEvexSet_BW True {kInstFlagEvexK} {} {}) 212 3,
    COMMON ({kInstFlagWO} \<union> A512 kInstFlagEvexSet_F True {kInstFlagEvexK} {} {kInstFlagEvexB4}) 212 3,
    COMMON ({kInstFlagWO, kInstFlagVex} \<union> A512 kInstFlagEvexSet_BW True {kInstFlagEvexK} {} {}) 215 3,
    COMMON ({kInstFlagWO, kInstFlagVex} \<union> A512 kInstFlagEvexSet_F True {kInstFlagEvexK} {} {kInstFlagEvexB4}) 215 3,
    COMMON ({kInstFlagWO, kInstFlagVex} \<union> A512 kInstFlagEvexSet_F True {kInstFlagEvexK} {} {kInstFlagEvexB8}) 215 3,
    COMMON {kInstFlagWO, kInstFlagVex, kInstFlagSpecial} 397 1,
    COMMON {kInstFlagWO, kInstFlagVex, kInstFlagSpecial} 398 1,
    COMMON {kInstFlagWO, kInstFlagVex, kInstFlagSpecial} 399 1,
    COMMON {kInstFlagWO, kInstFlagVex, kInstFlagSpecial} 400 1,
    COMMON ({kInstFlagWO} \<union> A512 kInstFlagEvexSet_F True {kInstFlagEvexK} {} {kInstFlagEvexB8}) 212 3,
    COMMON ({kInstFlagWO} \<union> A512 kInstFlagEvexSet_BW True {kInstFlagEvexK} {} {kInstFlagEvexB8}) 212 3,
    COMMON ({kInstFlagWO} \<union> A512 kInstFlagEvexSet_CDI True {kInstFlagEvexKZ} {} {kInstFlagEvexB4}) 176 3,
    COMMON {kInstFlagWO, kInstFlagVex} 165 1,
    COMMON ({kInstFlagWO} \<union> A512 kInstFlagEvexSet_VBMI True {kInstFlagEvexKZ} {} {}) 161 3,
    COMMON ({kInstFlagWO, kInstFlagVex} \<union> A512 kInstFlagEvexSet_F True {kInstFlagEvexKZ} {} {kInstFlagEvexB4}) 136 2,
    COMMON ({kInstFlagRW} \<union> A512 kInstFlagEvexSet_F True {kInstFlagEvexKZ} {} {kInstFlagEvexB4}) 188 3,
    COMMON ({kInstFlagRW} \<union> A512 kInstFlagEvexSet_F True {kInstFlagEvexKZ} {} {kInstFlagEvexB8}) 188 3,
    COMMON ({kInstFlagRW} \<union> A512 kInstFlagEvexSet_BW True {kInstFlagEvexKZ} {} {}) 188 3,
    COMMON {kInstFlagWO, kInstFlagVex} 131 4,
    COMMON ({kInstFlagWO, kInstFlagVex} \<union> A512 kInstFlagEvexSet_F True {kInstFlagEvexKZ} {} {kInstFlagEvexB8}) 69 6,
    COMMON ({kInstFlagWO, kInstFlagVex} \<union> A512 kInstFlagEvexSet_F True {kInstFlagEvexKZ} {} {kInstFlagEvexB8}) 69 6,
    COMMON {kInstFlagWO, kInstFlagVex} 72 1,
    COMMON {kInstFlagWO, kInstFlagVex} 71 1,
    COMMON ({kInstFlagWO, kInstFlagVex} \<union> A512 kInstFlagEvexSet_F True {kInstFlagEvexKZ} {} {kInstFlagEvexB8}) 135 4,
    COMMON ({kInstFlagWO, kInstFlagVex} \<union> A512 kInstFlagEvexSet_BW False {} {} {}) 401 1,
    COMMON ({kInstFlagWO, kInstFlagVex} \<union> A512 kInstFlagEvexSet_DQ False {} {} {}) 370 1,
    COMMON ({kInstFlagWO, kInstFlagVex} \<union> A512 kInstFlagEvexSet_DQ False {} {} {}) 402 1,
    COMMON ({kInstFlagWO, kInstFlagVex} \<union> A512 kInstFlagEvexSet_BW False {} {} {}) 292 1,
    COMMON ({kInstFlagRW, kInstFlagVex_VM} \<union> A512 kInstFlagEvexSet_F True {kInstFlagEvexK} {} {}) 97 5,
    COMMON ({kInstFlagRW, kInstFlagVex_VM} \<union> A512 kInstFlagEvexSet_F True {kInstFlagEvexK} {} {}) 92 5,
    COMMON ({kInstFlagRW, kInstFlagVex_VM} \<union> A512 kInstFlagEvexSet_F True {kInstFlagEvexK} {} {}) 123 4,
    COMMON ({kInstFlagRW, kInstFlagVex_VM} \<union> A512 kInstFlagEvexSet_F True {kInstFlagEvexK} {} {}) 102 5,
    COMMON ({kInstFlagWO, kInstFlagVex} \<union> A512 kInstFlagEvexSet_BW False {kInstFlagEvexKZ} {} {}) 329 2,
    COMMON ({kInstFlagWO, kInstFlagVex} \<union> A512 kInstFlagEvexSet_DQ False {kInstFlagEvexKZ} {} {}) 331 2,
    COMMON ({kInstFlagWO, kInstFlagVex} \<union> A512 kInstFlagEvexSet_DQ False {kInstFlagEvexKZ} {} {}) 333 2,
    COMMON ({kInstFlagWO, kInstFlagVex} \<union> A512 kInstFlagEvexSet_BW False {kInstFlagEvexKZ} {} {}) 448 1,
    COMMON ({kInstFlagWO} \<union> A512 kInstFlagEvexSet_CDI True {kInstFlagEvexKZ} {} {kInstFlagEvexB8}) 176 3,
    COMMON {kInstFlagWO, kInstFlagVex} 120 1,
    COMMON ({kInstFlagWO} \<union> A512 kInstFlagEvexSet_IFMA True {kInstFlagEvexKZ} {} {kInstFlagEvexB8}) 161 3,
    COMMON {kInstFlagWO, kInstFlagVex} 127 4,
    COMMON {kInstFlagWO, kInstFlagVex} 127 4,
    COMMON ({kInstFlagWO} \<union> A512 kInstFlagEvexSet_BW True {} {} {}) 449 1,
    COMMON ({kInstFlagWO} \<union> A512 kInstFlagEvexSet_DQ True {} {} {}) 449 1,
    COMMON ({kInstFlagWO} \<union> A512 kInstFlagEvexSet_F True {kInstFlagEvexKZ} {} {}) 218 3,
    COMMON ({kInstFlagWO} \<union> A512 kInstFlagEvexSet_F True {kInstFlagEvexKZ} {} {}) 221 3,
    COMMON ({kInstFlagWO} \<union> A512 kInstFlagEvexSet_BW True {} {} {}) 446 1,
    COMMON ({kInstFlagWO} \<union> A512 kInstFlagEvexSet_DQ True {} {} {}) 446 1,
    COMMON ({kInstFlagWO} \<union> A512 kInstFlagEvexSet_F True {kInstFlagEvexKZ} {} {}) 224 3,
    COMMON ({kInstFlagWO} \<union> A512 kInstFlagEvexSet_BW True {kInstFlagEvexKZ} {} {}) 221 3,
    COMMON ({kInstFlagWO, kInstFlagVex} \<union> A512 kInstFlagEvexSet_F True {kInstFlagEvexKZ} {} {}) 227 3,
    COMMON ({kInstFlagWO, kInstFlagVex} \<union> A512 kInstFlagEvexSet_F True {kInstFlagEvexKZ} {} {}) 230 3,
    COMMON ({kInstFlagWO, kInstFlagVex} \<union> A512 kInstFlagEvexSet_BW True {kInstFlagEvexKZ} {} {}) 173 3,
    COMMON ({kInstFlagWO, kInstFlagVex} \<union> A512 kInstFlagEvexSet_F True {kInstFlagEvexKZ} {} {}) 233 3,
    COMMON ({kInstFlagWO, kInstFlagVex} \<union> A512 kInstFlagEvexSet_F True {kInstFlagEvexKZ} {} {}) 173 3,
    COMMON ({kInstFlagWO} \<union> A512 kInstFlagEvexSet_DQ True {kInstFlagEvexKZ} {} {kInstFlagEvexB8}) 161 3,
    COMMON ({kInstFlagWO} \<union> A512 kInstFlagEvexSet_VBMI True {kInstFlagEvexKZ} {} {kInstFlagEvexB8}) 161 3,
    COMMON {kInstFlagWO, kInstFlagVex} 119 2,
    COMMON ({kInstFlagWO} \<union> A512 kInstFlagEvexSet_F True {kInstFlagEvexKZ} {} {kInstFlagEvexB4}) 191 3,
    COMMON ({kInstFlagWO} \<union> A512 kInstFlagEvexSet_F True {kInstFlagEvexKZ} {} {kInstFlagEvexB8}) 191 3,
    COMMON {kInstFlagWO, kInstFlagVex} 335 2,
    COMMON {kInstFlagWO, kInstFlagVex} 335 2,
    COMMON {kInstFlagWO, kInstFlagVex} 335 2,
    COMMON {kInstFlagWO, kInstFlagVex} 335 2,
    COMMON ({kInstFlagWO, kInstFlagVex} \<union> A512 kInstFlagEvexSet_BW True {} {} {}) 161 3,
    COMMON ({kInstFlagWO, kInstFlagVM} \<union> A512 kInstFlagEvexSet_F True {kInstFlagEvexK} {} {}) 236 3,
    COMMON ({kInstFlagWO, kInstFlagVM} \<union> A512 kInstFlagEvexSet_F True {kInstFlagEvexK} {} {}) 337 2,
    COMMON ({kInstFlagWO, kInstFlagVM} \<union> A512 kInstFlagEvexSet_F True {kInstFlagEvexK} {} {}) 239 3,
    COMMON {kInstFlagWO, kInstFlagVex} 339 2,
    COMMON ({kInstFlagWO, kInstFlagVex} \<union> A512 kInstFlagEvexSet_F True {kInstFlagEvexKZ} {} {kInstFlagEvexB4}) 191 3,
    COMMON ({kInstFlagWO, kInstFlagVex} \<union> A512 kInstFlagEvexSet_BW True {kInstFlagEvexKZ} {} {}) 191 3,
    COMMON ({kInstFlagWO, kInstFlagVex} \<union> A512 kInstFlagEvexSet_F True {kInstFlagEvexKZ} {} {kInstFlagEvexB4}) 75 6,
    COMMON ({kInstFlagWO, kInstFlagVex} \<union> A512 kInstFlagEvexSet_BW True {} {} {}) 191 3,
    COMMON ({kInstFlagWO, kInstFlagVex} \<union> A512 kInstFlagEvexSet_F True {kInstFlagEvexKZ} {} {kInstFlagEvexB8}) 75 6,
    COMMON ({kInstFlagWO, kInstFlagVex} \<union> A512 kInstFlagEvexSet_BW True {kInstFlagEvexKZ} {} {}) 75 6,
    COMMON ({kInstFlagWO, kInstFlagVex} \<union> A512 kInstFlagEvexSet_F True {kInstFlagEvexKZ} {} {kInstFlagEvexB4}) 75 6,
    COMMON ({kInstFlagWO} \<union> A512 kInstFlagEvexSet_F True {kInstFlagEvexKZ} {} {kInstFlagEvexB8}) 81 6,
    COMMON ({kInstFlagWO, kInstFlagVex} \<union> A512 kInstFlagEvexSet_BW True {kInstFlagEvexKZ} {} {}) 75 6,
    COMMON ({kInstFlagWO, kInstFlagVex} \<union> A512 kInstFlagEvexSet_F True {kInstFlagEvexKZ} {} {kInstFlagEvexB4}) 75 6,
    COMMON ({kInstFlagWO, kInstFlagVex} \<union> A512 kInstFlagEvexSet_F True {kInstFlagEvexKZ} {} {kInstFlagEvexB8}) 75 6,
    COMMON ({kInstFlagWO, kInstFlagVex} \<union> A512 kInstFlagEvexSet_BW True {kInstFlagEvexKZ} {} {}) 75 6,
    COMMON ({kInstFlagRW} \<union> A512 kInstFlagEvexSet_F True {kInstFlagEvexKZ} {} {kInstFlagEvexB4}) 185 3,
    COMMON ({kInstFlagRW} \<union> A512 kInstFlagEvexSet_F True {kInstFlagEvexKZ} {} {kInstFlagEvexB8}) 185 3,
    COMMON {kInstFlagRO, kInstFlagVex} 341 2,
    COMMON ({kInstFlagWO} \<union> A512 kInstFlagEvexSet_BW True {kInstFlagEvexK} {} {}) 242 3,
    COMMON ({kInstFlagWO} \<union> A512 kInstFlagEvexSet_F True {kInstFlagEvexK} {} {kInstFlagEvexB4}) 242 3,
    COMMON ({kInstFlagWO} \<union> A512 kInstFlagEvexSet_F True {kInstFlagEvexK} {} {kInstFlagEvexB8}) 242 3,
    COMMON ({kInstFlagWO} \<union> A512 kInstFlagEvexSet_DQ True {kInstFlagEvexKZ} {kInstFlagEvexSAE} {kInstFlagEvexB8}) 164 3,
    COMMON ({kInstFlagWO} \<union> A512 kInstFlagEvexSet_DQ True {kInstFlagEvexKZ} {kInstFlagEvexSAE} {kInstFlagEvexB4}) 164 3,
    COMMON ({kInstFlagWO} \<union> A512 kInstFlagEvexSet_DQ False {kInstFlagEvexKZ} {kInstFlagEvexSAE} {}) 450 1,
    COMMON ({kInstFlagWO} \<union> A512 kInstFlagEvexSet_DQ False {kInstFlagEvexKZ} {kInstFlagEvexSAE} {}) 443 1,
    COMMON ({kInstFlagWO} \<union> A512 kInstFlagEvexSet_F True {kInstFlagEvexKZ} {} {kInstFlagEvexB8}) 176 3,
    COMMON ({kInstFlagWO} \<union> A512 kInstFlagEvexSet_F True {kInstFlagEvexKZ} {} {kInstFlagEvexB4}) 176 3,
    COMMON ({kInstFlagWO} \<union> A512 kInstFlagEvexSet_F False {kInstFlagEvexKZ} {} {}) 421 1]"

definition commonData_5 :: "CommonData list" where
  "commonData_5 = [
    COMMON ({kInstFlagWO} \<union> A512 kInstFlagEvexSet_F False {kInstFlagEvexKZ} {} {}) 422 1,
    COMMON ({kInstFlagWO} \<union> A512 kInstFlagEvexSet_ERI False {kInstFlagEvexKZ} {kInstFlagEvexSAE} {}) 421 1,
    COMMON ({kInstFlagWO} \<union> A512 kInstFlagEvexSet_ERI False {kInstFlagEvexKZ} {kInstFlagEvexSAE} {}) 422 1,
    COMMON {kInstFlagWO, kInstFlagVex} 422 1,
    COMMON ({kInstFlagWO} \<union> A512 kInstFlagEvexSet_DQ True {kInstFlagEvexKZ} {} {kInstFlagEvexB8}) 191 3,
    COMMON ({kInstFlagWO} \<union> A512 kInstFlagEvexSet_DQ True {kInstFlagEvexKZ} {} {kInstFlagEvexB4}) 191 3,
    COMMON ({kInstFlagWO} \<union> A512 kInstFlagEvexSet_DQ False {kInstFlagEvexKZ} {} {}) 450 1,
    COMMON ({kInstFlagWO} \<union> A512 kInstFlagEvexSet_DQ False {kInstFlagEvexKZ} {} {}) 443 1,
    COMMON ({kInstFlagWO} \<union> A512 kInstFlagEvexSet_F False {kInstFlagEvexKZ} {kInstFlagEvexSAE} {}) 450 1,
    COMMON ({kInstFlagWO} \<union> A512 kInstFlagEvexSet_F False {kInstFlagEvexKZ} {kInstFlagEvexSAE} {}) 443 1,
    COMMON {kInstFlagWO, kInstFlagVex} 77 2,
    COMMON {kInstFlagWO, kInstFlagVex} 450 1,
    COMMON {kInstFlagWO, kInstFlagVex} 443 1,
    COMMON ({kInstFlagWO} \<union> A512 kInstFlagEvexSet_F True {kInstFlagEvexKZ} {kInstFlagEvexER} {kInstFlagEvexB8}) 161 3,
    COMMON ({kInstFlagWO} \<union> A512 kInstFlagEvexSet_F True {kInstFlagEvexKZ} {kInstFlagEvexER} {kInstFlagEvexB4}) 161 3,
    COMMON ({kInstFlagWO} \<union> A512 kInstFlagEvexSet_F False {kInstFlagEvexKZ} {kInstFlagEvexER} {}) 421 1,
    COMMON ({kInstFlagWO} \<union> A512 kInstFlagEvexSet_F False {kInstFlagEvexKZ} {kInstFlagEvexER} {}) 422 1,
    COMMON ({kInstFlagWO, kInstFlagVM} \<union> A512 kInstFlagEvexSet_F True {kInstFlagEvexK} {} {}) 343 2,
    COMMON ({kInstFlagWO} \<union> A512 kInstFlagEvexSet_F True {kInstFlagEvexKZ} {} {kInstFlagEvexB4}) 165 2,
    COMMON ({kInstFlagWO} \<union> A512 kInstFlagEvexSet_F True {kInstFlagEvexKZ} {} {kInstFlagEvexB8}) 165 2,
    COMMON ({kInstFlagWO, kInstFlagVex} \<union> A512 kInstFlagEvexSet_F True {kInstFlagEvexKZ} {} {kInstFlagEvexB4}) 164 3,
    COMMON ({kInstFlagWO, kInstFlagVex} \<union> A512 kInstFlagEvexSet_F True {kInstFlagEvexKZ} {} {kInstFlagEvexB8}) 164 3,
    COMMON ({kInstFlagWO, kInstFlagVex} \<union> A512 kInstFlagEvexSet_F True {kInstFlagEvexKZ} {kInstFlagEvexER} {kInstFlagEvexB8}) 176 3,
    COMMON {kInstFlagVex, kInstFlagVolatile} 420 1,
    COMMON {kInstFlagVex, kInstFlagVolatile} 259 1,
    COMMON {kInstFlagRO, kInstFlagVolatile} 451 1,
    COMMON {kInstFlagRW, kInstFlagXchg, kInstFlagLock} 139 4,
    COMMON {kInstFlagRW, kInstFlagXchg, kInstFlagLock} 43 8,
    COMMON {kInstFlagWO, kInstFlagSpecial} 452 1,
    COMMON {kInstFlagRO, kInstFlagVolatile, kInstFlagSpecial} 453 1,
    COMMON {kInstFlagRO, kInstFlagVolatile, kInstFlagSpecial} 454 1,
    COMMON {kInstFlagWO, kInstFlagVolatile, kInstFlagSpecial} 453 1,
    COMMON {kInstFlagWO, kInstFlagVolatile, kInstFlagSpecial} 454 1,
    COMMON {kInstFlagRO, kInstFlagVolatile, kInstFlagSpecial} 455 1]"

definition commonData :: "CommonData list" where
  "commonData =
     commonData_0 @ commonData_1 @ commonData_2 @ commonData_3 @ commonData_4 @ commonData_5"

definition getCommonData :: "X86Inst \<Rightarrow> CommonData" where
  "getCommonData inst = commonData ! commonDataIndex inst"

subsection \<open>Names\<close>

text \<open>
  \<^verbatim>\<open>X86InstDB::nameData\<close>: the names, each followed by a NUL character.  The source
  writes one string literal \<^verbatim>\<open>"\0" "adc\0" "adcx\0" ... "xsetbv"\<close>, whose last piece is
  closed by the terminator of the literal.
\<close>

definition cstr :: "string \<Rightarrow> string" where
  "cstr s = s @ [CHR 0x00]"

definition nameData_0 :: "string" where
  "nameData_0 = concat (map cstr [
    '''', ''adc'', ''adcx'', ''adox'', ''bextr'', ''blcfill'', ''blci'', ''blcic'', ''blcmsk'',
    ''blcs'', ''blsfill'', ''blsi'', ''blsic'', ''blsmsk'', ''blsr'', ''bsf'', ''bsr'',
    ''bswap'', ''bt'', ''btc'', ''btr'', ''bts'', ''bzhi'', ''call'', ''cbw'', ''cdq'',
    ''cdqe'', ''clac'', ''clc'', ''cld'', ''clflush'', ''clflushopt'', ''clwb'', ''clzero'',
    ''cmc'', ''cmova'', ''cmovae'', ''cmovc'', ''cmovg'', ''cmovge'', ''cmovl'', ''cmovle'',
    ''cmovna'', ''cmovnae'', ''cmovnc'', ''cmovng'', ''cmovnge'', ''cmovnl'', ''cmovnle'',
    ''cmovno'', ''cmovnp'', ''cmovns'', ''cmovnz'', ''cmovo'', ''cmovp'', ''cmovpe'',
    ''cmovpo'', ''cmovs'', ''cmovz'', ''cmp'', ''cmpxchg'', ''cmpxchg16b'', ''cmpxchg8b'',
    ''cpuid'', ''cqo'', ''crc32'', ''cvtpd2pi'', ''cvtpi2pd'', ''cvtpi2ps'', ''cvtps2pi'',
    ''cvttpd2pi'', ''cvttps2pi'', ''cwd'', ''cwde'', ''daa'', ''das'', ''enter'', ''f2xm1'',
    ''fabs'', ''faddp'', ''fbld'', ''fbstp'', ''fchs'', ''fclex'', ''fcmovb'', ''fcmovbe'',
    ''fcmove'', ''fcmovnb'', ''fcmovnbe'', ''fcmovne'', ''fcmovnu'', ''fcmovu'', ''fcom'',
    ''fcomi'', ''fcomip'', ''fcomp'', ''fcompp'', ''fcos'', ''fdecstp'', ''fdiv''])"

definition nameData_1 :: "string" where
  "nameData_1 = concat (map cstr [
    ''fdivp'', ''fdivr'', ''fdivrp'', ''femms'', ''ffree'', ''fiadd'', ''ficom'', ''ficomp'',
    ''fidiv'', ''fidivr'', ''fild'', ''fimul'', ''fincstp'', ''finit'', ''fist'', ''fistp'',
    ''fisttp'', ''fisub'', ''fisubr'', ''fld'', ''fld1'', ''fldcw'', ''fldenv'', ''fldl2e'',
    ''fldl2t'', ''fldlg2'', ''fldln2'', ''fldpi'', ''fldz'', ''fmulp'', ''fnclex'', ''fninit'',
    ''fnop'', ''fnsave'', ''fnstcw'', ''fnstenv'', ''fnstsw'', ''fpatan'', ''fprem'',
    ''fprem1'', ''fptan'', ''frndint'', ''frstor'', ''fsave'', ''fscale'', ''fsin'',
    ''fsincos'', ''fsqrt'', ''fst'', ''fstcw'', ''fstenv'', ''fstp'', ''fstsw'', ''fsubp'',
    ''fsubrp'', ''ftst'', ''fucom'', ''fucomi'', ''fucomip'', ''fucomp'', ''fucompp'',
    ''fwait'', ''fxam'', ''fxch'', ''fxrstor'', ''fxrstor64'', ''fxsave'', ''fxsave64'',
    ''fxtract'', ''fyl2x'', ''fyl2xp1'', ''inc'', ''insertq'', ''int3'', ''into'', ''ja'',
    ''jae'', ''jb'', ''jbe'', ''jc'', ''je'', ''jecxz'', ''jg'', ''jge'', ''jl'', ''jle'',
    ''jmp'', ''jna'', ''jnae'', ''jnb'', ''jnbe'', ''jnc'', ''jne'', ''jng'', ''jnge'',
    ''jnl'', ''jnle'', ''jno'', ''jnp'', ''jns''])"

definition nameData_2 :: "string" where
  "nameData_2 = concat (map cstr [
    ''jnz'', ''jo'', ''jp'', ''jpe'', ''jpo'', ''js'', ''jz'', ''kaddb'', ''kaddd'', ''kaddq'',
    ''kaddw'', ''kandb'', ''kandd'', ''kandnb'', ''kandnd'', ''kandnq'', ''kandnw'', ''kandq'',
    ''kandw'', ''kmovb'', ''kmovw'', ''knotb'', ''knotd'', ''knotq'', ''knotw'', ''korb'',
    ''kord'', ''korq'', ''kortestb'', ''kortestd'', ''kortestq'', ''kortestw'', ''korw'',
    ''kshiftlb'', ''kshiftld'', ''kshiftlq'', ''kshiftlw'', ''kshiftrb'', ''kshiftrd'',
    ''kshiftrq'', ''kshiftrw'', ''ktestb'', ''ktestd'', ''ktestq'', ''ktestw'', ''kunpckbw'',
    ''kunpckdq'', ''kunpckwd'', ''kxnorb'', ''kxnord'', ''kxnorq'', ''kxnorw'', ''kxorb'',
    ''kxord'', ''kxorq'', ''kxorw'', ''lahf'', ''lea'', ''leave'', ''lfence'', ''lzcnt'',
    ''mfence'', ''monitor'', ''movdq2q'', ''movnti'', ''movntq'', ''movntsd'', ''movntss'',
    ''movq2dq'', ''movsx'', ''movsxd'', ''movzx'', ''mulx'', ''mwait'', ''neg'', ''not'',
    ''pause'', ''pavgusb'', ''pcommit'', ''pdep'', ''pext'', ''pf2id'', ''pf2iw'', ''pfacc'',
    ''pfadd'', ''pfcmpeq'', ''pfcmpge'', ''pfcmpgt'', ''pfmax'', ''pfmin'', ''pfmul'',
    ''pfnacc'', ''pfpnacc'', ''pfrcp'', ''pfrcpit1'', ''pfrcpit2'', ''pfrcpv'', ''pfrsqit1'',
    ''pfrsqrt'', ''pfrsqrtv''])"

definition nameData_3 :: "string" where
  "nameData_3 = concat (map cstr [
    ''pfsub'', ''pfsubr'', ''pi2fd'', ''pi2fw'', ''pmulhrw'', ''pop'', ''popa'', ''popcnt'',
    ''popf'', ''prefetch'', ''prefetch3dnow'', ''prefetchw'', ''prefetchwt1'', ''pshufw'',
    ''pswapd'', ''push'', ''pusha'', ''pushf'', ''rcl'', ''rcr'', ''rdfsbase'', ''rdgsbase'',
    ''rdrand'', ''rdseed'', ''rdtsc'', ''rdtscp'', ''rep lods_b'', ''rep lods_d'',
    ''rep lods_q'', ''rep lods_w'', ''rep movs_b'', ''rep movs_d'', ''rep movs_q'',
    ''rep movs_w'', ''rep stos_b'', ''rep stos_d'', ''rep stos_q'', ''rep stos_w'',
    ''repe cmps_b'', ''repe cmps_d'', ''repe cmps_q'', ''repe cmps_w'', ''repe scas_b'',
    ''repe scas_d'', ''repe scas_q'', ''repe scas_w'', ''repne cmps_b'', ''repne cmps_d'',
    ''repne cmps_q'', ''repne cmps_w'', ''repne scas_b'', ''repne scas_d'', ''repne scas_q'',
    ''repne scas_w'', ''ret'', ''rol'', ''ror'', ''rorx'', ''sahf'', ''sal'', ''sar'',
    ''sarx'', ''sbb'', ''seta'', ''setae'', ''setb'', ''setbe'', ''setc'', ''sete'', ''setg'',
    ''setge'', ''setl'', ''setle'', ''setna'', ''setnae'', ''setnb'', ''setnbe'', ''setnc'',
    ''setne'', ''setng'', ''setnge'', ''setnl'', ''setnle'', ''setno'', ''setnp'', ''setns'',
    ''setnz'', ''seto'', ''setp'', ''setpe'', ''setpo'', ''sets'', ''setz'', ''sfence'',
    ''sha1msg1'', ''sha1msg2'', ''sha1nexte'', ''sha1rnds4'', ''sha256msg1'', ''sha256msg2''])"

definition nameData_4 :: "string" where
  "nameData_4 = concat (map cstr [
    ''sha256rnds2'', ''shl'', ''shlx'', ''shr'', ''shrd'', ''shrx'', ''stac'', ''stc'',
    ''sti'', ''t1mskc'', ''tzcnt'', ''tzmsk'', ''ud2'', ''vaddpd'', ''vaddps'', ''vaddsd'',
    ''vaddss'', ''vaddsubpd'', ''vaddsubps'', ''vaesdec'', ''vaesdeclast'', ''vaesenc'',
    ''vaesenclast'', ''vaesimc'', ''vaeskeygenassist'', ''valignd'', ''valignq'', ''vandnpd'',
    ''vandnps'', ''vandpd'', ''vandps'', ''vblendmb'', ''vblendmd'', ''vblendmpd'',
    ''vblendmps'', ''vblendmq'', ''vblendmw'', ''vblendpd'', ''vblendps'', ''vblendvpd'',
    ''vblendvps'', ''vbroadcastf128'', ''vbroadcastf32x2'', ''vbroadcastf32x4'',
    ''vbroadcastf32x8'', ''vbroadcastf64x2'', ''vbroadcastf64x4'', ''vbroadcasti128'',
    ''vbroadcasti32x2'', ''vbroadcasti32x4'', ''vbroadcasti32x8'', ''vbroadcasti64x2'',
    ''vbroadcasti64x4'', ''vbroadcastsd'', ''vbroadcastss'', ''vcmppd'', ''vcmpps'',
    ''vcmpsd'', ''vcmpss'', ''vcomisd'', ''vcomiss'', ''vcompresspd'', ''vcompressps'',
    ''vcvtdq2pd'', ''vcvtdq2ps'', ''vcvtpd2dq'', ''vcvtpd2ps'', ''vcvtpd2qq'', ''vcvtpd2udq'',
    ''vcvtpd2uqq'', ''vcvtph2ps'', ''vcvtps2dq'', ''vcvtps2pd'', ''vcvtps2ph'', ''vcvtps2qq'',
    ''vcvtps2udq'', ''vcvtps2uqq'', ''vcvtqq2pd'', ''vcvtqq2ps'', ''vcvtsd2si'', ''vcvtsd2ss'',
    ''vcvtsd2usi'', ''vcvtsi2sd'', ''vcvtsi2ss'', ''vcvtss2sd'', ''vcvtss2si'', ''vcvtss2usi'',
    ''vcvttpd2dq'', ''vcvttpd2qq'', ''vcvttpd2udq'', ''vcvttpd2uqq'', ''vcvttps2dq'',
    ''vcvttps2qq'', ''vcvttps2udq'', ''vcvttps2uqq'', ''vcvttsd2si'', ''vcvttsd2usi'',
    ''vcvttss2si'', ''vcvttss2usi'', ''vcvtudq2pd''])"

definition nameData_5 :: "string" where
  "nameData_5 = concat (map cstr [
    ''vcvtudq2ps'', ''vcvtuqq2pd'', ''vcvtuqq2ps'', ''vcvtusi2sd'', ''vcvtusi2ss'',
    ''vdbpsadbw'', ''vdivpd'', ''vdivps'', ''vdivsd'', ''vdivss'', ''vdppd'', ''vdpps'',
    ''vexp2pd'', ''vexp2ps'', ''vexpandpd'', ''vexpandps'', ''vextractf128'',
    ''vextractf32x4'', ''vextractf32x8'', ''vextractf64x2'', ''vextractf64x4'',
    ''vextracti128'', ''vextracti32x4'', ''vextracti32x8'', ''vextracti64x2'',
    ''vextracti64x4'', ''vextractps'', ''vfixupimmpd'', ''vfixupimmps'', ''vfixupimmsd'',
    ''vfixupimmss'', ''vfmadd132pd'', ''vfmadd132ps'', ''vfmadd132sd'', ''vfmadd132ss'',
    ''vfmadd213pd'', ''vfmadd213ps'', ''vfmadd213sd'', ''vfmadd213ss'', ''vfmadd231pd'',
    ''vfmadd231ps'', ''vfmadd231sd'', ''vfmadd231ss'', ''vfmaddpd'', ''vfmaddps'',
    ''vfmaddsd'', ''vfmaddss'', ''vfmaddsub132pd'', ''vfmaddsub132ps'', ''vfmaddsub213pd'',
    ''vfmaddsub213ps'', ''vfmaddsub231pd'', ''vfmaddsub231ps'', ''vfmaddsubpd'',
    ''vfmaddsubps'', ''vfmsub132pd'', ''vfmsub132ps'', ''vfmsub132sd'', ''vfmsub132ss'',
    ''vfmsub213pd'', ''vfmsub213ps'', ''vfmsub213sd'', ''vfmsub213ss'', ''vfmsub231pd'',
    ''vfmsub231ps'', ''vfmsub231sd'', ''vfmsub231ss'', ''vfmsubadd132pd'', ''vfmsubadd132ps'',
    ''vfmsubadd213pd'', ''vfmsubadd213ps'', ''vfmsubadd231pd'', ''vfmsubadd231ps'',
    ''vfmsubaddpd'', ''vfmsubaddps'', ''vfmsubpd'', ''vfmsubps'', ''vfmsubsd'', ''vfmsubss'',
    ''vfnmadd132pd'', ''vfnmadd132ps'', ''vfnmadd132sd'', ''vfnmadd132ss'', ''vfnmadd213pd'',
    ''vfnmadd213ps'', ''vfnmadd213sd'', ''vfnmadd213ss'', ''vfnmadd231pd'', ''vfnmadd231ps'',
    ''vfnmadd231sd'', ''vfnmadd231ss'', ''vfnmaddpd'', ''vfnmaddps'', ''vfnmaddsd'',
    ''vfnmaddss'', ''vfnmsub132pd'', ''vfnmsub132ps'', ''vfnmsub132sd'', ''vfnmsub132ss'',
    ''vfnmsub213pd''])"

definition nameData_6 :: "string" where
  "nameData_6 = concat (map cstr [
    ''vfnmsub213ps'', ''vfnmsub213sd'', ''vfnmsub213ss'', ''vfnmsub231pd'', ''vfnmsub231ps'',
    ''vfnmsub231sd'', ''vfnmsub231ss'', ''vfnmsubpd'', ''vfnmsubps'', ''vfnmsubsd'',
    ''vfnmsubss'', ''vfpclasspd'', ''vfpclassps'', ''vfpclasssd'', ''vfpclassss'', ''vfrczpd'',
    ''vfrczps'', ''vfrczsd'', ''vfrczss'', ''vgatherdpd'', ''vgatherdps'', ''vgatherpf0dpd'',
    ''vgatherpf0dps'', ''vgatherpf0qpd'', ''vgatherpf0qps'', ''vgatherpf1dpd'',
    ''vgatherpf1dps'', ''vgatherpf1qpd'', ''vgatherpf1qps'', ''vgatherqpd'', ''vgatherqps'',
    ''vgetexppd'', ''vgetexpps'', ''vgetexpsd'', ''vgetexpss'', ''vgetmantpd'', ''vgetmantps'',
    ''vgetmantsd'', ''vgetmantss'', ''vhaddpd'', ''vhaddps'', ''vhsubpd'', ''vhsubps'',
    ''vinsertf128'', ''vinsertf32x4'', ''vinsertf32x8'', ''vinsertf64x2'', ''vinsertf64x4'',
    ''vinserti128'', ''vinserti32x4'', ''vinserti32x8'', ''vinserti64x2'', ''vinserti64x4'',
    ''vinsertps'', ''vlddqu'', ''vldmxcsr'', ''vmaskmovdqu'', ''vmaskmovpd'', ''vmaskmovps'',
    ''vmaxpd'', ''vmaxps'', ''vmaxsd'', ''vmaxss'', ''vminpd'', ''vminps'', ''vminsd'',
    ''vminss'', ''vmovapd'', ''vmovaps'', ''vmovd'', ''vmovddup'', ''vmovdqa'', ''vmovdqa32'',
    ''vmovdqa64'', ''vmovdqu'', ''vmovdqu16'', ''vmovdqu32'', ''vmovdqu64'', ''vmovdqu8'',
    ''vmovhlps'', ''vmovhpd'', ''vmovhps'', ''vmovlhps'', ''vmovlpd'', ''vmovlps'',
    ''vmovmskpd'', ''vmovmskps'', ''vmovntdq'', ''vmovntdqa'', ''vmovntpd'', ''vmovntps'',
    ''vmovq'', ''vmovsd'', ''vmovshdup'', ''vmovsldup'', ''vmovss'', ''vmovupd'', ''vmovups'',
    ''vmpsadbw'', ''vmulpd''])"

definition nameData_7 :: "string" where
  "nameData_7 = concat (map cstr [
    ''vmulps'', ''vmulsd'', ''vmulss'', ''vorpd'', ''vorps'', ''vpabsb'', ''vpabsd'',
    ''vpabsq'', ''vpabsw'', ''vpackssdw'', ''vpacksswb'', ''vpackusdw'', ''vpackuswb'',
    ''vpaddb'', ''vpaddd'', ''vpaddq'', ''vpaddsb'', ''vpaddsw'', ''vpaddusb'', ''vpaddusw'',
    ''vpaddw'', ''vpalignr'', ''vpand'', ''vpandd'', ''vpandn'', ''vpandnd'', ''vpandnq'',
    ''vpandq'', ''vpavgb'', ''vpavgw'', ''vpblendd'', ''vpblendvb'', ''vpblendw'',
    ''vpbroadcastb'', ''vpbroadcastd'', ''vpbroadcastmb2d'', ''vpbroadcastmb2q'',
    ''vpbroadcastq'', ''vpbroadcastw'', ''vpclmulqdq'', ''vpcmov'', ''vpcmpb'', ''vpcmpd'',
    ''vpcmpeqb'', ''vpcmpeqd'', ''vpcmpeqq'', ''vpcmpeqw'', ''vpcmpestri'', ''vpcmpestrm'',
    ''vpcmpgtb'', ''vpcmpgtd'', ''vpcmpgtq'', ''vpcmpgtw'', ''vpcmpistri'', ''vpcmpistrm'',
    ''vpcmpq'', ''vpcmpub'', ''vpcmpud'', ''vpcmpuq'', ''vpcmpuw'', ''vpcmpw'', ''vpcomb'',
    ''vpcomd'', ''vpcompressd'', ''vpcompressq'', ''vpcomq'', ''vpcomub'', ''vpcomud'',
    ''vpcomuq'', ''vpcomuw'', ''vpcomw'', ''vpconflictd'', ''vpconflictq'', ''vperm2f128'',
    ''vperm2i128'', ''vpermb'', ''vpermd'', ''vpermi2b'', ''vpermi2d'', ''vpermi2pd'',
    ''vpermi2ps'', ''vpermi2q'', ''vpermi2w'', ''vpermil2pd'', ''vpermil2ps'', ''vpermilpd'',
    ''vpermilps'', ''vpermpd'', ''vpermps'', ''vpermq'', ''vpermt2b'', ''vpermt2d'',
    ''vpermt2pd'', ''vpermt2ps'', ''vpermt2q'', ''vpermt2w'', ''vpermw'', ''vpexpandd'',
    ''vpexpandq'', ''vpextrb''])"

definition nameData_8 :: "string" where
  "nameData_8 = concat (map cstr [
    ''vpextrd'', ''vpextrq'', ''vpextrw'', ''vpgatherdd'', ''vpgatherdq'', ''vpgatherqd'',
    ''vpgatherqq'', ''vphaddbd'', ''vphaddbq'', ''vphaddbw'', ''vphaddd'', ''vphadddq'',
    ''vphaddsw'', ''vphaddubd'', ''vphaddubq'', ''vphaddubw'', ''vphaddudq'', ''vphadduwd'',
    ''vphadduwq'', ''vphaddw'', ''vphaddwd'', ''vphaddwq'', ''vphminposuw'', ''vphsubbw'',
    ''vphsubd'', ''vphsubdq'', ''vphsubsw'', ''vphsubw'', ''vphsubwd'', ''vpinsrb'',
    ''vpinsrd'', ''vpinsrq'', ''vpinsrw'', ''vplzcntd'', ''vplzcntq'', ''vpmacsdd'',
    ''vpmacsdqh'', ''vpmacsdql'', ''vpmacssdd'', ''vpmacssdqh'', ''vpmacssdql'', ''vpmacsswd'',
    ''vpmacssww'', ''vpmacswd'', ''vpmacsww'', ''vpmadcsswd'', ''vpmadcswd'', ''vpmadd52huq'',
    ''vpmadd52luq'', ''vpmaddubsw'', ''vpmaddwd'', ''vpmaskmovd'', ''vpmaskmovq'', ''vpmaxsb'',
    ''vpmaxsd'', ''vpmaxsq'', ''vpmaxsw'', ''vpmaxub'', ''vpmaxud'', ''vpmaxuq'', ''vpmaxuw'',
    ''vpminsb'', ''vpminsd'', ''vpminsq'', ''vpminsw'', ''vpminub'', ''vpminud'', ''vpminuq'',
    ''vpminuw'', ''vpmovb2m'', ''vpmovd2m'', ''vpmovdb'', ''vpmovdw'', ''vpmovm2b'',
    ''vpmovm2d'', ''vpmovm2q'', ''vpmovm2w'', ''vpmovmskb'', ''vpmovq2m'', ''vpmovqb'',
    ''vpmovqd'', ''vpmovqw'', ''vpmovsdb'', ''vpmovsdw'', ''vpmovsqb'', ''vpmovsqd'',
    ''vpmovsqw'', ''vpmovswb'', ''vpmovsxbd'', ''vpmovsxbq'', ''vpmovsxbw'', ''vpmovsxdq'',
    ''vpmovsxwd'', ''vpmovsxwq'', ''vpmovusdb'', ''vpmovusdw'', ''vpmovusqb'', ''vpmovusqd'',
    ''vpmovusqw'', ''vpmovuswb''])"

definition nameData_9 :: "string" where
  "nameData_9 = concat (map cstr [
    ''vpmovw2m'', ''vpmovwb'', ''vpmovzxbd'', ''vpmovzxbq'', ''vpmovzxbw'', ''vpmovzxdq'',
    ''vpmovzxwd'', ''vpmovzxwq'', ''vpmuldq'', ''vpmulhrsw'', ''vpmulhuw'', ''vpmulhw'',
    ''vpmulld'', ''vpmullq'', ''vpmullw'', ''vpmultishiftqb'', ''vpmuludq'', ''vpor'',
    ''vpord'', ''vporq'', ''vpperm'', ''vprold'', ''vprolq'', ''vprolvd'', ''vprolvq'',
    ''vprord'', ''vprorq'', ''vprorvd'', ''vprorvq'', ''vprotb'', ''vprotd'', ''vprotq'',
    ''vprotw'', ''vpsadbw'', ''vpscatterdd'', ''vpscatterdq'', ''vpscatterqd'',
    ''vpscatterqq'', ''vpshab'', ''vpshad'', ''vpshaq'', ''vpshaw'', ''vpshlb'', ''vpshld'',
    ''vpshlq'', ''vpshlw'', ''vpshufb'', ''vpshufd'', ''vpshufhw'', ''vpshuflw'', ''vpsignb'',
    ''vpsignd'', ''vpsignw'', ''vpslld'', ''vpslldq'', ''vpsllq'', ''vpsllvd'', ''vpsllvq'',
    ''vpsllvw'', ''vpsllw'', ''vpsrad'', ''vpsraq'', ''vpsravd'', ''vpsravq'', ''vpsravw'',
    ''vpsraw'', ''vpsrld'', ''vpsrldq'', ''vpsrlq'', ''vpsrlvd'', ''vpsrlvq'', ''vpsrlvw'',
    ''vpsrlw'', ''vpsubb'', ''vpsubd'', ''vpsubq'', ''vpsubsb'', ''vpsubsw'', ''vpsubusb'',
    ''vpsubusw'', ''vpsubw'', ''vpternlogd'', ''vpternlogq'', ''vptest'', ''vptestmb'',
    ''vptestmd'', ''vptestmq'', ''vptestmw'', ''vptestnmb'', ''vptestnmd'', ''vptestnmq'',
    ''vptestnmw'', ''vpunpckhbw'', ''vpunpckhdq'', ''vpunpckhqdq'', ''vpunpckhwd'',
    ''vpunpcklbw'', ''vpunpckldq'', ''vpunpcklqdq'', ''vpunpcklwd''])"

definition nameData_10 :: "string" where
  "nameData_10 = concat (map cstr [
    ''vpxor'', ''vpxord'', ''vpxorq'', ''vrangepd'', ''vrangeps'', ''vrangesd'', ''vrangess'',
    ''vrcp14pd'', ''vrcp14ps'', ''vrcp14sd'', ''vrcp14ss'', ''vrcp28pd'', ''vrcp28ps'',
    ''vrcp28sd'', ''vrcp28ss'', ''vrcpps'', ''vrcpss'', ''vreducepd'', ''vreduceps'',
    ''vreducesd'', ''vreducess'', ''vrndscalepd'', ''vrndscaleps'', ''vrndscalesd'',
    ''vrndscaless'', ''vroundpd'', ''vroundps'', ''vroundsd'', ''vroundss'', ''vrsqrt14pd'',
    ''vrsqrt14ps'', ''vrsqrt14sd'', ''vrsqrt14ss'', ''vrsqrt28pd'', ''vrsqrt28ps'',
    ''vrsqrt28sd'', ''vrsqrt28ss'', ''vrsqrtps'', ''vrsqrtss'', ''vscalefpd'', ''vscalefps'',
    ''vscalefsd'', ''vscalefss'', ''vscatterdpd'', ''vscatterdps'', ''vscatterpf0dpd'',
    ''vscatterpf0dps'', ''vscatterpf0qpd'', ''vscatterpf0qps'', ''vscatterpf1dpd'',
    ''vscatterpf1dps'', ''vscatterpf1qpd'', ''vscatterpf1qps'', ''vscatterqpd'',
    ''vscatterqps'', ''vshuff32x4'', ''vshuff64x2'', ''vshufi32x4'', ''vshufi64x2'',
    ''vshufpd'', ''vshufps'', ''vsqrtpd'', ''vsqrtps'', ''vsqrtsd'', ''vsqrtss'', ''vstmxcsr'',
    ''vsubpd'', ''vsubps'', ''vsubsd'', ''vsubss'', ''vtestpd'', ''vtestps'', ''vucomisd'',
    ''vucomiss'', ''vunpckhpd'', ''vunpckhps'', ''vunpcklpd'', ''vunpcklps'', ''vxorpd'',
    ''vxorps'', ''vzeroall'', ''vzeroupper'', ''wrfsbase'', ''wrgsbase'', ''xadd'', ''xgetbv'',
    ''xrstors'', ''xrstors64'', ''xsavec'', ''xsavec64'', ''xsaveopt'', ''xsaveopt64'',
    ''xsaves'', ''xsaves64'', ''xsetbv''])"

definition nameData :: "string" where
  "nameData =
     nameData_0 @ nameData_1 @ nameData_2 @ nameData_3 @ nameData_4 @ nameData_5 @ nameData_6 @
     nameData_7 @ nameData_8 @ nameData_9 @ nameData_10"

definition kX86InstMaxLength :: nat where "kX86InstMaxLength = 16"

definition kX86InstAlphaIndexFirst :: nat where "kX86InstAlphaIndexFirst = 97"
definition kX86InstAlphaIndexLast :: nat where "kX86InstAlphaIndexLast = 122"
definition kX86InstAlphaIndexInvalid :: nat where "kX86InstAlphaIndexInvalid = 0xFFFF"

definition x86InstAlphaIndex :: "nat list" where
  "x86InstAlphaIndex = [
    kIdAdc,
    kIdBextr,
    kIdCall,
    kIdDaa,
    kIdEmms,
    kIdF2xm1,
    0xFFFF,
    kIdHaddpd,
    kIdIdiv,
    kIdJa,
    kIdKaddb,
    kIdLahf,
    kIdMaskmovdqu,
    kIdNeg,
    kIdOr,
    kIdPabsb,
    0xFFFF,
    kIdRcl,
    kIdSahf,
    kIdT1mskc,
    kIdUcomisd,
    kIdVaddpd,
    kIdWrfsbase,
    kIdXadd,
    0xFFFF,
    0xFFFF]"

subsection \<open>Signatures\<close>

text \<open>
  \<^verbatim>\<open>X86Inst::ISignature\<close>: the number of operands, the architectures the signature is
  legal on, the number of implicit operands, and six indices into the table of operand
  signatures.
\<close>

record ISignature =
  opCount :: nat
  archMask :: "ArchMask set"
  implicit :: nat
  operands :: "nat list"

definition ISIGNATURE ::
  "nat \<Rightarrow> bool \<Rightarrow> bool \<Rightarrow> nat \<Rightarrow> nat \<Rightarrow> nat \<Rightarrow> nat \<Rightarrow> nat \<Rightarrow> nat \<Rightarrow> nat \<Rightarrow> ISignature" where
  "ISIGNATURE count x86 x64 impl o0 o1 o2 o3 o4 o5 =
     \<lparr>opCount = count,
      archMask = (if x86 then {kArchMaskX86} else {}) \<union> (if x64 then {kArchMaskX64} else {}),
      implicit = impl,
      operands = [o0, o1, o2, o3, o4, o5]\<rparr>"

definition x86InstISignatureData_0 :: "ISignature list" where
  "x86InstISignatureData_0 = [
    ISIGNATURE 2 True True 0 1 2 0 0 0 0,
    ISIGNATURE 2 True True 0 3 4 0 0 0 0,
    ISIGNATURE 2 True True 0 5 6 0 0 0 0,
    ISIGNATURE 2 False True 0 7 8 0 0 0 0,
    ISIGNATURE 2 True True 0 9 10 0 0 0 0,
    ISIGNATURE 2 True True 0 11 12 0 0 0 0,
    ISIGNATURE 2 True True 0 13 14 0 0 0 0,
    ISIGNATURE 2 False True 0 15 16 0 0 0 0,
    ISIGNATURE 2 True True 0 17 18 0 0 0 0,
    ISIGNATURE 2 False True 0 19 20 0 0 0 0,
    ISIGNATURE 2 True False 0 13 21 0 0 0 0,
    ISIGNATURE 2 True False 0 22 23 0 0 0 0,
    ISIGNATURE 2 False True 0 22 24 0 0 0 0,
    ISIGNATURE 2 True True 0 25 26 0 0 0 0,
    ISIGNATURE 2 True True 0 27 28 0 0 0 0,
    ISIGNATURE 2 True True 0 29 30 0 0 0 0,
    ISIGNATURE 2 True True 0 31 32 0 0 0 0,
    ISIGNATURE 2 True True 0 33 23 0 0 0 0,
    ISIGNATURE 2 False True 0 34 24 0 0 0 0,
    ISIGNATURE 2 True True 0 35 36 0 0 0 0,
    ISIGNATURE 2 True True 0 37 12 0 0 0 0,
    ISIGNATURE 2 True True 0 38 39 0 0 0 0,
    ISIGNATURE 2 False True 0 40 16 0 0 0 0,
    ISIGNATURE 2 True True 0 41 26 0 0 0 0,
    ISIGNATURE 2 True True 0 12 28 0 0 0 0,
    ISIGNATURE 2 True True 0 42 30 0 0 0 0,
    ISIGNATURE 2 True True 0 36 32 0 0 0 0,
    ISIGNATURE 2 True True 0 39 23 0 0 0 0,
    ISIGNATURE 2 False True 0 16 24 0 0 0 0,
    ISIGNATURE 2 True True 0 32 36 0 0 0 0,
    ISIGNATURE 2 True True 0 43 12 0 0 0 0,
    ISIGNATURE 2 True True 0 23 39 0 0 0 0,
    ISIGNATURE 2 False True 0 24 16 0 0 0 0,
    ISIGNATURE 2 True True 1 44 36 0 0 0 0,
    ISIGNATURE 3 True True 2 45 44 12 0 0 0,
    ISIGNATURE 3 True True 2 46 47 39 0 0 0,
    ISIGNATURE 3 False True 2 48 49 16 0 0 0,
    ISIGNATURE 2 True True 0 37 50 0 0 0 0,
    ISIGNATURE 2 True True 0 38 51 0 0 0 0,
    ISIGNATURE 2 False True 0 40 52 0 0 0 0,
    ISIGNATURE 3 True True 0 17 12 53 0 0 0,
    ISIGNATURE 3 True True 0 13 39 54 0 0 0,
    ISIGNATURE 3 False True 0 19 16 54 0 0 0,
    ISIGNATURE 2 True True 0 27 37 0 0 0 0,
    ISIGNATURE 2 True True 0 33 38 0 0 0 0,
    ISIGNATURE 2 False True 0 34 40 0 0 0 0,
    ISIGNATURE 2 True True 0 37 27 0 0 0 0,
    ISIGNATURE 2 True True 0 38 33 0 0 0 0,
    ISIGNATURE 2 False True 0 40 34 0 0 0 0,
    ISIGNATURE 2 True True 0 31 35 0 0 0 0,
    ISIGNATURE 2 True True 0 35 31 0 0 0 0,
    ISIGNATURE 2 True True 0 17 55 0 0 0 0,
    ISIGNATURE 2 True True 0 13 56 0 0 0 0,
    ISIGNATURE 2 False True 0 19 57 0 0 0 0,
    ISIGNATURE 2 True True 0 58 43 0 0 0 0,
    ISIGNATURE 2 True True 0 59 23 0 0 0 0,
    ISIGNATURE 2 False True 0 60 24 0 0 0 0,
    ISIGNATURE 2 True True 0 61 62 0 0 0 0,
    ISIGNATURE 2 True True 0 63 64 0 0 0 0,
    ISIGNATURE 2 False True 0 7 65 0 0 0 0,
    ISIGNATURE 2 False True 0 66 16 0 0 0 0,
    ISIGNATURE 2 True True 0 66 67 0 0 0 0,
    ISIGNATURE 2 True True 0 68 65 0 0 0 0,
    ISIGNATURE 2 True True 0 66 69 0 0 0 0,
    ISIGNATURE 2 True True 0 70 65 0 0 0 0,
    ISIGNATURE 2 True True 0 71 72 0 0 0 0,
    ISIGNATURE 2 True True 0 73 74 0 0 0 0,
    ISIGNATURE 2 True True 0 75 76 0 0 0 0,
    ISIGNATURE 2 True True 0 77 78 0 0 0 0,
    ISIGNATURE 3 True True 0 66 65 69 0 0 0,
    ISIGNATURE 3 True True 0 66 69 26 0 0 0,
    ISIGNATURE 3 True True 0 71 74 72 0 0 0,
    ISIGNATURE 3 True True 0 71 72 26 0 0 0,
    ISIGNATURE 3 True True 0 75 78 76 0 0 0,
    ISIGNATURE 3 True True 0 75 76 26 0 0 0,
    ISIGNATURE 3 True True 0 66 65 79 0 0 0,
    ISIGNATURE 3 True True 0 71 74 79 0 0 0,
    ISIGNATURE 3 True True 0 66 69 26 0 0 0,
    ISIGNATURE 3 True True 0 71 72 26 0 0 0,
    ISIGNATURE 3 True True 0 75 78 69 0 0 0,
    ISIGNATURE 3 True True 0 75 76 26 0 0 0,
    ISIGNATURE 3 True True 0 66 65 69 0 0 0,
    ISIGNATURE 3 True True 0 66 69 26 0 0 0,
    ISIGNATURE 3 True True 0 71 74 69 0 0 0,
    ISIGNATURE 3 True True 0 71 72 26 0 0 0,
    ISIGNATURE 3 True True 0 75 78 69 0 0 0,
    ISIGNATURE 3 True True 0 75 76 26 0 0 0,
    ISIGNATURE 2 True True 0 36 2 0 0 0 0,
    ISIGNATURE 2 True True 0 12 28 0 0 0 0,
    ISIGNATURE 2 True True 0 42 30 0 0 0 0,
    ISIGNATURE 2 True True 0 39 23 0 0 0 0,
    ISIGNATURE 2 False True 0 16 24 0 0 0 0,
    ISIGNATURE 3 True True 0 66 80 65 0 0 0,
    ISIGNATURE 3 True True 0 71 80 74 0 0 0,
    ISIGNATURE 2 True True 0 66 80 0 0 0 0,
    ISIGNATURE 2 True True 0 71 81 0 0 0 0,
    ISIGNATURE 2 True True 0 75 82 0 0 0 0,
    ISIGNATURE 3 True True 0 66 80 65 0 0 0,
    ISIGNATURE 3 True True 0 71 81 74 0 0 0,
    ISIGNATURE 2 True True 0 66 80 0 0 0 0]"

definition x86InstISignatureData_1 :: "ISignature list" where
  "x86InstISignatureData_1 = [
    ISIGNATURE 2 True True 0 71 81 0 0 0 0,
    ISIGNATURE 2 True True 0 75 82 0 0 0 0,
    ISIGNATURE 3 True True 0 66 83 65 0 0 0,
    ISIGNATURE 3 True True 0 71 84 74 0 0 0,
    ISIGNATURE 2 True True 0 66 83 0 0 0 0,
    ISIGNATURE 2 True True 0 71 84 0 0 0 0,
    ISIGNATURE 2 True True 0 75 85 0 0 0 0,
    ISIGNATURE 3 True True 1 31 32 86 0 0 0,
    ISIGNATURE 3 True True 1 27 43 87 0 0 0,
    ISIGNATURE 3 True True 1 33 23 88 0 0 0,
    ISIGNATURE 3 False True 1 34 24 89 0 0 0,
    ISIGNATURE 2 True True 1 44 36 0 0 0 0,
    ISIGNATURE 3 True True 2 44 90 12 0 0 0,
    ISIGNATURE 3 True True 2 47 91 39 0 0 0,
    ISIGNATURE 3 False True 2 49 92 16 0 0 0,
    ISIGNATURE 2 True True 1 44 36 0 0 0 0,
    ISIGNATURE 3 True True 2 90 44 12 0 0 0,
    ISIGNATURE 3 True True 2 91 47 39 0 0 0,
    ISIGNATURE 3 False True 2 92 49 16 0 0 0,
    ISIGNATURE 4 True True 0 66 65 65 69 0 0,
    ISIGNATURE 4 True True 0 66 65 69 65 0 0,
    ISIGNATURE 4 True True 0 71 74 74 72 0 0,
    ISIGNATURE 4 True True 0 71 74 72 74 0 0,
    ISIGNATURE 3 True True 0 66 93 65 0 0 0,
    ISIGNATURE 2 True True 0 66 83 0 0 0 0,
    ISIGNATURE 2 True True 0 71 84 0 0 0 0,
    ISIGNATURE 2 True True 0 75 85 0 0 0 0,
    ISIGNATURE 3 True True 0 94 65 65 0 0 0,
    ISIGNATURE 3 True True 0 95 74 74 0 0 0,
    ISIGNATURE 3 True True 0 66 65 96 0 0 0,
    ISIGNATURE 3 True True 0 71 74 97 0 0 0,
    ISIGNATURE 5 True True 0 66 65 69 65 98 0,
    ISIGNATURE 5 True True 0 66 65 65 69 98 0,
    ISIGNATURE 5 True True 0 71 74 72 74 98 0,
    ISIGNATURE 5 True True 0 71 74 74 72 98 0,
    ISIGNATURE 3 True True 0 71 72 26 0 0 0,
    ISIGNATURE 3 True True 0 71 74 72 0 0 0,
    ISIGNATURE 3 True True 0 75 78 76 0 0 0,
    ISIGNATURE 3 True True 0 75 76 26 0 0 0,
    ISIGNATURE 2 True True 0 31 35 0 0 0 0,
    ISIGNATURE 2 True True 0 27 37 0 0 0 0,
    ISIGNATURE 2 True True 0 33 38 0 0 0 0,
    ISIGNATURE 2 False True 0 34 40 0 0 0 0,
    ISIGNATURE 2 True True 0 12 99 0 0 0 0,
    ISIGNATURE 2 True True 0 39 100 0 0 0 0,
    ISIGNATURE 2 False True 0 16 101 0 0 0 0,
    ISIGNATURE 2 True True 0 27 99 0 0 0 0,
    ISIGNATURE 2 True True 0 33 100 0 0 0 0,
    ISIGNATURE 2 False True 0 34 101 0 0 0 0,
    ISIGNATURE 1 True True 0 102 0 0 0 0 0,
    ISIGNATURE 2 True True 0 103 104 0 0 0 0,
    ISIGNATURE 2 True True 0 105 106 0 0 0 0,
    ISIGNATURE 2 True True 0 17 12 0 0 0 0,
    ISIGNATURE 2 True True 0 13 39 0 0 0 0,
    ISIGNATURE 2 False True 0 19 16 0 0 0 0,
    ISIGNATURE 2 True True 2 107 107 0 0 0 0,
    ISIGNATURE 2 True True 0 66 67 0 0 0 0,
    ISIGNATURE 2 True True 0 60 65 0 0 0 0,
    ISIGNATURE 3 True True 0 27 43 108 0 0 0,
    ISIGNATURE 3 True True 0 33 23 108 0 0 0,
    ISIGNATURE 3 False True 0 34 24 108 0 0 0,
    ISIGNATURE 3 True True 0 66 65 69 0 0 0,
    ISIGNATURE 3 True True 0 71 74 72 0 0 0,
    ISIGNATURE 3 True True 0 75 78 76 0 0 0,
    ISIGNATURE 4 True True 0 66 65 69 26 0 0,
    ISIGNATURE 4 True True 0 71 74 72 26 0 0,
    ISIGNATURE 4 True True 0 75 78 76 26 0 0,
    ISIGNATURE 4 True True 0 109 65 69 26 0 0,
    ISIGNATURE 4 True True 0 110 74 72 26 0 0,
    ISIGNATURE 4 True True 0 111 78 76 26 0 0,
    ISIGNATURE 2 True True 0 70 65 0 0 0 0,
    ISIGNATURE 2 True True 0 73 74 0 0 0 0,
    ISIGNATURE 2 True True 0 77 78 0 0 0 0,
    ISIGNATURE 2 True True 0 66 67 0 0 0 0,
    ISIGNATURE 2 True True 0 71 69 0 0 0 0,
    ISIGNATURE 2 True True 0 75 72 0 0 0 0,
    ISIGNATURE 2 True True 0 66 69 0 0 0 0,
    ISIGNATURE 2 True True 0 71 72 0 0 0 0,
    ISIGNATURE 2 True True 0 75 76 0 0 0 0,
    ISIGNATURE 2 True True 0 66 112 0 0 0 0,
    ISIGNATURE 2 True True 0 71 69 0 0 0 0,
    ISIGNATURE 2 True True 0 75 72 0 0 0 0,
    ISIGNATURE 3 True True 0 68 65 26 0 0 0,
    ISIGNATURE 3 True True 0 70 74 26 0 0 0,
    ISIGNATURE 3 True True 0 73 78 26 0 0 0,
    ISIGNATURE 4 True True 0 113 65 69 26 0 0,
    ISIGNATURE 4 True True 0 114 74 72 26 0 0,
    ISIGNATURE 4 True True 0 115 78 76 26 0 0,
    ISIGNATURE 3 True True 0 113 65 69 0 0 0,
    ISIGNATURE 3 True True 0 114 74 72 0 0 0,
    ISIGNATURE 3 True True 0 115 78 76 0 0 0,
    ISIGNATURE 3 True True 0 66 69 26 0 0 0,
    ISIGNATURE 3 True True 0 71 72 26 0 0 0,
    ISIGNATURE 3 True True 0 75 76 26 0 0 0,
    ISIGNATURE 2 True True 0 66 67 0 0 0 0,
    ISIGNATURE 2 True True 0 71 72 0 0 0 0,
    ISIGNATURE 2 True True 0 75 76 0 0 0 0,
    ISIGNATURE 2 True True 0 94 65 0 0 0 0,
    ISIGNATURE 2 True True 0 95 74 0 0 0 0,
    ISIGNATURE 2 True True 0 116 78 0 0 0 0]"

definition x86InstISignatureData_2 :: "ISignature list" where
  "x86InstISignatureData_2 = [
    ISIGNATURE 2 True True 0 66 96 0 0 0 0,
    ISIGNATURE 2 True True 0 71 97 0 0 0 0,
    ISIGNATURE 2 True True 0 75 117 0 0 0 0,
    ISIGNATURE 2 False True 0 7 65 0 0 0 0,
    ISIGNATURE 2 True True 0 66 118 0 0 0 0,
    ISIGNATURE 2 True True 0 68 65 0 0 0 0,
    ISIGNATURE 2 True True 0 60 65 0 0 0 0,
    ISIGNATURE 2 True True 0 66 57 0 0 0 0,
    ISIGNATURE 3 True True 0 66 65 65 0 0 0,
    ISIGNATURE 2 True True 0 119 65 0 0 0 0,
    ISIGNATURE 2 True True 0 66 120 0 0 0 0,
    ISIGNATURE 3 True True 0 66 65 65 0 0 0,
    ISIGNATURE 4 True True 0 111 65 69 26 0 0,
    ISIGNATURE 4 True True 0 111 74 72 26 0 0,
    ISIGNATURE 4 True True 0 111 78 76 26 0 0,
    ISIGNATURE 3 True True 0 109 65 69 0 0 0,
    ISIGNATURE 3 True True 0 110 74 72 0 0 0,
    ISIGNATURE 3 True True 0 111 78 76 0 0 0,
    ISIGNATURE 2 True True 0 121 65 0 0 0 0,
    ISIGNATURE 2 True True 0 68 74 0 0 0 0,
    ISIGNATURE 2 True True 0 70 78 0 0 0 0,
    ISIGNATURE 2 True True 0 68 65 0 0 0 0,
    ISIGNATURE 2 True True 0 70 74 0 0 0 0,
    ISIGNATURE 2 True True 0 73 78 0 0 0 0,
    ISIGNATURE 2 True True 0 122 65 0 0 0 0,
    ISIGNATURE 2 True True 0 121 74 0 0 0 0,
    ISIGNATURE 2 True True 0 68 78 0 0 0 0,
    ISIGNATURE 2 True True 0 66 123 0 0 0 0,
    ISIGNATURE 2 True True 0 71 67 0 0 0 0,
    ISIGNATURE 2 True True 0 75 69 0 0 0 0,
    ISIGNATURE 2 True True 0 66 124 0 0 0 0,
    ISIGNATURE 2 True True 0 71 123 0 0 0 0,
    ISIGNATURE 2 True True 0 75 67 0 0 0 0,
    ISIGNATURE 2 True True 0 66 125 0 0 0 0,
    ISIGNATURE 2 True True 0 71 126 0 0 0 0,
    ISIGNATURE 2 True True 0 75 69 0 0 0 0,
    ISIGNATURE 2 True True 0 127 65 0 0 0 0,
    ISIGNATURE 2 True True 0 128 74 0 0 0 0,
    ISIGNATURE 2 True True 0 129 78 0 0 0 0,
    ISIGNATURE 2 True True 0 130 65 0 0 0 0,
    ISIGNATURE 2 True True 0 131 74 0 0 0 0,
    ISIGNATURE 2 True True 0 132 78 0 0 0 0,
    ISIGNATURE 3 True True 0 111 65 69 0 0 0,
    ISIGNATURE 3 True True 0 111 74 72 0 0 0,
    ISIGNATURE 3 True True 0 111 78 76 0 0 0,
    ISIGNATURE 3 True True 0 13 23 39 0 0 0,
    ISIGNATURE 3 False True 0 19 24 16 0 0 0,
    ISIGNATURE 3 True True 0 13 39 23 0 0 0,
    ISIGNATURE 3 False True 0 19 16 24 0 0 0,
    ISIGNATURE 1 True True 0 133 0 0 0 0 0,
    ISIGNATURE 1 True False 0 39 0 0 0 0 0,
    ISIGNATURE 2 True True 2 107 107 0 0 0 0,
    ISIGNATURE 3 True True 0 113 67 26 0 0 0,
    ISIGNATURE 2 True True 0 38 134 0 0 0 0,
    ISIGNATURE 2 False True 0 40 135 0 0 0 0,
    ISIGNATURE 1 True False 0 136 0 0 0 0 0,
    ISIGNATURE 1 True True 0 25 0 0 0 0 0,
    ISIGNATURE 3 True True 0 113 26 26 0 0 0,
    ISIGNATURE 2 True True 0 113 65 0 0 0 0,
    ISIGNATURE 0 True True 0 0 0 0 0 0 0,
    ISIGNATURE 1 True True 0 105 0 0 0 0 0,
    ISIGNATURE 0 True True 0 0 0 0 0 0 0,
    ISIGNATURE 1 True True 0 137 0 0 0 0 0,
    ISIGNATURE 2 True True 0 113 65 0 0 0 0,
    ISIGNATURE 4 True True 0 113 65 26 26 0 0,
    ISIGNATURE 2 True False 0 138 139 0 0 0 0,
    ISIGNATURE 2 False True 0 140 139 0 0 0 0,
    ISIGNATURE 1 True True 0 141 0 0 0 0 0,
    ISIGNATURE 1 True False 0 39 0 0 0 0 0,
    ISIGNATURE 2 True True 0 111 142 0 0 0 0,
    ISIGNATURE 2 True True 0 143 144 0 0 0 0,
    ISIGNATURE 2 True True 0 111 145 0 0 0 0,
    ISIGNATURE 2 True True 0 146 144 0 0 0 0,
    ISIGNATURE 2 True True 0 111 147 0 0 0 0,
    ISIGNATURE 2 True True 0 7 144 0 0 0 0,
    ISIGNATURE 2 True True 0 111 148 0 0 0 0,
    ISIGNATURE 2 True True 0 149 144 0 0 0 0,
    ISIGNATURE 2 True True 0 150 151 0 0 0 0,
    ISIGNATURE 2 True True 0 146 152 0 0 0 0,
    ISIGNATURE 2 True True 0 66 123 0 0 0 0,
    ISIGNATURE 2 True True 0 59 65 0 0 0 0,
    ISIGNATURE 2 True True 0 153 36 0 0 0 0,
    ISIGNATURE 2 True True 0 154 12 0 0 0 0,
    ISIGNATURE 4 True True 1 13 13 39 155 0 0,
    ISIGNATURE 4 False True 1 19 19 16 156 0 0,
    ISIGNATURE 0 True True 0 0 0 0 0 0 0,
    ISIGNATURE 1 True True 0 157 0 0 0 0 0,
    ISIGNATURE 2 True True 0 158 159 0 0 0 0,
    ISIGNATURE 2 True True 0 113 69 0 0 0 0,
    ISIGNATURE 3 True True 0 158 159 26 0 0 0,
    ISIGNATURE 3 True True 0 113 69 26 0 0 0,
    ISIGNATURE 3 True True 0 154 64 26 0 0 0,
    ISIGNATURE 3 True True 0 149 65 26 0 0 0,
    ISIGNATURE 1 True True 0 160 0 0 0 0 0,
    ISIGNATURE 1 True False 0 5 0 0 0 0 0,
    ISIGNATURE 2 True True 0 61 159 0 0 0 0,
    ISIGNATURE 2 True True 0 66 69 0 0 0 0,
    ISIGNATURE 2 True True 0 158 161 0 0 0 0,
    ISIGNATURE 2 True True 0 113 79 0 0 0 0,
    ISIGNATURE 1 True True 0 162 0 0 0 0 0]"

definition x86InstISignatureData_3 :: "ISignature list" where
  "x86InstISignatureData_3 = [
    ISIGNATURE 1 True False 0 39 0 0 0 0 0,
    ISIGNATURE 0 True True 0 0 0 0 0 0 0,
    ISIGNATURE 1 True True 0 163 0 0 0 0 0,
    ISIGNATURE 3 True True 0 13 39 26 0 0 0,
    ISIGNATURE 3 False True 0 19 16 26 0 0 0,
    ISIGNATURE 4 True True 0 66 65 69 65 0 0,
    ISIGNATURE 4 True True 0 71 74 72 74 0 0,
    ISIGNATURE 2 True True 0 66 164 0 0 0 0,
    ISIGNATURE 2 True True 0 71 76 0 0 0 0,
    ISIGNATURE 2 True True 0 154 123 0 0 0 0,
    ISIGNATURE 2 False True 0 19 67 0 0 0 0,
    ISIGNATURE 2 True True 0 13 123 0 0 0 0,
    ISIGNATURE 2 False True 0 19 67 0 0 0 0,
    ISIGNATURE 4 True True 0 66 65 65 67 0 0,
    ISIGNATURE 4 True True 0 66 65 67 65 0 0,
    ISIGNATURE 4 True True 0 66 65 65 123 0 0,
    ISIGNATURE 4 True True 0 66 65 123 65 0 0,
    ISIGNATURE 4 True True 0 71 74 69 26 0 0,
    ISIGNATURE 4 True True 0 75 78 69 26 0 0,
    ISIGNATURE 2 True True 0 146 65 0 0 0 0,
    ISIGNATURE 2 True True 0 66 151 0 0 0 0,
    ISIGNATURE 2 True True 0 60 65 0 0 0 0,
    ISIGNATURE 3 True True 0 66 65 57 0 0 0,
    ISIGNATURE 2 True True 0 165 166 0 0 0 0,
    ISIGNATURE 2 True True 0 165 167 0 0 0 0,
    ISIGNATURE 2 True True 0 165 123 0 0 0 0,
    ISIGNATURE 2 True True 0 165 167 0 0 0 0,
    ISIGNATURE 2 True True 0 165 124 0 0 0 0,
    ISIGNATURE 2 True True 0 165 167 0 0 0 0,
    ISIGNATURE 3 True True 0 66 168 26 0 0 0,
    ISIGNATURE 4 True True 0 66 65 168 26 0 0,
    ISIGNATURE 3 True True 0 66 151 26 0 0 0,
    ISIGNATURE 4 True True 0 66 65 151 26 0 0,
    ISIGNATURE 3 False True 0 66 16 26 0 0 0,
    ISIGNATURE 4 False True 0 66 65 16 26 0 0,
    ISIGNATURE 3 True True 0 66 65 69 0 0 0,
    ISIGNATURE 3 True True 0 66 69 169 0 0 0,
    ISIGNATURE 2 True True 0 170 65 0 0 0 0,
    ISIGNATURE 2 True True 0 132 74 0 0 0 0,
    ISIGNATURE 3 True True 0 66 65 69 0 0 0,
    ISIGNATURE 3 True True 0 66 69 65 0 0 0,
    ISIGNATURE 2 True True 0 65 69 0 0 0 0,
    ISIGNATURE 2 True True 0 74 72 0 0 0 0,
    ISIGNATURE 2 True True 0 127 171 0 0 0 0,
    ISIGNATURE 2 True True 0 128 78 0 0 0 0,
    ISIGNATURE 2 True True 0 113 67 0 0 0 0,
    ISIGNATURE 2 True True 0 113 123 0 0 0 0,
    ISIGNATURE 3 True True 1 113 69 172 0 0 0,
    ISIGNATURE 1 True True 0 173 0 0 0 0 0,
    ISIGNATURE 1 True True 1 44 0 0 0 0 0,
    ISIGNATURE 2 True True 2 46 88 0 0 0 0,
    ISIGNATURE 1 False True 1 49 0 0 0 0 0,
    ISIGNATURE 1 True True 0 174 0 0 0 0 0,
    ISIGNATURE 1 True True 1 175 0 0 0 0 0,
    ISIGNATURE 3 True True 0 113 123 26 0 0 0,
    ISIGNATURE 5 False True 4 176 92 49 177 178 0,
    ISIGNATURE 5 True True 4 179 91 47 180 181 0,
    ISIGNATURE 2 True True 0 65 67 0 0 0 0,
    ISIGNATURE 2 True True 0 65 123 0 0 0 0,
    ISIGNATURE 4 True True 4 47 182 183 46 0 0,
    ISIGNATURE 2 False True 2 48 89 0 0 0 0,
    ISIGNATURE 2 True True 0 61 69 0 0 0 0,
    ISIGNATURE 2 True True 0 66 159 0 0 0 0,
    ISIGNATURE 2 True True 0 61 67 0 0 0 0,
    ISIGNATURE 2 True True 0 154 67 0 0 0 0,
    ISIGNATURE 2 True True 0 66 42 0 0 0 0,
    ISIGNATURE 2 True True 2 45 87 0 0 0 0,
    ISIGNATURE 1 True True 1 47 0 0 0 0 0,
    ISIGNATURE 1 True False 1 44 0 0 0 0 0,
    ISIGNATURE 2 True True 0 163 26 0 0 0 0,
    ISIGNATURE 3 True True 0 146 65 26 0 0 0,
    ISIGNATURE 1 True True 0 184 0 0 0 0 0,
    ISIGNATURE 1 True True 0 185 0 0 0 0 0,
    ISIGNATURE 1 True True 0 186 0 0 0 0 0,
    ISIGNATURE 1 True True 0 187 0 0 0 0 0,
    ISIGNATURE 1 True True 0 188 0 0 0 0 0,
    ISIGNATURE 1 True True 0 189 0 0 0 0 0,
    ISIGNATURE 1 True True 0 190 0 0 0 0 0,
    ISIGNATURE 1 False True 0 189 0 0 0 0 0,
    ISIGNATURE 1 True True 0 191 0 0 0 0 0,
    ISIGNATURE 1 True True 0 192 0 0 0 0 0,
    ISIGNATURE 1 True True 0 193 0 0 0 0 0,
    ISIGNATURE 3 True True 0 111 144 144 0 0 0,
    ISIGNATURE 2 True True 0 111 144 0 0 0 0,
    ISIGNATURE 2 True True 0 144 144 0 0 0 0,
    ISIGNATURE 3 True True 0 111 144 26 0 0 0,
    ISIGNATURE 1 True True 1 194 0 0 0 0 0,
    ISIGNATURE 1 True True 0 56 0 0 0 0 0,
    ISIGNATURE 2 True True 0 153 174 0 0 0 0,
    ISIGNATURE 3 True True 1 113 65 175 0 0 0,
    ISIGNATURE 3 True True 1 158 64 175 0 0 0,
    ISIGNATURE 2 True True 0 61 65 0 0 0 0,
    ISIGNATURE 2 True True 0 66 65 0 0 0 0,
    ISIGNATURE 2 True True 0 154 65 0 0 0 0,
    ISIGNATURE 2 True True 0 60 64 0 0 0 0,
    ISIGNATURE 2 True True 0 66 64 0 0 0 0,
    ISIGNATURE 2 False True 0 19 39 0 0 0 0,
    ISIGNATURE 6 True True 3 65 69 26 195 88 155,
    ISIGNATURE 6 True True 3 65 69 26 196 88 155,
    ISIGNATURE 4 True True 1 65 69 26 195 0 0]"

definition x86InstISignatureData_4 :: "ISignature list" where
  "x86InstISignatureData_4 = [
    ISIGNATURE 4 True True 1 65 69 26 196 0 0,
    ISIGNATURE 3 True True 0 143 65 26 0 0 0,
    ISIGNATURE 3 False True 0 7 65 26 0 0 0,
    ISIGNATURE 3 True True 0 113 168 26 0 0 0,
    ISIGNATURE 3 True True 0 113 151 26 0 0 0,
    ISIGNATURE 3 False True 0 113 16 26 0 0 0,
    ISIGNATURE 3 True True 0 197 198 26 0 0 0,
    ISIGNATURE 2 True True 0 154 152 0 0 0 0,
    ISIGNATURE 0 True False 0 0 0 0 0 0 0,
    ISIGNATURE 3 True True 0 61 159 26 0 0 0,
    ISIGNATURE 2 True True 0 113 26 0 0 0 0,
    ISIGNATURE 2 True True 0 25 108 0 0 0 0,
    ISIGNATURE 1 False True 0 154 0 0 0 0 0,
    ISIGNATURE 1 True True 0 153 0 0 0 0 0,
    ISIGNATURE 2 True True 2 46 199 0 0 0 0,
    ISIGNATURE 3 True True 3 46 199 195 0 0 0,
    ISIGNATURE 3 True True 0 66 67 26 0 0 0,
    ISIGNATURE 3 True True 0 66 123 26 0 0 0,
    ISIGNATURE 1 True True 1 200 0 0 0 0 0,
    ISIGNATURE 1 True True 0 1 0 0 0 0 0,
    ISIGNATURE 1 True True 0 59 0 0 0 0 0,
    ISIGNATURE 3 True True 0 66 65 67 0 0 0,
    ISIGNATURE 3 True True 0 66 65 123 0 0 0,
    ISIGNATURE 2 True True 0 71 96 0 0 0 0,
    ISIGNATURE 2 True True 0 201 67 0 0 0 0,
    ISIGNATURE 2 True True 0 201 96 0 0 0 0,
    ISIGNATURE 2 True True 0 75 97 0 0 0 0,
    ISIGNATURE 2 True True 0 165 67 0 0 0 0,
    ISIGNATURE 4 True True 0 109 65 67 26 0 0,
    ISIGNATURE 4 True True 0 109 65 123 26 0 0,
    ISIGNATURE 3 True True 0 66 65 42 0 0 0,
    ISIGNATURE 3 True True 0 70 202 26 0 0 0,
    ISIGNATURE 4 True True 0 113 65 67 26 0 0,
    ISIGNATURE 4 True True 0 113 65 123 26 0 0,
    ISIGNATURE 3 True True 0 113 65 67 0 0 0,
    ISIGNATURE 3 True True 0 113 65 123 0 0 0,
    ISIGNATURE 3 True True 0 111 203 26 0 0 0,
    ISIGNATURE 3 True True 0 111 67 26 0 0 0,
    ISIGNATURE 3 True True 0 111 123 26 0 0 0,
    ISIGNATURE 1 True True 0 81 0 0 0 0 0,
    ISIGNATURE 1 True True 0 82 0 0 0 0 0,
    ISIGNATURE 1 True True 0 85 0 0 0 0 0,
    ISIGNATURE 4 True True 0 75 78 72 26 0 0,
    ISIGNATURE 4 True True 0 66 65 123 26 0 0,
    ISIGNATURE 3 True True 1 65 65 175 0 0 0,
    ISIGNATURE 2 True True 0 154 171 0 0 0 0,
    ISIGNATURE 2 True True 0 165 144 0 0 0 0,
    ISIGNATURE 2 True True 0 165 118 0 0 0 0,
    ISIGNATURE 4 True True 0 66 65 198 26 0 0,
    ISIGNATURE 2 True True 0 111 204 0 0 0 0,
    ISIGNATURE 4 True True 0 66 65 67 26 0 0,
    ISIGNATURE 1 False True 0 167 0 0 0 0 0,
    ISIGNATURE 3 True True 3 180 46 199 0 0 0,
    ISIGNATURE 3 True True 2 189 155 88 0 0 0,
    ISIGNATURE 3 False True 2 189 155 88 0 0 0,
    ISIGNATURE 3 True True 3 180 155 88 0 0 0]"

definition x86InstISignatureData :: "ISignature list" where
  "x86InstISignatureData =
     x86InstISignatureData_0 @ x86InstISignatureData_1 @ x86InstISignatureData_2 @
     x86InstISignatureData_3 @ x86InstISignatureData_4"

text \<open>
  \<^verbatim>\<open>X86Inst::OSignature\<close>: operand flags, memory flags and a fixed register id
  (\<^verbatim>\<open>0xFF\<close> for none).  The third macro argument, \<^verbatim>\<open>extFlags\<close>, is \<open>0\<close> in every
  row and is never read.
\<close>

record OSignature =
  opFlags :: "OpFlag set"
  memFlags :: "MemFlag set"
  regId :: nat

definition OSIGNATURE :: "OpFlag set \<Rightarrow> MemFlag set \<Rightarrow> nat \<Rightarrow> OSignature" where
  "OSIGNATURE f m r = \<lparr>opFlags = f, memFlags = m, regId = r\<rparr>"

definition x86InstOSignatureData_0 :: "OSignature list" where
  "x86InstOSignatureData_0 = [
    OSIGNATURE {} {} 0xFF,
    OSIGNATURE {kOpW, kOpGpbLo, kOpGpbHi, kOpMem} {kMemOpM8} 0xFF,
    OSIGNATURE {kOpR, kOpGpbLo, kOpGpbHi, kOpI8} {} 0xFF,
    OSIGNATURE {kOpW, kOpGpw, kOpMem} {kMemOpM16} 0xFF,
    OSIGNATURE {kOpR, kOpGpw, kOpSeg, kOpI16} {} 0xFF,
    OSIGNATURE {kOpW, kOpGpd, kOpMem} {kMemOpM32} 0xFF,
    OSIGNATURE {kOpR, kOpGpd, kOpI32} {} 0xFF,
    OSIGNATURE {kOpW, kOpGpq, kOpMem} {kMemOpM64} 0xFF,
    OSIGNATURE {kOpR, kOpGpq, kOpSeg, kOpI32} {} 0xFF,
    OSIGNATURE {kOpW, kOpGpbLo, kOpGpbHi} {} 0xFF,
    OSIGNATURE {kOpR, kOpGpbLo, kOpGpbHi, kOpMem, kOpI8} {kMemOpM8} 0xFF,
    OSIGNATURE {kOpW, kOpGpw, kOpSeg} {} 0xFF,
    OSIGNATURE {kOpR, kOpGpw, kOpMem} {kMemOpM16} 0xFF,
    OSIGNATURE {kOpW, kOpGpd} {} 0xFF,
    OSIGNATURE {kOpR, kOpGpd, kOpMem, kOpI32} {kMemOpM32} 0xFF,
    OSIGNATURE {kOpW, kOpGpq, kOpSeg} {} 0xFF,
    OSIGNATURE {kOpR, kOpGpq, kOpMem} {kMemOpM64} 0xFF,
    OSIGNATURE {kOpW, kOpGpw} {} 0xFF,
    OSIGNATURE {kOpR, kOpI16} {} 0xFF,
    OSIGNATURE {kOpW, kOpGpq} {} 0xFF,
    OSIGNATURE {kOpR, kOpCr, kOpDr, kOpI64} {} 0xFF,
    OSIGNATURE {kOpR, kOpCr, kOpDr} {} 0xFF,
    OSIGNATURE {kOpW, kOpCr, kOpDr} {} 0xFF,
    OSIGNATURE {kOpR, kOpGpd} {} 0xFF,
    OSIGNATURE {kOpR, kOpGpq} {} 0xFF,
    OSIGNATURE {kOpX, kOpGpbLo, kOpGpbHi, kOpGpw, kOpGpd, kOpGpq, kOpMem} {kMemOpM8, kMemOpM16, kMemOpM32, kMemOpM64} 0xFF,
    OSIGNATURE {kOpR, kOpI8} {} 0xFF,
    OSIGNATURE {kOpX, kOpGpw, kOpMem} {kMemOpM16} 0xFF,
    OSIGNATURE {kOpR, kOpGpw, kOpI16} {} 0xFF,
    OSIGNATURE {kOpX, kOpGpd, kOpGpq, kOpMem} {kMemOpM32, kMemOpM64} 0xFF,
    OSIGNATURE {kOpR, kOpI32} {} 0xFF,
    OSIGNATURE {kOpX, kOpGpbLo, kOpGpbHi, kOpMem} {kMemOpM8} 0xFF,
    OSIGNATURE {kOpR, kOpGpbLo, kOpGpbHi} {} 0xFF,
    OSIGNATURE {kOpX, kOpGpd, kOpMem} {kMemOpM32} 0xFF,
    OSIGNATURE {kOpX, kOpGpq, kOpMem} {kMemOpM64} 0xFF,
    OSIGNATURE {kOpX, kOpGpbLo, kOpGpbHi} {} 0xFF,
    OSIGNATURE {kOpR, kOpGpbLo, kOpGpbHi, kOpMem} {kMemOpM8} 0xFF,
    OSIGNATURE {kOpX, kOpGpw} {} 0xFF,
    OSIGNATURE {kOpX, kOpGpd} {} 0xFF,
    OSIGNATURE {kOpR, kOpGpd, kOpMem} {kMemOpM32} 0xFF,
    OSIGNATURE {kOpX, kOpGpq} {} 0xFF,
    OSIGNATURE {kOpR, kOpGpbLo, kOpGpbHi, kOpGpw, kOpGpd, kOpGpq, kOpMem} {kMemOpM8, kMemOpM16, kMemOpM32, kMemOpM64} 0xFF,
    OSIGNATURE {kOpR, kOpGpd, kOpGpq, kOpMem} {kMemOpM32, kMemOpM64} 0xFF,
    OSIGNATURE {kOpR, kOpGpw} {} 0xFF,
    OSIGNATURE {kOpX, kOpImplicit, kOpGpw} {} 0x00,
    OSIGNATURE {kOpW, kOpImplicit, kOpGpw} {} 0x02,
    OSIGNATURE {kOpW, kOpImplicit, kOpGpd} {} 0x02,
    OSIGNATURE {kOpX, kOpImplicit, kOpGpd} {} 0x00,
    OSIGNATURE {kOpW, kOpImplicit, kOpGpq} {} 0x02,
    OSIGNATURE {kOpX, kOpImplicit, kOpGpq} {} 0x00,
    OSIGNATURE {kOpR, kOpGpw, kOpMem, kOpI8, kOpI16} {kMemOpM16} 0xFF,
    OSIGNATURE {kOpR, kOpGpd, kOpMem, kOpI8, kOpI32} {kMemOpM32} 0xFF,
    OSIGNATURE {kOpR, kOpGpq, kOpMem, kOpI8, kOpI32} {kMemOpM64} 0xFF,
    OSIGNATURE {kOpR, kOpI8, kOpI16} {} 0xFF,
    OSIGNATURE {kOpR, kOpI8, kOpI32} {} 0xFF,
    OSIGNATURE {kOpR, kOpMem} {kMemOpM16} 0xFF,
    OSIGNATURE {kOpR, kOpMem} {kMemOpM32} 0xFF,
    OSIGNATURE {kOpR, kOpMem} {kMemOpM64} 0xFF,
    OSIGNATURE {kOpW, kOpMem} {kMemOpM16} 0xFF,
    OSIGNATURE {kOpW, kOpMem} {kMemOpM32} 0xFF,
    OSIGNATURE {kOpW, kOpMem} {kMemOpM64} 0xFF,
    OSIGNATURE {kOpW, kOpMm} {} 0xFF,
    OSIGNATURE {kOpR, kOpGpq, kOpMm, kOpXmm, kOpMem} {kMemOpM64} 0xFF,
    OSIGNATURE {kOpW, kOpGpq, kOpMm, kOpXmm, kOpMem} {kMemOpM64} 0xFF,
    OSIGNATURE {kOpR, kOpMm} {} 0xFF,
    OSIGNATURE {kOpR, kOpXmm} {} 0xFF,
    OSIGNATURE {kOpW, kOpXmm} {} 0xFF,
    OSIGNATURE {kOpR, kOpXmm, kOpMem} {kMemOpM64} 0xFF,
    OSIGNATURE {kOpW, kOpXmm, kOpMem} {kMemOpM64} 0xFF,
    OSIGNATURE {kOpR, kOpXmm, kOpMem} {kMemOpM128} 0xFF,
    OSIGNATURE {kOpW, kOpXmm, kOpMem} {kMemOpM128} 0xFF,
    OSIGNATURE {kOpW, kOpYmm} {} 0xFF,
    OSIGNATURE {kOpR, kOpYmm, kOpMem} {kMemOpM256} 0xFF,
    OSIGNATURE {kOpW, kOpYmm, kOpMem} {kMemOpM256} 0xFF,
    OSIGNATURE {kOpR, kOpYmm} {} 0xFF,
    OSIGNATURE {kOpW, kOpZmm} {} 0xFF,
    OSIGNATURE {kOpR, kOpZmm, kOpMem} {kMemOpM512} 0xFF,
    OSIGNATURE {kOpW, kOpZmm, kOpMem} {kMemOpM512} 0xFF,
    OSIGNATURE {kOpR, kOpZmm} {} 0xFF,
    OSIGNATURE {kOpR, kOpXmm, kOpMem, kOpI8} {kMemOpM128} 0xFF,
    OSIGNATURE {kOpR, kOpVm} {kMemOpVm32x} 0xFF,
    OSIGNATURE {kOpR, kOpVm} {kMemOpVm32y} 0xFF,
    OSIGNATURE {kOpR, kOpVm} {kMemOpVm32z} 0xFF,
    OSIGNATURE {kOpR, kOpVm} {kMemOpVm64x} 0xFF,
    OSIGNATURE {kOpR, kOpVm} {kMemOpVm64y} 0xFF,
    OSIGNATURE {kOpR, kOpVm} {kMemOpVm64z} 0xFF,
    OSIGNATURE {kOpR, kOpImplicit, kOpGpbLo} {} 0x00,
    OSIGNATURE {kOpR, kOpImplicit, kOpGpw} {} 0x00,
    OSIGNATURE {kOpR, kOpImplicit, kOpGpd} {} 0x00,
    OSIGNATURE {kOpR, kOpImplicit, kOpGpq} {} 0x00,
    OSIGNATURE {kOpX, kOpImplicit, kOpGpw} {} 0x02,
    OSIGNATURE {kOpX, kOpImplicit, kOpGpd} {} 0x02,
    OSIGNATURE {kOpX, kOpImplicit, kOpGpq} {} 0x02,
    OSIGNATURE {kOpR, kOpVm} {kMemOpVm64x, kMemOpVm64y} 0xFF,
    OSIGNATURE {kOpW, kOpMem} {kMemOpM128} 0xFF,
    OSIGNATURE {kOpW, kOpMem} {kMemOpM256} 0xFF,
    OSIGNATURE {kOpR, kOpMem} {kMemOpM128} 0xFF,
    OSIGNATURE {kOpR, kOpMem} {kMemOpM256} 0xFF,
    OSIGNATURE {kOpR, kOpI4} {} 0xFF,
    OSIGNATURE {kOpR, kOpGpw, kOpI8} {} 0xFF]"

definition x86InstOSignatureData_1 :: "OSignature list" where
  "x86InstOSignatureData_1 = [
    OSIGNATURE {kOpR, kOpGpd, kOpI8} {} 0xFF,
    OSIGNATURE {kOpR, kOpGpq, kOpI8} {} 0xFF,
    OSIGNATURE {kOpX, kOpMem} {kMemOpM32, kMemOpM64} 0xFF,
    OSIGNATURE {kOpX, kOpFp} {} 0x00,
    OSIGNATURE {kOpR, kOpFp} {} 0xFF,
    OSIGNATURE {kOpX, kOpFp} {} 0xFF,
    OSIGNATURE {kOpR, kOpFp} {} 0x00,
    OSIGNATURE {kOpX, kOpImplicit} {} 0xFF,
    OSIGNATURE {kOpR, kOpGpbLo, kOpI8} {} 0x01,
    OSIGNATURE {kOpW, kOpK, kOpXmm} {} 0xFF,
    OSIGNATURE {kOpW, kOpK, kOpYmm} {} 0xFF,
    OSIGNATURE {kOpW, kOpK} {} 0xFF,
    OSIGNATURE {kOpR, kOpXmm, kOpYmm, kOpMem} {kMemOpM64, kMemOpM128, kMemOpM256} 0xFF,
    OSIGNATURE {kOpX, kOpXmm} {} 0xFF,
    OSIGNATURE {kOpX, kOpYmm} {} 0xFF,
    OSIGNATURE {kOpX, kOpZmm} {} 0xFF,
    OSIGNATURE {kOpW, kOpMem} {kMemOpM512} 0xFF,
    OSIGNATURE {kOpR, kOpMem} {kMemOpM512} 0xFF,
    OSIGNATURE {kOpR, kOpGpq, kOpXmm, kOpMem} {kMemOpM64} 0xFF,
    OSIGNATURE {kOpW, kOpMem} {kMemOpM32, kMemOpM64} 0xFF,
    OSIGNATURE {kOpR, kOpMem} {kMemOpM32, kMemOpM64} 0xFF,
    OSIGNATURE {kOpW, kOpXmm, kOpMem} {kMemOpM32} 0xFF,
    OSIGNATURE {kOpW, kOpXmm, kOpMem} {kMemOpM16} 0xFF,
    OSIGNATURE {kOpR, kOpXmm, kOpMem} {kMemOpM32} 0xFF,
    OSIGNATURE {kOpR, kOpXmm, kOpMem} {kMemOpM16} 0xFF,
    OSIGNATURE {kOpR, kOpXmm, kOpMem} {kMemOpM32, kMemOpM64} 0xFF,
    OSIGNATURE {kOpR, kOpXmm, kOpMem} {kMemOpM64, kMemOpM128} 0xFF,
    OSIGNATURE {kOpW, kOpVm} {kMemOpVm32x} 0xFF,
    OSIGNATURE {kOpW, kOpVm} {kMemOpVm32y} 0xFF,
    OSIGNATURE {kOpW, kOpVm} {kMemOpVm32z} 0xFF,
    OSIGNATURE {kOpW, kOpVm} {kMemOpVm64x} 0xFF,
    OSIGNATURE {kOpW, kOpVm} {kMemOpVm64y} 0xFF,
    OSIGNATURE {kOpW, kOpVm} {kMemOpVm64z} 0xFF,
    OSIGNATURE {kOpX, kOpGpq, kOpMem, kOpI32, kOpI64, kOpRel32} {kMemOpM64} 0xFF,
    OSIGNATURE {kOpR, kOpGpbLo, kOpGpbHi, kOpGpw, kOpGpd, kOpMem} {kMemOpM8, kMemOpM16, kMemOpM32} 0xFF,
    OSIGNATURE {kOpR, kOpGpbLo, kOpGpbHi, kOpGpq, kOpMem} {kMemOpM8, kMemOpM64} 0xFF,
    OSIGNATURE {kOpX, kOpGpw, kOpGpd} {} 0xFF,
    OSIGNATURE {kOpX, kOpFp, kOpMem} {kMemOpM32, kMemOpM64} 0xFF,
    OSIGNATURE {kOpR, kOpGpw, kOpGpd} {} 0x01,
    OSIGNATURE {kOpR, kOpRel8} {} 0xFF,
    OSIGNATURE {kOpR, kOpGpd, kOpGpq} {} 0x01,
    OSIGNATURE {kOpX, kOpGpq, kOpMem, kOpI32, kOpI64, kOpRel8, kOpRel32} {kMemOpM64} 0xFF,
    OSIGNATURE {kOpR, kOpGpbLo, kOpGpbHi, kOpGpw, kOpGpd, kOpGpq, kOpK, kOpMem} {kMemOpM8} 0xFF,
    OSIGNATURE {kOpW, kOpGpbLo, kOpGpbHi, kOpGpw, kOpGpd, kOpGpq, kOpMem} {kMemOpM8} 0xFF,
    OSIGNATURE {kOpR, kOpK} {} 0xFF,
    OSIGNATURE {kOpR, kOpGpd, kOpGpq, kOpK, kOpMem} {kMemOpM32} 0xFF,
    OSIGNATURE {kOpW, kOpGpd, kOpGpq, kOpMem} {kMemOpM32} 0xFF,
    OSIGNATURE {kOpR, kOpGpq, kOpK, kOpMem} {kMemOpM64} 0xFF,
    OSIGNATURE {kOpR, kOpGpw, kOpGpd, kOpGpq, kOpK, kOpMem} {kMemOpM16} 0xFF,
    OSIGNATURE {kOpW, kOpGpw, kOpGpd, kOpGpq, kOpMem} {kMemOpM16} 0xFF,
    OSIGNATURE {kOpW, kOpMm, kOpXmm} {} 0xFF,
    OSIGNATURE {kOpR, kOpGpd, kOpGpq, kOpMem} {kMemOpM32} 0xFF,
    OSIGNATURE {kOpR, kOpMm, kOpXmm} {} 0xFF,
    OSIGNATURE {kOpW, kOpGpw, kOpGpd, kOpGpq} {} 0xFF,
    OSIGNATURE {kOpW, kOpGpd, kOpGpq} {} 0xFF,
    OSIGNATURE {kOpR, kOpImplicit, kOpGpd} {} 0x02,
    OSIGNATURE {kOpR, kOpImplicit, kOpGpq} {} 0x02,
    OSIGNATURE {kOpR, kOpGpw, kOpGpd, kOpMem} {kMemOpM16, kMemOpM32} 0xFF,
    OSIGNATURE {kOpX, kOpMm} {} 0xFF,
    OSIGNATURE {kOpR, kOpMm, kOpMem} {kMemOpM64} 0xFF,
    OSIGNATURE {kOpW, kOpGpw, kOpGpq, kOpMem} {kMemOpM16, kMemOpM64} 0xFF,
    OSIGNATURE {kOpR, kOpMm, kOpMem, kOpI8} {kMemOpM64} 0xFF,
    OSIGNATURE {kOpX, kOpGpw, kOpGpq, kOpMem, kOpI8, kOpI16, kOpI32} {kMemOpM16, kMemOpM64} 0xFF,
    OSIGNATURE {kOpX, kOpI16} {} 0xFF,
    OSIGNATURE {kOpR, kOpXmm, kOpYmm, kOpMem} {kMemOpM128, kMemOpM256} 0xFF,
    OSIGNATURE {kOpW, kOpXmm, kOpYmm, kOpZmm} {} 0xFF,
    OSIGNATURE {kOpR, kOpXmm, kOpMem} {kMemOpM8} 0xFF,
    OSIGNATURE {kOpR, kOpGpd, kOpGpq} {} 0xFF,
    OSIGNATURE {kOpR, kOpGpbLo, kOpGpbHi, kOpGpw, kOpGpd, kOpGpq, kOpMem} {kMemOpM8} 0xFF,
    OSIGNATURE {kOpR, kOpXmm, kOpI8} {} 0xFF,
    OSIGNATURE {kOpW, kOpVm} {kMemOpVm64x, kMemOpVm64y} 0xFF,
    OSIGNATURE {kOpR, kOpXmm, kOpYmm} {} 0xFF,
    OSIGNATURE {kOpR, kOpImplicit, kOpXmm} {} 0x00,
    OSIGNATURE {kOpX, kOpGpd, kOpGpq} {} 0xFF,
    OSIGNATURE {kOpR, kOpMem} {kMemOpAny} 0xFF,
    OSIGNATURE {kOpR, kOpImplicit} {} 0xFF,
    OSIGNATURE {kOpX, kOpMem} {kMemOpM128} 0xFF,
    OSIGNATURE {kOpR, kOpImplicit, kOpGpq} {} 0x01,
    OSIGNATURE {kOpR, kOpImplicit, kOpGpq} {} 0x03,
    OSIGNATURE {kOpX, kOpMem} {kMemOpM64} 0xFF,
    OSIGNATURE {kOpR, kOpImplicit, kOpGpd} {} 0x01,
    OSIGNATURE {kOpR, kOpImplicit, kOpGpd} {} 0x03,
    OSIGNATURE {kOpW, kOpImplicit, kOpGpd} {} 0x03,
    OSIGNATURE {kOpX, kOpImplicit, kOpGpd} {} 0x01,
    OSIGNATURE {kOpX, kOpMem} {kMemOpM80} 0xFF,
    OSIGNATURE {kOpX, kOpMem} {kMemOpM16, kMemOpM32} 0xFF,
    OSIGNATURE {kOpX, kOpMem} {kMemOpM16, kMemOpM32, kMemOpM64} 0xFF,
    OSIGNATURE {kOpX, kOpFp, kOpMem} {kMemOpM32, kMemOpM64, kMemOpM80} 0xFF,
    OSIGNATURE {kOpX, kOpMem} {kMemOpM16} 0xFF,
    OSIGNATURE {kOpX, kOpMem} {kMemOpAny} 0xFF,
    OSIGNATURE {kOpX, kOpGpw, kOpMem} {kMemOpM16} 0x00,
    OSIGNATURE {kOpX, kOpI8} {} 0xFF,
    OSIGNATURE {kOpX, kOpRel8, kOpRel32} {} 0xFF,
    OSIGNATURE {kOpX, kOpRel8} {} 0xFF,
    OSIGNATURE {kOpW, kOpImplicit, kOpGpbHi} {} 0x00,
    OSIGNATURE {kOpW, kOpImplicit, kOpGpd} {} 0x01,
    OSIGNATURE {kOpW, kOpImplicit, kOpXmm} {} 0x00,
    OSIGNATURE {kOpX, kOpMm, kOpXmm} {} 0xFF,
    OSIGNATURE {kOpR, kOpGpw, kOpGpd, kOpGpq, kOpMem} {kMemOpM16} 0xFF,
    OSIGNATURE {kOpW, kOpImplicit, kOpGpd} {} 0x00]"

definition x86InstOSignatureData_2 :: "OSignature list" where
  "x86InstOSignatureData_2 = [
    OSIGNATURE {kOpR, kOpImplicit, kOpGpbHi} {} 0x00,
    OSIGNATURE {kOpW, kOpYmm, kOpZmm} {} 0xFF,
    OSIGNATURE {kOpR, kOpYmm, kOpZmm} {} 0xFF,
    OSIGNATURE {kOpR, kOpXmm, kOpYmm, kOpZmm, kOpMem} {kMemOpM128, kMemOpM256, kMemOpM512} 0xFF,
    OSIGNATURE {kOpR, kOpXmm, kOpYmm, kOpZmm} {} 0xFF]"

definition x86InstOSignatureData :: "OSignature list" where
  "x86InstOSignatureData =
     x86InstOSignatureData_0 @ x86InstOSignatureData_1 @ x86InstOSignatureData_2"


subsection \<open>Validation data\<close>

text \<open>
  \<^verbatim>\<open>_x86OpFlagFromRegType\<close>: the operand flag of each register type, \<open>kOpNone\<close>
  for a type that is no operand of an instruction.
\<close>

definition x86OpFlagFromRegType :: "OpFlag set list" where
  "x86OpFlagFromRegType = [
    kOpNone,
    kOpNone,
    kOpNone,
    {kOpSeg},
    {kOpGpbLo},
    {kOpGpbHi},
    {kOpGpw},
    {kOpGpd},
    {kOpGpq},
    {kOpFp},
    {kOpMm},
    {kOpK},
    {kOpXmm},
    {kOpYmm},
    {kOpZmm},
    kOpNone,
    {kOpBnd},
    {kOpCr},
    {kOpDr}]"

record X86ValidationData =
  allowedRegMask :: "32 word list"
  allowedMemBaseRegs :: "32 word"
  allowedMemIndexRegs :: "32 word"

definition x86ValidationData :: X86ValidationData where
  "x86ValidationData = \<lparr>
     allowedRegMask = [
       0x00000000,
       0x00000000,
       0x00000001,
       0x0000007E,
       0x0000000F,
       0x0000000F,
       0x000000FF,
       0x000000FF,
       0x000000FF,
       0x000000FF,
       0x000000FF,
       0x000000FF,
       0x000000FF,
       0x000000FF,
       0x000000FF,
       0x00000000,
       0x0000000F,
       0x000000FF,
       0x000000FF],
     allowedMemBaseRegs =
       push_bit kRegGpw 1 OR push_bit kRegGpd 1 OR push_bit kRegRip 1 OR push_bit kLabelTag 1,
     allowedMemIndexRegs =
       push_bit kRegGpw 1 OR push_bit kRegGpd 1 OR push_bit kRegXmm 1 OR push_bit kRegYmm 1
         OR push_bit kRegZmm 1\<rparr>"

definition x64ValidationData :: X86ValidationData where
  "x64ValidationData = \<lparr>
     allowedRegMask = [
       0x00000000,
       0x00000000,
       0x00000001,
       0x00000060,
       0x0000FFFF,
       0x0000000F,
       0x0000FFFF,
       0x0000FFFF,
       0x0000FFFF,
       0x000000FF,
       0x000000FF,
       0x000000FF,
       0xFFFFFFFF,
       0xFFFFFFFF,
       0xFFFFFFFF,
       0x00000000,
       0x0000000F,
       0x000001FF,
       0x000000FF],
     allowedMemBaseRegs =
       push_bit kRegGpd 1 OR push_bit kRegGpq 1 OR push_bit kRegRip 1 OR push_bit kLabelTag 1,
     allowedMemIndexRegs =
       push_bit kRegGpd 1 OR push_bit kRegGpq 1 OR push_bit kRegXmm 1 OR push_bit kRegYmm 1
         OR push_bit kRegZmm 1\<rparr>"

subsection \<open>Translation of the operands\<close>

text \<open>
  Modelled from the spec: \<^verbatim>\<open>Utils::mask\<close> (\<^verbatim>\<open>base/utils.h\<close>), the word with the
  single bit \<open>x\<close> set.
\<close>

definition Utils_mask :: "nat \<Rightarrow> 32 word" where
  "Utils_mask x = push_bit x 1"

text \<open>
  The body of the \<^verbatim>\<open>switch\<close> in the first loop of \<^verbatim>\<open>validate\<close>: one operand is
  translated to an operand signature; a physical register also gives the bit of its id for
  \<^verbatim>\<open>combinedRegMask\<close>.  The threshold \<^verbatim>\<open>Operand::kPackedIdMin\<close>, from which on a
  register id is virtual, is declared in \<^verbatim>\<open>base/operand.h\<close>; it is the parameter
  \<open>kPackedIdMin\<close> of the model.  A base or index type is a five-bit field of the operand,
  so the shifts \<^verbatim>\<open>1U << baseType\<close> stay below the width of the word.
\<close>

definition kMemOpAllSizes :: "MemFlag set" where
  "kMemOpAllSizes =
     {kMemOpM8, kMemOpM16, kMemOpM32, kMemOpM64, kMemOpM80, kMemOpM128, kMemOpM256,
      kMemOpM512, kMemOpM1024, kMemOpAny}"

fun translateOperand ::
  "nat \<Rightarrow> X86ValidationData \<Rightarrow> Operand \<Rightarrow> (fault + Error) + (OSignature \<times> 32 word)" where
  "translateOperand kPackedIdMin vd (RegOp regType rid) =
     (if regType \<ge> kRegCount then Return kErrorInvalidRegType
      else if x86OpFlagFromRegType ! regType = {} then Return kErrorInvalidRegType
      else if rid < kPackedIdMin then
        (if rid \<ge> 32 then Return kErrorInvalidPhysId
         else if (allowedRegMask vd ! regType) AND Utils_mask rid = 0
           then Return kErrorInvalidPhysId
         else Inr (\<lparr>opFlags = x86OpFlagFromRegType ! regType, memFlags = {},
                     regId = rid mod 256\<rparr>, Utils_mask rid))
      else Inr (\<lparr>opFlags = x86OpFlagFromRegType ! regType, memFlags = {},
                  regId = rid mod 256\<rparr>, 0))"
| "translateOperand kPackedIdMin vd (MemOp memSize baseType indexType) =
     (if baseType \<noteq> 0 \<and> allowedMemBaseRegs vd AND push_bit baseType 1 = 0
        then Return kErrorInvalidAddress
      else if indexType \<noteq> 0 then
        (if allowedMemIndexRegs vd AND push_bit indexType 1 = 0
           then Return kErrorInvalidAddress
         else if indexType = kRegXmm then
           Inr (\<lparr>opFlags = {kOpVm}, memFlags = {kMemOpVm32x, kMemOpVm64x},
                 regId = kInvalidReg mod 256\<rparr>, 0)
         else if indexType = kRegYmm then
           Inr (\<lparr>opFlags = {kOpVm}, memFlags = {kMemOpVm32y, kMemOpVm64y},
                 regId = kInvalidReg mod 256\<rparr>, 0)
         else if indexType = kRegZmm then
           Inr (\<lparr>opFlags = {kOpVm}, memFlags = {kMemOpVm32z, kMemOpVm64z},
                 regId = kInvalidReg mod 256\<rparr>, 0)
         else Inr (\<lparr>opFlags = {kOpMem}, memFlags = {}, regId = kInvalidReg mod 256\<rparr>, 0))
      else Inr (\<lparr>opFlags = {kOpMem}, memFlags = kMemOpAllSizes,
                  regId = kInvalidReg mod 256\<rparr>, 0))"
| "translateOperand kPackedIdMin vd (ImmOp v) =
     Inr (\<lparr>opFlags = {kOpI4, kOpI8, kOpI16, kOpI32, kOpI64}, memFlags = {},
           regId = kInvalidReg mod 256\<rparr>, 0)"
| "translateOperand kPackedIdMin vd (LabelOp l) =
     Inr (\<lparr>opFlags = {kOpRel8, kOpRel32}, memFlags = {}, regId = kInvalidReg mod 256\<rparr>, 0)"
| "translateOperand kPackedIdMin vd NoneOp = Return kErrorInvalidState"
| "translateOperand kPackedIdMin vd OtherOp = Return kErrorInvalidState"

text \<open>
  What the first loop builds up: the translated signatures \<^verbatim>\<open>oSigTranslated\<close>, the
  union of their flags, the mask of the physical register ids, and the last memory operand
  seen (\<^verbatim>\<open>memOp\<close>, a null pointer at first).
\<close>

record Translated =
  oSigTranslated :: "OSignature list"
  combinedOpFlags :: "OpFlag set"
  combinedRegMask :: "32 word"
  memOp :: "Operand option"

definition noneTranslated :: Translated where
  "noneTranslated =
     \<lparr>oSigTranslated = [], combinedOpFlags = {}, combinedRegMask = 0, memOp = None\<rparr>"

fun isMem :: "Operand \<Rightarrow> bool" where
  "isMem (MemOp s b x) = True"
| "isMem _ = False"

definition addTranslated :: "Translated \<Rightarrow> Operand \<Rightarrow> OSignature \<times> 32 word \<Rightarrow> Translated" where
  "addTranslated st op r =
     \<lparr>oSigTranslated = oSigTranslated st @ [fst r],
      combinedOpFlags = combinedOpFlags st \<union> opFlags (fst r),
      combinedRegMask = combinedRegMask st OR snd r,
      memOp = (if isMem op then Some op else memOp st)\<rparr>"

text \<open>
  The loop \<^verbatim>\<open>for (i = 0; i < opCount; i++)\<close> over the operands that are left, \<open>i\<close>
  being the index of the first of them.  It stops at the first operand that is none and
  returns at the first operand that does not translate.  \<^verbatim>\<open>oSigTranslated\<close> has six
  elements: storing a seventh signature is out of bounds.
\<close>

fun translateLoop ::
  "nat \<Rightarrow> X86ValidationData \<Rightarrow> Operand list \<Rightarrow> nat \<Rightarrow> Translated \<Rightarrow>
     (fault + Error) + (nat \<times> Translated)" where
  "translateLoop kPackedIdMin vd [] i st = Inr (i, st)"
| "translateLoop kPackedIdMin vd (op # rest) i st =
     (if isNone op then Inr (i, st)
      else case translateOperand kPackedIdMin vd op of
        Inl r \<Rightarrow> Inl r
      | Inr t \<Rightarrow>
          if i \<ge> 6 then Fault OutOfBounds
          else translateLoop kPackedIdMin vd rest (i + 1) (addTranslated st op t))"

text \<open>
  The loop that follows it: when the first loop stopped at an operand that is none, every
  operand behind that one must be none as well.  The number of operands is \<open>i\<close> from then
  on.
\<close>

definition translateOperands ::
  "nat \<Rightarrow> X86ValidationData \<Rightarrow> Operand list \<Rightarrow> (fault + Error) + (nat \<times> Translated)" where
  "translateOperands kPackedIdMin vd opArray =
     (case translateLoop kPackedIdMin vd opArray 0 noneTranslated of
        Inl r \<Rightarrow> Inl r
      | Inr (i, st) \<Rightarrow>
          if i < length opArray \<and> list_ex (\<lambda>op. \<not> isNone op) (drop (i + 1) opArray)
            then Return kErrorInvalidState
          else Inr (i, st))"

subsection \<open>Matching the signatures\<close>

text \<open>The three tests that compare a translated operand with a reference signature.\<close>

definition opMatches :: "OSignature \<Rightarrow> OSignature \<Rightarrow> bool" where
  "opMatches oChk oRef =
     (if opFlags oRef \<inter> opFlags oChk = {} then False
      else if memFlags oRef \<inter> memFlags oChk = {} \<and> memFlags oChk \<noteq> {} then False
      else if regId oRef \<noteq> kInvalidReg \<and> regId oChk \<noteq> kInvalidReg \<and> regId oRef \<noteq> regId oChk
        then False
      else True)"

definition oSigRef :: "ISignature \<Rightarrow> nat \<Rightarrow> OSignature" where
  "oSigRef iSig r = x86InstOSignatureData ! (operands iSig ! r)"

text \<open>
  The inner loop of the branch \<^verbatim>\<open>iCount == opCount\<close>; the result is the value of
  \<open>j\<close> when the loop is left.
\<close>

function exactLoop :: "OSignature list \<Rightarrow> ISignature \<Rightarrow> nat \<Rightarrow> nat \<Rightarrow> nat" where
  "exactLoop tr iSig n j =
     (if j < n then
        (if opMatches (tr ! j) (oSigRef iSig j) then exactLoop tr iSig n (j + 1) else j)
      else j)"
  by pat_completeness auto
termination
  by (relation "measure (\<lambda>(tr, iSig, n, j). n - j)") auto

declare exactLoop.simps [simp del]

text \<open>
  The inner loop of the branch \<^verbatim>\<open>iCount - iSig->implicit == opCount\<close>.  An implicit
  reference operand is skipped: \<^verbatim>\<open>goto Next\<close> enters the body again with the same
  \<open>j\<close> and the next \<open>r\<close>, which is below \<open>iCount\<close> there.
\<close>

function implicitLoop ::
  "OSignature list \<Rightarrow> ISignature \<Rightarrow> nat \<Rightarrow> nat \<Rightarrow> nat \<Rightarrow> nat \<Rightarrow> nat" where
  "implicitLoop tr iSig n iCount j r =
     (if j < n \<and> r < iCount then
        (if opFlags (oSigRef iSig r) \<inter> {kOpImplicit} \<noteq> {} then
           (if r + 1 \<ge> iCount then j else implicitLoop tr iSig n iCount j (r + 1))
         else if opMatches (tr ! j) (oSigRef iSig r)
           then implicitLoop tr iSig n iCount (j + 1) (r + 1)
         else j)
      else j)"
  by pat_completeness auto
termination
  by (relation "measure (\<lambda>(tr, iSig, n, iCount, j, r). iCount - r)") auto

declare implicitLoop.simps [simp del]

text \<open>
  One round of the \<^verbatim>\<open>do ... while\<close> loop: does the signature \<open>iSig\<close> accept the
  \<open>n\<close> translated operands?  The difference \<^verbatim>\<open>iCount - iSig->implicit\<close> is taken
  in 32-bit unsigned arithmetic.
\<close>

definition signatureMatches :: "ArchMask \<Rightarrow> OSignature list \<Rightarrow> nat \<Rightarrow> ISignature \<Rightarrow> bool" where
  "signatureMatches am tr n iSig =
     (if archMask iSig \<inter> {am} = {} then False
      else if opCount iSig = n then exactLoop tr iSig n 0 = n
      else if (opCount iSig + 2 ^ 32 - implicit iSig) mod 2 ^ 32 = n
        then implicitLoop tr iSig n (opCount iSig) 0 0 = n
      else False)"

text \<open>The signatures from \<^verbatim>\<open>iSig\<close> up to \<^verbatim>\<open>iEnd\<close>.\<close>

definition signatureGroup :: "CommonData \<Rightarrow> ISignature list" where
  "signatureGroup cd = take (iSignatureCount cd) (drop (iSignatureIndex cd) x86InstISignatureData)"

subsection \<open>The checks of the AVX-512 options\<close>

text \<open>
  Each of the three blocks gives \<open>None\<close> when it lets the call pass and the outcome of
  \<^verbatim>\<open>validate\<close> otherwise.
\<close>

definition checkMask :: "InstOption set \<Rightarrow> Operand \<Rightarrow> CommonData \<Rightarrow> (fault + Error) option" where
  "checkMask options opExtra cd =
     (if options \<inter> {kOptionK, kOptionKZ} \<noteq> {} then
        (if options \<inter> {kOptionK} = {} then Some (Inr kErrorInvalidKZeroUse)
         else if \<not> isK opExtra then Some (Inr kErrorInvalidKMaskReg)
         else if \<not> hasFlag cd kInstFlagEvexK then Some (Inr kErrorInvalidKMaskUse)
         else if options \<inter> {kOptionKZ} \<noteq> {} \<and> \<not> hasFlag cd kInstFlagEvexKZ
           then Some (Inr kErrorInvalidKZeroUse)
         else None)
      else None)"

definition checkBroadcast ::
  "InstOption set \<Rightarrow> CommonData \<Rightarrow> Operand option \<Rightarrow> (fault + Error) option" where
  "checkBroadcast options cd m =
     (if options \<inter> {kOption1ToX} \<noteq> {} then
        (case m of
           None \<Rightarrow> Some (Inr kErrorInvalidBroadcast)
         | Some mem \<Rightarrow>
             if getSize mem \<noteq> 0 then
               (if hasFlag cd kInstFlagEvexB4 \<and> getSize mem \<noteq> 4
                  then Some (Inr kErrorInvalidBroadcast)
                else if hasFlag cd kInstFlagEvexB8 \<and> getSize mem \<noteq> 8
                  then Some (Inr kErrorInvalidBroadcast)
                else None)
             else None)
      else None)"

text \<open>
  The block for \<^verbatim>\<open>{sae}\<close> and \<^verbatim>\<open>{er}\<close>.  \<open>n\<close> is the number of operands after
  the first two loops; \<^verbatim>\<open>ASMJIT_ASSERT(opCount >= 2)\<close> guards the reads of
  \<^verbatim>\<open>opArray[0]\<close> and \<^verbatim>\<open>opArray[1]\<close>.
\<close>

definition checkRounding ::
  "InstOption set \<Rightarrow> CommonData \<Rightarrow> Operand option \<Rightarrow> Operand list \<Rightarrow> nat \<Rightarrow>
     (fault + Error) option" where
  "checkRounding options cd m opArray n =
     (if options \<inter> {kOptionSAE, kOptionER} \<noteq> {} then
        (if m \<noteq> None then Some (Inr kErrorInvalidSAEOrER)
         else if options \<inter> {kOptionER} \<noteq> {} then
           (if flags cd \<inter> {kInstFlagEvexER} = {} then Some (Inr kErrorInvalidSAEOrER)
            else if flags cd \<inter> {kInstFlagEvexB4, kInstFlagEvexB8} \<noteq> {} then
              (if n < 2 then Some (Inl AssertionFailed)
               else if \<not> isZmm (opArray ! 0) \<and> \<not> isZmm (opArray ! 1)
                 then Some (Inr kErrorInvalidSAEOrER)
               else None)
            else None)
         else if flags cd \<inter> {kInstFlagEvexSAE} = {} then Some (Inr kErrorInvalidSAEOrER)
         else None)
      else None)"

definition kAvx512Options :: "InstOption set" where
  "kAvx512Options = {kOptionK, kOption1ToX, kOptionKZ, kOptionSAE, kOptionER}"

definition validateOptions ::
  "InstOption set \<Rightarrow> Operand \<Rightarrow> CommonData \<Rightarrow> Operand option \<Rightarrow> Operand list \<Rightarrow> nat \<Rightarrow>
     fault + Error" where
  "validateOptions options opExtra cd m opArray n =
     (if options \<inter> kAvx512Options \<noteq> {} then
        (case checkMask options opExtra cd of
           Some r \<Rightarrow> r
         | None \<Rightarrow>
            (case checkBroadcast options cd m of
               Some r \<Rightarrow> r
             | None \<Rightarrow>
                (case checkRounding options cd m opArray n of
                   Some r \<Rightarrow> r
                 | None \<Rightarrow> Inr kErrorOk)))
      else Inr kErrorOk)"

subsection \<open>\<^verbatim>\<open>X86Inst::validate\<close>\<close>

text \<open>
  The part of \<^verbatim>\<open>validate\<close> before the options are looked at: the checks of the
  architecture and of the instruction id, the translation of the operands, the two checks on
  the registers used, and the search of a matching signature.  When all of it passes, the
  result is the row of common data, the number of operands and what the translation built.
\<close>

definition validateOperands ::
  "nat \<Rightarrow> ArchType \<Rightarrow> nat \<Rightarrow> Operand list \<Rightarrow>
     (fault + Error) + (CommonData \<times> nat \<times> Translated)" where
  "validateOperands kPackedIdMin archType instId opArray =
     (if \<not> isX86Family archType then Return kErrorInvalidArch
      else
        let vd = (if archType = kTypeX86 then x86ValidationData else x64ValidationData);
            am = (if archType = kTypeX86 then kArchMaskX86 else kArchMaskX64)
        in
        if instId \<ge> kIdCount then Return kErrorInvalidArgument
        else
          case translateOperands kPackedIdMin vd opArray of
            Inl r \<Rightarrow> Inl r
          | Inr (n, st) \<Rightarrow>
              if am = kArchMaskX86 \<and> combinedOpFlags st \<inter> {kOpGpq} \<noteq> {}
                then Return kErrorInvalidUseOfGpq
              else if am \<noteq> kArchMaskX86 \<and> combinedOpFlags st \<inter> {kOpGpbHi} \<noteq> {}
                        \<and> combinedRegMask st AND 0xFFFFFF00 \<noteq> 0
                then Return kErrorInvalidUseOfGpbHi
              else
                let cd = getCommonData (instData ! instId) in
                if iSignatureCount cd \<noteq> 0
                   \<and> \<not> list_ex (signatureMatches am (oSigTranslated st) n) (signatureGroup cd)
                  then Return kErrorInvalidInstruction
                else Inr (cd, n, st))"

definition validate ::
  "nat \<Rightarrow> ArchType \<Rightarrow> nat \<Rightarrow> InstOption set \<Rightarrow> Operand \<Rightarrow> Operand list \<Rightarrow> fault + Error" where
  "validate kPackedIdMin archType instId options opExtra opArray =
     (case validateOperands kPackedIdMin archType instId opArray of
        Inl r \<Rightarrow> r
      | Inr (cd, n, st) \<Rightarrow> validateOptions options opExtra cd (memOp st) opArray n)"

subsection \<open>Looking an instruction up by its name\<close>

text \<open>
  Modelled from the spec: \<^verbatim>\<open>Utils::toLower\<close> (\<^verbatim>\<open>base/utils.h\<close>), which folds an
  upper-case ASCII letter to lower case and leaves every other character as it is.
\<close>

definition toLower :: "char \<Rightarrow> char" where
  "toLower c =
     (if 65 \<le> (of_char c :: nat) \<and> (of_char c :: nat) \<le> 90
      then char_of ((of_char c :: nat) + 32) else c)"

text \<open>A \<^verbatim>\<open>char\<close> of the platform is signed.\<close>

definition char_to_int :: "char \<Rightarrow> int" where
  "char_to_int c =
     (if (of_char c :: nat) < 128 then int (of_char c) else int (of_char c) - 256)"

text \<open>
  The argument \<^verbatim>\<open>name\<close> points to a NUL-terminated string: its characters, then the
  terminator, and nothing that may be read behind it.
\<close>

definition readName :: "string \<Rightarrow> nat \<Rightarrow> fault + char" where
  "readName name i =
     (if i < length name then Inr (name ! i)
      else if i = length name then Inr (CHR 0x00)
      else Inl OutOfBounds)"

text \<open>
  The local array \<^verbatim>\<open>char nameLower[kX86InstMaxLength]\<close>.  It is not initialised: what
  it holds at first is whatever the stack holds, a parameter of the model.  Reading or
  writing an element from index \<open>16\<close> on is out of bounds.
\<close>

type_synonym buffer = "nat \<Rightarrow> char"

definition readBuffer :: "buffer \<Rightarrow> nat \<Rightarrow> fault + char" where
  "readBuffer b i = (if i < kX86InstMaxLength then Inr (b i) else Inl OutOfBounds)"

definition readNameData :: "nat \<Rightarrow> fault + char" where
  "readNameData i = (if i < length nameData then Inr (nameData ! i) else Inl OutOfBounds)"

text \<open>
  \<^verbatim>\<open>X86Inst_compareName(a, b, len)\<close>, where \<open>a\<close> is the name at the offset \<open>off\<close>
  of the name blob and \<open>b\<close> is \<^verbatim>\<open>nameLower\<close>; \<open>i\<close> is the loop counter.
\<close>

function compareLoop :: "nat \<Rightarrow> buffer \<Rightarrow> nat \<Rightarrow> nat \<Rightarrow> fault + int" where
  "compareLoop off b len i =
     (if i < len then
        (case readNameData (off + i) of
           Inl f \<Rightarrow> Inl f
         | Inr x \<Rightarrow>
            (case readBuffer b i of
               Inl f \<Rightarrow> Inl f
             | Inr y \<Rightarrow>
                 if int (of_char x) - int (of_char y) \<noteq> 0
                   then Inr (int (of_char x) - int (of_char y))
                 else compareLoop off b len (i + 1)))
      else
        (case readNameData (off + len) of
           Inl f \<Rightarrow> Inl f
         | Inr x \<Rightarrow> Inr (char_to_int x)))"
  by pat_completeness auto
termination
  by (relation "measure (\<lambda>(off, b, len, i). len - i)") auto

declare compareLoop.simps [simp del]

definition X86Inst_compareName :: "nat \<Rightarrow> buffer \<Rightarrow> nat \<Rightarrow> fault + int" where
  "X86Inst_compareName off b len = compareLoop off b len 0"

text \<open>
  The loop of the branch \<^verbatim>\<open>len == kInvalidIndex\<close>, which copies the name in lower case
  up to its terminator.  \<open>Inr None\<close> is the \<^verbatim>\<open>return kInvalidInst\<close> in the loop.  The
  test \<^verbatim>\<open>i > kX86InstMaxLength\<close> lets the index \<open>16\<close> through to the store.
\<close>

function lowerToNul :: "string \<Rightarrow> buffer \<Rightarrow> nat \<Rightarrow> fault + buffer option" where
  "lowerToNul name b i =
     (case readName name i of
        Inl f \<Rightarrow> Inl f
      | Inr ch \<Rightarrow>
          if toLower ch = CHR 0x00 then Inr (Some b)
          else if i > kX86InstMaxLength then Inr None
          else if i \<ge> kX86InstMaxLength then Inl OutOfBounds
          else lowerToNul name (b(i := toLower ch)) (i + 1))"
  by pat_completeness auto
termination
  by (relation "measure (\<lambda>(name, b, i). kX86InstMaxLength - i)") auto

declare lowerToNul.simps [simp del]

text \<open>The loop of the other branch, entered with \<open>len\<close> at most \<open>16\<close>.\<close>

function lowerToLen :: "string \<Rightarrow> buffer \<Rightarrow> nat \<Rightarrow> nat \<Rightarrow> fault + buffer" where
  "lowerToLen name b len i =
     (if i < len then
        (case readName name i of
           Inl f \<Rightarrow> Inl f
         | Inr ch \<Rightarrow> lowerToLen name (b(i := toLower ch)) len (i + 1))
      else Inr b)"
  by pat_completeness auto
termination
  by (relation "measure (\<lambda>(name, b, len, i). len - i)") auto

declare lowerToLen.simps [simp del]

text \<open>
  \<^verbatim>\<open>while (++prefix <= kX86InstAlphaIndexLast - kX86InstAlphaIndexFirst)\<close>: the id at
  which the instructions of the next letter in use begin, \<open>e\<close> when there is none.
\<close>

function nextLetter :: "nat \<Rightarrow> nat \<Rightarrow> nat" where
  "nextLetter prefix e =
     (if prefix + 1 \<le> kX86InstAlphaIndexLast - kX86InstAlphaIndexFirst then
        (if x86InstAlphaIndex ! (prefix + 1) = kX86InstAlphaIndexInvalid
           then nextLetter (prefix + 1) e
         else x86InstAlphaIndex ! (prefix + 1))
      else e)"
  by pat_completeness auto
termination
  by (relation "measure (\<lambda>(prefix, e).
        (kX86InstAlphaIndexLast - kX86InstAlphaIndexFirst) - prefix)") auto

declare nextLetter.simps [simp del]

text \<open>The linear search through the instructions that begin with \<^verbatim>\<open>j\<close>.\<close>

function linearSearch :: "buffer \<Rightarrow> nat \<Rightarrow> nat \<Rightarrow> nat \<Rightarrow> fault + nat" where
  "linearSearch b len base e =
     (if base = e then Inr kInvalidInst
      else if base \<ge> kIdCount then Inl OutOfBounds
      else
        (case X86Inst_compareName (nameDataIndex (instData ! base)) b len of
           Inl f \<Rightarrow> Inl f
         | Inr c \<Rightarrow> if c = 0 then Inr base else linearSearch b len (base + 1) e))"
  by pat_completeness auto
termination
  by (relation "measure (\<lambda>(b, len, base, e). kIdCount - base)") auto

declare linearSearch.simps [simp del]

text \<open>
  The binary search \<^verbatim>\<open>for (lim = end - base; lim != 0; lim >>= 1)\<close>; the
  \<^verbatim>\<open>continue\<close> after \<^verbatim>\<open>lim--\<close> goes through \<^verbatim>\<open>lim >>= 1\<close> as well.
\<close>

function binarySearch :: "buffer \<Rightarrow> nat \<Rightarrow> nat \<Rightarrow> nat \<Rightarrow> fault + nat" where
  "binarySearch b len base lim =
     (if lim = 0 then Inr kInvalidInst
      else if base + lim div 2 \<ge> kIdCount then Inl OutOfBounds
      else
        (case X86Inst_compareName (nameDataIndex (instData ! (base + lim div 2))) b len of
           Inl f \<Rightarrow> Inl f
         | Inr c \<Rightarrow>
             if c < 0 then binarySearch b len (base + lim div 2 + 1) ((lim - 1) div 2)
             else if c > 0 then binarySearch b len base (lim div 2)
             else Inr (base + lim div 2)))"
  by pat_completeness auto
termination
  by (relation "measure (\<lambda>(b, len, base, lim). lim)") auto

declare binarySearch.simps [simp del]

text \<open>
  The rest of \<^verbatim>\<open>getIdByName\<close>, from \<^verbatim>\<open>if (len == 0)\<close> on.  The first character is
  widened to 32 bits with its sign and \<^verbatim>\<open>'a'\<close> is subtracted without sign.
\<close>

definition searchName :: "buffer \<Rightarrow> nat \<Rightarrow> fault + nat" where
  "searchName nameLower len =
     (if len = 0 then Inr kInvalidInst
      else
        let prefix = (nat (char_to_int (nameLower 0) mod 2 ^ 32) + 2 ^ 32
                       - kX86InstAlphaIndexFirst) mod 2 ^ 32
        in
        if prefix > kX86InstAlphaIndexLast - kX86InstAlphaIndexFirst then Inr kInvalidInst
        else if x86InstAlphaIndex ! prefix = kX86InstAlphaIndexInvalid then Inr kInvalidInst
        else
          let base = x86InstAlphaIndex ! prefix;
              e = nextLetter prefix kIdCount
          in
          if prefix = 106 - kX86InstAlphaIndexFirst then linearSearch nameLower len base e
          else binarySearch nameLower len base (e - base))"

text \<open>
  \<^verbatim>\<open>X86Inst::getIdByName(name, len)\<close>.  \<open>name\<close> is \<open>None\<close> for a null pointer.  The
  value \<^verbatim>\<open>kInvalidIndex\<close> of \<open>len\<close>, which says that the name ends at its terminator,
  is declared in \<^verbatim>\<open>base/globals.h\<close> and is a parameter of the model, as is \<open>stack\<close>,
  the content of \<^verbatim>\<open>nameLower\<close> when the function is entered.  The branch for
  \<^verbatim>\<open>kInvalidIndex\<close> leaves \<open>len\<close> as it is.
\<close>

definition getIdByName :: "nat \<Rightarrow> buffer \<Rightarrow> string option \<Rightarrow> nat \<Rightarrow> fault + nat" where
  "getIdByName kInvalidIndex stack name len =
     (case name of
        None \<Rightarrow> Inr kInvalidInst
      | Some s \<Rightarrow>
          if len = kInvalidIndex then
            (case lowerToNul s stack 0 of
               Inl f \<Rightarrow> Inl f
             | Inr None \<Rightarrow> Inr kInvalidInst
             | Inr (Some nameLower) \<Rightarrow> searchName nameLower len)
          else if len > kX86InstMaxLength then Inr kInvalidInst
          else
            (case lowerToLen s stack len 0 of
               Inl f \<Rightarrow> Inl f
             | Inr nameLower \<Rightarrow> searchName nameLower len))"

text \<open>
  \<^verbatim>\<open>X86Inst::getNameById\<close>: the string that starts at the name offset of the row, a null
  pointer for an id out of range.
\<close>

definition getNameById :: "nat \<Rightarrow> string option" where
  "getNameById i =
     (if i \<ge> kIdCount then None
      else Some (takeWhile (\<lambda>c. c \<noteq> CHR 0x00) (drop (nameDataIndex (instData ! i)) nameData)))"

subsection \<open>Condition codes\<close>

text \<open>
  The condition codes \<^verbatim>\<open>X86Inst::kCond...\<close>.  The tables below are indexed by them and
  list them in the order \<^verbatim>\<open>O|NO|B|AE\<close>, \<^verbatim>\<open>E|NE|BE|A\<close>, \<^verbatim>\<open>S|NS|PE|PO\<close>,
  \<^verbatim>\<open>L|GE|LE|G\<close> (the comments of \<^verbatim>\<open>_x86ReverseCond\<close>, the mnemonics of
  \<^verbatim>\<open>CC_TO_INST\<close>); the two codes of the FPU are the entries that follow.
\<close>

definition kCondO :: nat where "kCondO = 0"
definition kCondNO :: nat where "kCondNO = 1"
definition kCondB :: nat where "kCondB = 2"
definition kCondAE :: nat where "kCondAE = 3"
definition kCondE :: nat where "kCondE = 4"
definition kCondNE :: nat where "kCondNE = 5"
definition kCondBE :: nat where "kCondBE = 6"
definition kCondA :: nat where "kCondA = 7"
definition kCondS :: nat where "kCondS = 8"
definition kCondNS :: nat where "kCondNS = 9"
definition kCondPE :: nat where "kCondPE = 10"
definition kCondPO :: nat where "kCondPO = 11"
definition kCondL :: nat where "kCondL = 12"
definition kCondGE :: nat where "kCondGE = 13"
definition kCondLE :: nat where "kCondLE = 14"
definition kCondG :: nat where "kCondG = 15"
definition kCondFpuUnordered :: nat where "kCondFpuUnordered = 16"
definition kCondFpuNotUnordered :: nat where "kCondFpuNotUnordered = 17"

definition x86ReverseCond :: "nat list" where
  "x86ReverseCond = [
     kCondO, kCondNO, kCondA, kCondBE,
     kCondE, kCondNE, kCondAE, kCondB,
     kCondS, kCondNS, kCondPE, kCondPO,
     kCondG, kCondLE, kCondGE, kCondL,
     kCondFpuUnordered, kCondFpuNotUnordered, 0x12, 0x13]"




section \<open>Properties\<close>

subsection \<open>The sizes of the tables\<close>

lemmas instData_chunks =
  instData_0_def instData_1_def instData_2_def instData_3_def instData_4_def instData_5_def
  instData_6_def instData_7_def instData_8_def instData_9_def instData_10_def instData_11_def
  instData_12_def instData_13_def

lemma length_instData_chunks:
  "length instData_0 = 100" "length instData_1 = 100" "length instData_2 = 100"
  "length instData_3 = 100" "length instData_4 = 100" "length instData_5 = 100"
  "length instData_6 = 100" "length instData_7 = 100" "length instData_8 = 100"
  "length instData_9 = 100" "length instData_10 = 100" "length instData_11 = 100"
  "length instData_12 = 100" "length instData_13 = 98"
  by (simp_all add: instData_chunks)

lemma length_instData: "length instData = 1398"
  by (simp add: instData_def length_instData_chunks)

lemmas commonData_chunks =
  commonData_0_def commonData_1_def commonData_2_def commonData_3_def commonData_4_def
  commonData_5_def

lemma length_commonData_chunks:
  "length commonData_0 = 100" "length commonData_1 = 100" "length commonData_2 = 100"
  "length commonData_3 = 100" "length commonData_4 = 100" "length commonData_5 = 34"
  by (simp_all add: commonData_chunks)

lemma length_commonData: "length commonData = 534"
  by (simp add: commonData_def length_commonData_chunks)

lemmas x86InstISignatureData_chunks =
  x86InstISignatureData_0_def x86InstISignatureData_1_def x86InstISignatureData_2_def
  x86InstISignatureData_3_def x86InstISignatureData_4_def

lemma length_x86InstISignatureData_chunks:
  "length x86InstISignatureData_0 = 100" "length x86InstISignatureData_1 = 100"
  "length x86InstISignatureData_2 = 100" "length x86InstISignatureData_3 = 100"
  "length x86InstISignatureData_4 = 56"
  by (simp_all add: x86InstISignatureData_chunks)

lemma length_x86InstISignatureData: "length x86InstISignatureData = 456"
  by (simp add: x86InstISignatureData_def length_x86InstISignatureData_chunks)

lemmas x86InstOSignatureData_chunks =
  x86InstOSignatureData_0_def x86InstOSignatureData_1_def x86InstOSignatureData_2_def

lemma length_x86InstOSignatureData_chunks:
  "length x86InstOSignatureData_0 = 100" "length x86InstOSignatureData_1 = 100"
  "length x86InstOSignatureData_2 = 5"
  by (simp_all add: x86InstOSignatureData_chunks)

lemma length_x86InstOSignatureData: "length x86InstOSignatureData = 205"
  by (simp add: x86InstOSignatureData_def length_x86InstOSignatureData_chunks)

lemma kIdCount_eq: "kIdCount = 1398"
  by (simp add: kIdCount_def length_instData)

subsection \<open>The signature groups lie within the signature table\<close>

lemma commonDataIndex_in_range:
  "list_all (\<lambda>r. commonDataIndex r < 534) instData"
  by (simp add: instData_def instData_chunks INST_def)

lemma signature_groups_in_range:
  "list_all (\<lambda>cd. iSignatureIndex cd + iSignatureCount cd \<le> 456) commonData"
  by (simp add: commonData_def commonData_chunks COMMON_def)

text \<open>
  C9: for every instruction id in range, the row of common data exists and its signature
  index plus its signature count is at most the length of the instruction-signature table,
  so that the scan from \<^verbatim>\<open>iSig\<close> to \<^verbatim>\<open>iEnd\<close> stays inside the table.
\<close>

theorem signature_group_in_bounds:
  assumes "i < kIdCount"
  shows "commonDataIndex (instData ! i) < length commonData \<and>
         iSignatureIndex (getCommonData (instData ! i))
           + iSignatureCount (getCommonData (instData ! i)) \<le> length x86InstISignatureData"
proof -
  from assms have i: "i < length instData"
    by (simp add: kIdCount_def)
  with commonDataIndex_in_range have c: "commonDataIndex (instData ! i) < length commonData"
    by (simp add: list_all_length length_commonData)
  with signature_groups_in_range
  have "iSignatureIndex (commonData ! commonDataIndex (instData ! i))
          + iSignatureCount (commonData ! commonDataIndex (instData ! i)) \<le> 456"
    by (simp add: list_all_length)
  with c show ?thesis
    by (simp add: getCommonData_def length_x86InstISignatureData)
qed

theorem signature_group_in_bounds_witness:
  "kIdMov < kIdCount \<and> commonDataIndex (instData ! kIdMov) < length commonData \<and>
   iSignatureIndex (getCommonData (instData ! kIdMov))
     + iSignatureCount (getCommonData (instData ! kIdMov)) \<le> length x86InstISignatureData"
  using signature_group_in_bounds [of kIdMov]
  by (simp add: kIdMov_def kIdCount_eq)

subsection \<open>Condition codes\<close>

lemmas kCond_defs =
  kCondO_def kCondNO_def kCondB_def kCondAE_def kCondE_def kCondNE_def kCondBE_def kCondA_def
  kCondS_def kCondNS_def kCondPE_def kCondPO_def kCondL_def kCondGE_def kCondLE_def kCondG_def
  kCondFpuUnordered_def kCondFpuNotUnordered_def




lemma below_16_cases:
  assumes "c < (16::nat)"
  shows "c = 0 \<or> c = 1 \<or> c = 2 \<or> c = 3 \<or> c = 4 \<or> c = 5 \<or> c = 6 \<or> c = 7 \<or> c = 8 \<or> c = 9
         \<or> c = 10 \<or> c = 11 \<or> c = 12 \<or> c = 13 \<or> c = 14 \<or> c = 15"
  using assms by arith







text \<open>
  C4, as the spec states it, fails: the table does not negate a condition.  The code O is
  mapped to O, not to NO.
\<close>

theorem reverse_cond_counterexample:
  "x86ReverseCond ! kCondO \<noteq> kCondNO"
  by (simp add: x86ReverseCond_def kCond_defs)

text \<open>
  C4, amended: \<^verbatim>\<open>_x86ReverseCond\<close> gives the condition that holds when the two operands
  of the comparison change places.  It keeps O, NO, E, NE, S, NS, PE and PO and exchanges
  B with A, AE with BE, L with G and GE with LE; in particular it maps O to O, NO to NO, B to
  A and AE to BE.
\<close>

theorem reverse_cond_swaps_operands:
  "x86ReverseCond ! kCondO = kCondO \<and> x86ReverseCond ! kCondNO = kCondNO
   \<and> x86ReverseCond ! kCondB = kCondA \<and> x86ReverseCond ! kCondAE = kCondBE
   \<and> x86ReverseCond ! kCondE = kCondE \<and> x86ReverseCond ! kCondNE = kCondNE
   \<and> x86ReverseCond ! kCondBE = kCondAE \<and> x86ReverseCond ! kCondA = kCondB
   \<and> x86ReverseCond ! kCondS = kCondS \<and> x86ReverseCond ! kCondNS = kCondNS
   \<and> x86ReverseCond ! kCondPE = kCondPE \<and> x86ReverseCond ! kCondPO = kCondPO
   \<and> x86ReverseCond ! kCondL = kCondG \<and> x86ReverseCond ! kCondGE = kCondLE
   \<and> x86ReverseCond ! kCondLE = kCondGE \<and> x86ReverseCond ! kCondG = kCondL"
  by (simp add: x86ReverseCond_def kCond_defs)

text \<open>
  C8: on the sixteen condition codes from O to G, applying \<^verbatim>\<open>_x86ReverseCond\<close> twice
  gives the code back.
\<close>

theorem reverse_cond_involution:
  assumes "kCondO \<le> c" and "c \<le> kCondG"
  shows "x86ReverseCond ! (x86ReverseCond ! c) = c"
proof -
  from assms have "c < 16"
    by (simp add: kCondG_def)
  then have "c = 0 \<or> c = 1 \<or> c = 2 \<or> c = 3 \<or> c = 4 \<or> c = 5 \<or> c = 6 \<or> c = 7 \<or> c = 8
      \<or> c = 9 \<or> c = 10 \<or> c = 11 \<or> c = 12 \<or> c = 13 \<or> c = 14 \<or> c = 15"
    by (rule below_16_cases)
  then show ?thesis
    by (elim disjE) (simp_all add: x86ReverseCond_def kCond_defs)
qed

theorem reverse_cond_involution_witness:
  "kCondO \<le> kCondB \<and> kCondB \<le> kCondG \<and> x86ReverseCond ! kCondB = kCondA
   \<and> x86ReverseCond ! kCondA = kCondB \<and> x86ReverseCond ! (x86ReverseCond ! kCondB) = kCondB"
  using reverse_cond_involution [of kCondB]
  by (simp add: x86ReverseCond_def kCond_defs)

subsection \<open>The translation loop\<close>

lemma translateLoop_count:
  "translateLoop p vd ops i st = Inr (j, st') \<Longrightarrow> j = i + length (takeWhile present ops)"
proof (induction ops arbitrary: i st)
  case Nil
  then show ?case by simp
next
  case (Cons op rest)
  show ?case
  proof (cases "isNone op")
    case True
    with Cons.prems show ?thesis by simp
  next
    case False
    with Cons.prems obtain t where t: "translateOperand p vd op = Inr t"
      and r: "translateLoop p vd rest (i + 1) (addTranslated st op t) = Inr (j, st')"
      by (auto split: sum.splits if_splits)
    from Cons.IH [OF r] False show ?thesis by simp
  qed
qed

lemma translateLoop_flags:
  "translateLoop p vd ops i st = Inr (j, st') \<Longrightarrow>
     combinedOpFlags st \<subseteq> combinedOpFlags st' \<and>
     (\<forall>op \<in> set (takeWhile present ops). \<exists>t. translateOperand p vd op = Inr t \<and>
        opFlags (fst t) \<subseteq> combinedOpFlags st')"
proof (induction ops arbitrary: i st)
  case Nil
  then show ?case by simp
next
  case (Cons op rest)
  show ?case
  proof (cases "isNone op")
    case True
    with Cons.prems show ?thesis by simp
  next
    case False
    with Cons.prems obtain t where t: "translateOperand p vd op = Inr t"
      and r: "translateLoop p vd rest (i + 1) (addTranslated st op t) = Inr (j, st')"
      by (auto split: sum.splits if_splits)
    from Cons.IH [OF r]
    have a: "combinedOpFlags (addTranslated st op t) \<subseteq> combinedOpFlags st'"
      and b: "\<forall>x \<in> set (takeWhile present rest). \<exists>u. translateOperand p vd x = Inr u \<and>
        opFlags (fst u) \<subseteq> combinedOpFlags st'"
      by simp_all
    from a have c: "combinedOpFlags st \<subseteq> combinedOpFlags st'"
      and d: "opFlags (fst t) \<subseteq> combinedOpFlags st'"
      by (simp_all add: addTranslated_def)
    from False b c d t show ?thesis by (cases t) auto
  qed
qed

lemma translateLoop_memOp:
  "translateLoop p vd ops i st = Inr (j, st') \<Longrightarrow>
     (memOp st' = None \<longrightarrow> memOp st = None \<and> (\<forall>op \<in> set (takeWhile present ops). \<not> isMem op))
     \<and> (\<forall>m. memOp st' = Some m \<longrightarrow> memOp st = Some m \<or> (isMem m \<and> m \<in> set ops))"
proof (induction ops arbitrary: i st)
  case Nil
  then show ?case by simp
next
  case (Cons op rest)
  show ?case
  proof (cases "isNone op")
    case True
    with Cons.prems show ?thesis by simp
  next
    case False
    with Cons.prems obtain t where t: "translateOperand p vd op = Inr t"
      and r: "translateLoop p vd rest (i + 1) (addTranslated st op t) = Inr (j, st')"
      by (auto split: sum.splits if_splits)
    from Cons.IH [OF r] False show ?thesis
      by (auto simp: addTranslated_def split: if_splits)
  qed
qed

lemma no_gap_present:
  assumes "\<not> (length (takeWhile present ops) < length ops
              \<and> list_ex present (drop (length (takeWhile present ops) + 1) ops))"
    and "op \<in> set ops" and "present op"
  shows "op \<in> set (takeWhile present ops)"
proof (rule ccontr)
  assume n: "op \<notin> set (takeWhile present ops)"
  have "set ops = set (takeWhile present ops) \<union> set (dropWhile present ops)"
    by (metis set_append takeWhile_dropWhile_id)
  with assms(2) n have d: "op \<in> set (dropWhile present ops)"
    by simp
  then obtain x xs where x: "dropWhile present ops = x # xs"
    by (cases "dropWhile present ops") auto
  then have "\<not> present x"
    by (metis hd_dropWhile list.sel(1) list.distinct(1))
  with d x assms(3) have o: "op \<in> set xs"
    by auto
  have e: "drop (length (takeWhile present ops)) ops = x # xs"
    using x by (simp add: dropWhile_eq_drop)
  then have l: "length (takeWhile present ops) < length ops"
    by (metis drop_all list.distinct(1) not_le)
  from e have "drop (length (takeWhile present ops) + 1) ops = xs"
    by (metis Suc_eq_plus1 drop_Suc list.sel(3) tl_drop)
  with o assms(3) have "list_ex present (drop (length (takeWhile present ops) + 1) ops)"
    by (auto simp: list_ex_iff)
  with l assms(1) show False
    by simp
qed

lemma translateOperands_flags:
  assumes "translateOperands p vd ops = Inr (n, st)"
    and "op \<in> set ops" and "present op"
  shows "\<exists>t. translateOperand p vd op = Inr t \<and> opFlags (fst t) \<subseteq> combinedOpFlags st"
proof -
  from assms(1) have l: "translateLoop p vd ops 0 noneTranslated = Inr (n, st)"
    and g: "\<not> (n < length ops \<and> list_ex present (drop (n + 1) ops))"
    by (auto simp: translateOperands_def split: sum.splits if_splits)
  from translateLoop_count [OF l] have n: "n = length (takeWhile present ops)"
    by simp
  from no_gap_present [OF g [unfolded n] assms(2,3)]
  have "op \<in> set (takeWhile present ops)" .
  with translateLoop_flags [OF l] show ?thesis
    by blast
qed

subsection \<open>64-bit registers in 32-bit mode\<close>

lemmas kReg_defs =
  kRegRip_def kRegSeg_def kRegGpbLo_def kRegGpbHi_def kRegGpw_def kRegGpd_def kRegGpq_def
  kRegFp_def kRegMm_def kRegK_def kRegXmm_def kRegYmm_def kRegZmm_def kRegBnd_def kRegCr_def
  kRegDr_def kRegCount_def kLabelTag_def

lemma translate_gpq:
  "translateOperand p vd (RegOp kRegGpq rid) = Inr t \<Longrightarrow> opFlags (fst t) = {kOpGpq}"
  by (auto simp: kReg_defs x86OpFlagFromRegType_def split: if_splits)

text \<open>
  C7: in 32-bit mode, with an instruction id in range, an operand vector that translates
  (every register type and physical id is accepted, every memory operand has a legal base and
  index, and there is no gap) and holds a register of type GPQ is refused with
  \<^verbatim>\<open>kErrorInvalidUseOfGpq\<close>.
\<close>

theorem gpq_in_32_bit_mode:
  assumes "instId < kIdCount"
    and "translateOperands kPackedIdMin x86ValidationData opArray = Inr (n, st)"
    and "RegOp kRegGpq rid \<in> set opArray"
  shows "validate kPackedIdMin kTypeX86 instId options opExtra opArray
           = Inr kErrorInvalidUseOfGpq"
proof -
  from translateOperands_flags [OF assms(2,3)]
  obtain t where "translateOperand kPackedIdMin x86ValidationData (RegOp kRegGpq rid) = Inr t"
    and "opFlags (fst t) \<subseteq> combinedOpFlags st"
    by auto
  with translate_gpq have "kOpGpq \<in> combinedOpFlags st"
    by blast
  with assms(1,2) show ?thesis
    by (simp add: validate_def validateOperands_def)
qed

lemma translate_rax_rdx:
  "translateOperands 256 x86ValidationData [RegOp kRegGpq 0, RegOp kRegGpq 2] =
     Inr (2, \<lparr>oSigTranslated = [\<lparr>opFlags = {kOpGpq}, memFlags = {}, regId = 0\<rparr>,
                                \<lparr>opFlags = {kOpGpq}, memFlags = {}, regId = 2\<rparr>],
              combinedOpFlags = {kOpGpq}, combinedRegMask = 5, memOp = None\<rparr>)"
  by (simp add: translateOperands_def kReg_defs x86OpFlagFromRegType_def x86ValidationData_def
      Utils_mask_def noneTranslated_def addTranslated_def)

theorem gpq_in_32_bit_mode_witness:
  "kIdCmp < kIdCount
   \<and> \<not> isl (translateOperands 256 x86ValidationData [RegOp kRegGpq 0, RegOp kRegGpq 2])
   \<and> RegOp kRegGpq 0 \<in> set [RegOp kRegGpq 0, RegOp kRegGpq 2]
   \<and> validate 256 kTypeX86 kIdCmp {} NoneOp [RegOp kRegGpq 0, RegOp kRegGpq 2]
       = Inr kErrorInvalidUseOfGpq"
proof -
  have c: "kIdCmp < kIdCount"
    by (simp add: kIdCmp_def kIdCount_eq)
  have m: "RegOp kRegGpq 0 \<in> set [RegOp kRegGpq 0, RegOp kRegGpq 2]"
    by simp
  from gpq_in_32_bit_mode [OF c translate_rax_rdx m] c translate_rax_rdx show ?thesis
    by simp
qed

subsection \<open>Physical register ids from 32 on\<close>

lemma translateLoop_prefix:
  assumes "\<forall>op \<in> set pre. present op \<and> \<not> isl (translateOperand p vd op)"
    and "i + length pre \<le> 6"
  shows "\<exists>st'. translateLoop p vd (pre @ rest) i st = translateLoop p vd rest (i + length pre) st'"
  using assms
proof (induction pre arbitrary: i st)
  case Nil
  then show ?case by auto
next
  case (Cons op pre)
  from Cons.prems obtain t where t: "translateOperand p vd op = Inr t" and n: "present op"
    by (cases "translateOperand p vd op") auto
  from Cons.prems have "\<forall>x \<in> set pre. present x \<and> \<not> isl (translateOperand p vd x)"
    and "(i + 1) + length pre \<le> 6"
    by simp_all
  from Cons.IH [OF this]
  obtain st' where "translateLoop p vd (pre @ rest) (i + 1) (addTranslated st op t)
      = translateLoop p vd rest (i + 1 + length pre) st'"
    by blast
  with t n Cons.prems(2) show ?case
    by auto
qed

lemma translate_phys_id_32:
  assumes "regType < kRegCount" and "x86OpFlagFromRegType ! regType \<noteq> {}"
    and "32 \<le> rid" and "rid < p"
  shows "translateOperand p vd (RegOp regType rid) = Return kErrorInvalidPhysId"
  using assms by simp

text \<open>
  C10, as it is stated, fails: a register with an id from 32 on whose type has no operand
  flag (here RIP) is refused with \<^verbatim>\<open>kErrorInvalidRegType\<close>, and one that stands behind
  an operand that is none is never translated (here the call ends with
  \<^verbatim>\<open>kErrorInvalidState\<close>).
\<close>

theorem phys_id_counterexample:
  "validate 256 kTypeX86 kIdCmp {} NoneOp [RegOp kRegRip 40] = Inr kErrorInvalidRegType
   \<and> validate 256 kTypeX64 kIdCmp {} NoneOp [NoneOp, RegOp kRegGpd 40] = Inr kErrorInvalidState"
  by (simp add: validate_def validateOperands_def translateOperands_def kIdCmp_def kIdCount_eq
      kReg_defs x86OpFlagFromRegType_def kOpNone_def noneTranslated_def)

text \<open>
  C10, amended: the call is for x86 or x64 with an instruction id in range; the register
  has a type that has an operand flag, and a concrete id from 32 on (below the threshold of
  the virtual ids); every operand before it is present and translates, and there are at most
  six of them.  Then \<^verbatim>\<open>validate\<close> returns \<^verbatim>\<open>kErrorInvalidPhysId\<close>, and the
  translation of that register gives this error whatever the table of allowed registers
  holds.  A register of such a type with an id at or above the threshold translates
  whatever that table holds, and one with an id below 32 and below the threshold is refused
  exactly when the table has no bit for its id.
\<close>

theorem phys_id_from_32_on:
  assumes "isX86Family archType" and "instId < kIdCount"
    and "opArray = pre @ RegOp regType rid # post"
    and "\<forall>op \<in> set pre. present op \<and>
           \<not> isl (translateOperand kPackedIdMin
                   (if archType = kTypeX86 then x86ValidationData else x64ValidationData) op)"
    and "length pre \<le> 6"
    and "regType < kRegCount" and "x86OpFlagFromRegType ! regType \<noteq> {}"
    and "32 \<le> rid" and "rid < kPackedIdMin"
  shows "validate kPackedIdMin archType instId options opExtra opArray
           = Inr kErrorInvalidPhysId
         \<and> translateOperand kPackedIdMin vd (RegOp regType rid) = Return kErrorInvalidPhysId
         \<and> (if kPackedIdMin \<le> v
            then translateOperand kPackedIdMin vd (RegOp regType v)
                   = Inr (\<lparr>opFlags = x86OpFlagFromRegType ! regType, memFlags = {},
                            regId = v mod 256\<rparr>, 0)
            else if 32 \<le> v
              then translateOperand kPackedIdMin vd (RegOp regType v)
                     = Return kErrorInvalidPhysId
            else (translateOperand kPackedIdMin vd (RegOp regType v)
                     = Return kErrorInvalidPhysId)
                 = (allowedRegMask vd ! regType AND Utils_mask v = 0))"
proof -
  let ?vd = "if archType = kTypeX86 then x86ValidationData else x64ValidationData"
  from assms(4,5) have "0 + length pre \<le> 6"
    and "\<forall>op \<in> set pre. present op \<and> \<not> isl (translateOperand kPackedIdMin ?vd op)"
    by simp_all
  from translateLoop_prefix [OF this(2,1)]
  obtain st' where "translateLoop kPackedIdMin ?vd (pre @ RegOp regType rid # post) 0
      noneTranslated = translateLoop kPackedIdMin ?vd (RegOp regType rid # post)
        (0 + length pre) st'"
    by blast
  moreover have "translateOperand kPackedIdMin ?vd (RegOp regType rid)
      = Return kErrorInvalidPhysId"
    using assms(6-9) by (rule translate_phys_id_32)
  ultimately have "translateLoop kPackedIdMin ?vd opArray 0 noneTranslated
      = Return kErrorInvalidPhysId"
    using assms(3) by simp
  then have "translateOperands kPackedIdMin ?vd opArray = Return kErrorInvalidPhysId"
    by (simp add: translateOperands_def)
  with assms(1,2) have "validate kPackedIdMin archType instId options opExtra opArray
      = Inr kErrorInvalidPhysId"
    by (simp add: validate_def validateOperands_def Let_def)
  moreover have "translateOperand kPackedIdMin vd (RegOp regType rid)
      = Return kErrorInvalidPhysId"
    using assms(6-9) by (rule translate_phys_id_32)
  moreover have "if kPackedIdMin \<le> v
            then translateOperand kPackedIdMin vd (RegOp regType v)
                   = Inr (\<lparr>opFlags = x86OpFlagFromRegType ! regType, memFlags = {},
                            regId = v mod 256\<rparr>, 0)
            else if 32 \<le> v
              then translateOperand kPackedIdMin vd (RegOp regType v)
                     = Return kErrorInvalidPhysId
            else (translateOperand kPackedIdMin vd (RegOp regType v)
                     = Return kErrorInvalidPhysId)
                 = (allowedRegMask vd ! regType AND Utils_mask v = 0)"
    using assms(6,7) by simp
  ultimately show ?thesis
    by blast
qed

theorem phys_id_from_32_on_witness:
  "validate 256 kTypeX64 kIdCmp {} NoneOp [RegOp kRegGpd 0, RegOp kRegGpq 32]
     = Inr kErrorInvalidPhysId
   \<and> validate 256 kTypeX86 kIdCmp {} NoneOp [RegOp kRegGpd 0, RegOp kRegXmm 255]
     = Inr kErrorInvalidPhysId
   \<and> translateOperand 256 x64ValidationData (RegOp kRegXmm 256)
       = Inr (\<lparr>opFlags = {kOpXmm}, memFlags = {}, regId = 0\<rparr>, 0)"
proof -
  have a: "isX86Family kTypeX64" "isX86Family kTypeX86" "kIdCmp < kIdCount"
    by (simp_all add: kIdCmp_def kIdCount_eq)
  have b: "\<forall>op \<in> set [RegOp kRegGpd 0]. present op \<and>
      \<not> isl (translateOperand 256
        (if kTypeX64 = kTypeX86 then x86ValidationData else x64ValidationData) op)"
    "\<forall>op \<in> set [RegOp kRegGpd 0]. present op \<and>
      \<not> isl (translateOperand 256
        (if kTypeX86 = kTypeX86 then x86ValidationData else x64ValidationData) op)"
    by (simp_all add: kReg_defs x86OpFlagFromRegType_def x86ValidationData_def
        x64ValidationData_def Utils_mask_def)
  have c: "length [RegOp kRegGpd 0] \<le> 6" "kRegGpq < kRegCount" "kRegXmm < kRegCount"
    "x86OpFlagFromRegType ! kRegGpq \<noteq> {}" "x86OpFlagFromRegType ! kRegXmm \<noteq> {}"
    by (simp_all add: kReg_defs x86OpFlagFromRegType_def)
  have d: "[RegOp kRegGpd 0, RegOp kRegGpq 32] = [RegOp kRegGpd 0] @ RegOp kRegGpq 32 # []"
    "[RegOp kRegGpd 0, RegOp kRegXmm 255] = [RegOp kRegGpd 0] @ RegOp kRegXmm 255 # []"
    by simp_all
  have e: "(32::nat) \<le> 32" "(32::nat) < 256" "(32::nat) \<le> 255" "(255::nat) < 256"
    by simp_all
  from phys_id_from_32_on [OF a(1) a(3) d(1) b(1) c(1) c(2) c(4) e(1) e(2),
      of "{}" NoneOp x64ValidationData 256]
    phys_id_from_32_on [OF a(2) a(3) d(2) b(2) c(1) c(3) c(5) e(3) e(4),
      of "{}" NoneOp x64ValidationData 256]
  show ?thesis
    by (simp add: kRegXmm_def x86OpFlagFromRegType_def)
qed

subsection \<open>The rows of MOV and VADDPD\<close>

lemma instData_Mov: "instData ! kIdMov = INST ''Mov'' ''X86Mov'' 6223 136"
  by (simp add: kIdMov_def instData_def nth_append length_instData_chunks instData_3_def)

lemma commonData_Mov: "commonData ! 136 = COMMON {kInstFlagWO} 0 13"
  by (simp add: commonData_def nth_append length_commonData_chunks commonData_1_def)

lemma signatureGroup_Mov:
  "signatureGroup (commonData ! 136) = [
     ISIGNATURE 2 True True 0 1 2 0 0 0 0,
     ISIGNATURE 2 True True 0 3 4 0 0 0 0,
     ISIGNATURE 2 True True 0 5 6 0 0 0 0,
     ISIGNATURE 2 False True 0 7 8 0 0 0 0,
     ISIGNATURE 2 True True 0 9 10 0 0 0 0,
     ISIGNATURE 2 True True 0 11 12 0 0 0 0,
     ISIGNATURE 2 True True 0 13 14 0 0 0 0,
     ISIGNATURE 2 False True 0 15 16 0 0 0 0,
     ISIGNATURE 2 True True 0 17 18 0 0 0 0,
     ISIGNATURE 2 False True 0 19 20 0 0 0 0,
     ISIGNATURE 2 True False 0 13 21 0 0 0 0,
     ISIGNATURE 2 True False 0 22 23 0 0 0 0,
     ISIGNATURE 2 False True 0 22 24 0 0 0 0]"
  by (simp add: commonData_Mov COMMON_def signatureGroup_def x86InstISignatureData_def
      length_x86InstISignatureData_chunks x86InstISignatureData_0_def)

lemma instData_Vaddpd: "instData ! kIdVaddpd = INST ''Vaddpd'' ''VexRvm_Lx'' 2741 246"
  by (simp add: kIdVaddpd_def instData_def nth_append length_instData_chunks instData_7_def)

lemma commonData_Vaddpd:
  "commonData ! 246 = COMMON
     ({kInstFlagWO, kInstFlagVex} \<union>
      A512 kInstFlagEvexSet_F True {kInstFlagEvexKZ} {kInstFlagEvexER} {kInstFlagEvexB8}) 161 3"
  by (simp add: commonData_def nth_append length_commonData_chunks commonData_2_def)

lemma signatureGroup_Vaddpd:
  "signatureGroup (commonData ! 246) = [
     ISIGNATURE 3 True True 0 66 65 69 0 0 0,
     ISIGNATURE 3 True True 0 71 74 72 0 0 0,
     ISIGNATURE 3 True True 0 75 78 76 0 0 0]"
  by (simp add: commonData_Vaddpd COMMON_def signatureGroup_def x86InstISignatureData_def
      length_x86InstISignatureData_chunks x86InstISignatureData_1_def)

lemma oSignatures:
  "x86InstOSignatureData ! 1 = OSIGNATURE {kOpW, kOpGpbLo, kOpGpbHi, kOpMem} {kMemOpM8} 0xFF"
  "x86InstOSignatureData ! 2 = OSIGNATURE {kOpR, kOpGpbLo, kOpGpbHi, kOpI8} {} 0xFF"
  "x86InstOSignatureData ! 3 = OSIGNATURE {kOpW, kOpGpw, kOpMem} {kMemOpM16} 0xFF"
  "x86InstOSignatureData ! 4 = OSIGNATURE {kOpR, kOpGpw, kOpSeg, kOpI16} {} 0xFF"
  "x86InstOSignatureData ! 5 = OSIGNATURE {kOpW, kOpGpd, kOpMem} {kMemOpM32} 0xFF"
  "x86InstOSignatureData ! 6 = OSIGNATURE {kOpR, kOpGpd, kOpI32} {} 0xFF"
  "x86InstOSignatureData ! 7 = OSIGNATURE {kOpW, kOpGpq, kOpMem} {kMemOpM64} 0xFF"
  "x86InstOSignatureData ! 8 = OSIGNATURE {kOpR, kOpGpq, kOpSeg, kOpI32} {} 0xFF"
  "x86InstOSignatureData ! 9 = OSIGNATURE {kOpW, kOpGpbLo, kOpGpbHi} {} 0xFF"
  "x86InstOSignatureData ! 10 = OSIGNATURE {kOpR, kOpGpbLo, kOpGpbHi, kOpMem, kOpI8} {kMemOpM8} 0xFF"
  "x86InstOSignatureData ! 11 = OSIGNATURE {kOpW, kOpGpw, kOpSeg} {} 0xFF"
  "x86InstOSignatureData ! 12 = OSIGNATURE {kOpR, kOpGpw, kOpMem} {kMemOpM16} 0xFF"
  "x86InstOSignatureData ! 13 = OSIGNATURE {kOpW, kOpGpd} {} 0xFF"
  "x86InstOSignatureData ! 14 = OSIGNATURE {kOpR, kOpGpd, kOpMem, kOpI32} {kMemOpM32} 0xFF"
  "x86InstOSignatureData ! 15 = OSIGNATURE {kOpW, kOpGpq, kOpSeg} {} 0xFF"
  "x86InstOSignatureData ! 16 = OSIGNATURE {kOpR, kOpGpq, kOpMem} {kMemOpM64} 0xFF"
  "x86InstOSignatureData ! 17 = OSIGNATURE {kOpW, kOpGpw} {} 0xFF"
  "x86InstOSignatureData ! 18 = OSIGNATURE {kOpR, kOpI16} {} 0xFF"
  "x86InstOSignatureData ! 19 = OSIGNATURE {kOpW, kOpGpq} {} 0xFF"
  "x86InstOSignatureData ! 20 = OSIGNATURE {kOpR, kOpCr, kOpDr, kOpI64} {} 0xFF"
  "x86InstOSignatureData ! 21 = OSIGNATURE {kOpR, kOpCr, kOpDr} {} 0xFF"
  "x86InstOSignatureData ! 22 = OSIGNATURE {kOpW, kOpCr, kOpDr} {} 0xFF"
  "x86InstOSignatureData ! 23 = OSIGNATURE {kOpR, kOpGpd} {} 0xFF"
  "x86InstOSignatureData ! 24 = OSIGNATURE {kOpR, kOpGpq} {} 0xFF"
  "x86InstOSignatureData ! 65 = OSIGNATURE {kOpR, kOpXmm} {} 0xFF"
  "x86InstOSignatureData ! 66 = OSIGNATURE {kOpW, kOpXmm} {} 0xFF"
  "x86InstOSignatureData ! 69 = OSIGNATURE {kOpR, kOpXmm, kOpMem} {kMemOpM128} 0xFF"
  "x86InstOSignatureData ! 71 = OSIGNATURE {kOpW, kOpYmm} {} 0xFF"
  "x86InstOSignatureData ! 72 = OSIGNATURE {kOpR, kOpYmm, kOpMem} {kMemOpM256} 0xFF"
  "x86InstOSignatureData ! 74 = OSIGNATURE {kOpR, kOpYmm} {} 0xFF"
  "x86InstOSignatureData ! 75 = OSIGNATURE {kOpW, kOpZmm} {} 0xFF"
  "x86InstOSignatureData ! 76 = OSIGNATURE {kOpR, kOpZmm, kOpMem} {kMemOpM512} 0xFF"
  "x86InstOSignatureData ! 78 = OSIGNATURE {kOpR, kOpZmm} {} 0xFF"
  by (simp_all add: x86InstOSignatureData_def nth_append length_x86InstOSignatureData_chunks
      x86InstOSignatureData_chunks)

lemma commonData_of_Mov: "getCommonData (instData ! kIdMov) = commonData ! 136"
  by (simp add: getCommonData_def instData_Mov INST_def)

lemma commonData_of_Vaddpd: "getCommonData (instData ! kIdVaddpd) = commonData ! 246"
  by (simp add: getCommonData_def instData_Vaddpd INST_def)

lemma translate_physical_register:
  assumes "regType < kRegCount" and "x86OpFlagFromRegType ! regType \<noteq> {}"
    and "rid < 32" and "allowedRegMask vd ! regType AND Utils_mask rid \<noteq> 0"
  shows "\<exists>m. translateOperand p vd (RegOp regType rid) =
           Inr (\<lparr>opFlags = x86OpFlagFromRegType ! regType, memFlags = {}, regId = rid\<rparr>, m)"
  using assms by simp

lemma translate_eax_x64:
  "\<exists>m. translateOperand p x64ValidationData (RegOp kRegGpd 0) =
         Inr (\<lparr>opFlags = {kOpGpd}, memFlags = {}, regId = 0\<rparr>, m)"
  using translate_physical_register [of kRegGpd 0 x64ValidationData p]
  by (simp add: kReg_defs x86OpFlagFromRegType_def x64ValidationData_def Utils_mask_def)

lemma translate_cr8_x64:
  "\<exists>m. translateOperand p x64ValidationData (RegOp kRegCr 8) =
         Inr (\<lparr>opFlags = {kOpCr}, memFlags = {}, regId = 8\<rparr>, m)"
  using translate_physical_register [of kRegCr 8 x64ValidationData p]
  by (simp add: kReg_defs x86OpFlagFromRegType_def x64ValidationData_def Utils_mask_def)

lemma translate_eax_x86:
  "\<exists>m. translateOperand p x86ValidationData (RegOp kRegGpd 0) =
         Inr (\<lparr>opFlags = {kOpGpd}, memFlags = {}, regId = 0\<rparr>, m)"
  using translate_physical_register [of kRegGpd 0 x86ValidationData p]
  by (simp add: kReg_defs x86OpFlagFromRegType_def x86ValidationData_def Utils_mask_def)

lemma translate_cr8_x86:
  "8 < p \<Longrightarrow> translateOperand p x86ValidationData (RegOp kRegCr 8)
     = Return kErrorInvalidPhysId"
  by (simp add: kReg_defs x86OpFlagFromRegType_def x86ValidationData_def Utils_mask_def)

lemma translate_xmm_x86:
  "\<exists>m. translateOperand p x86ValidationData (RegOp kRegXmm 0) =
         Inr (\<lparr>opFlags = {kOpXmm}, memFlags = {}, regId = 0\<rparr>, m)"
  "\<exists>m. translateOperand p x86ValidationData (RegOp kRegXmm 1) =
         Inr (\<lparr>opFlags = {kOpXmm}, memFlags = {}, regId = 1\<rparr>, m)"
  "\<exists>m. translateOperand p x86ValidationData (RegOp kRegXmm 2) =
         Inr (\<lparr>opFlags = {kOpXmm}, memFlags = {}, regId = 2\<rparr>, m)"
  using translate_physical_register [of kRegXmm 0 x86ValidationData p]
    translate_physical_register [of kRegXmm 1 x86ValidationData p]
    translate_physical_register [of kRegXmm 2 x86ValidationData p]
  by (simp_all add: kReg_defs x86OpFlagFromRegType_def x86ValidationData_def Utils_mask_def)

lemma translate_m32_x86:
  "translateOperand p x86ValidationData (MemOp 4 kRegGpd 0) =
     Inr (\<lparr>opFlags = {kOpMem}, memFlags = kMemOpAllSizes, regId = 255\<rparr>, 0)"
  by (simp add: kReg_defs x86ValidationData_def kInvalidReg_def)

lemmas matching_defs =
  signatureMatches_def ISIGNATURE_def exactLoop.simps oSigRef_def oSignatures OSIGNATURE_def
  opMatches_def kInvalidReg_def kMemOpAllSizes_def

lemma mov_x64_no_signature:
  "\<not> list_ex (signatureMatches kArchMaskX64
        [\<lparr>opFlags = {kOpGpd}, memFlags = {}, regId = 0\<rparr>,
         \<lparr>opFlags = {kOpCr}, memFlags = {}, regId = 8\<rparr>] 2)
      (signatureGroup (commonData ! 136))"
  by (simp add: signatureGroup_Mov matching_defs)

lemma vaddpd_x86_registers:
  "list_ex (signatureMatches kArchMaskX86
        [\<lparr>opFlags = {kOpXmm}, memFlags = {}, regId = 0\<rparr>,
         \<lparr>opFlags = {kOpXmm}, memFlags = {}, regId = 1\<rparr>,
         \<lparr>opFlags = {kOpXmm}, memFlags = {}, regId = 2\<rparr>] 3)
      (signatureGroup (commonData ! 246))"
  by (simp add: signatureGroup_Vaddpd matching_defs)

lemma vaddpd_x86_memory:
  "list_ex (signatureMatches kArchMaskX86
        [\<lparr>opFlags = {kOpXmm}, memFlags = {}, regId = 0\<rparr>,
         \<lparr>opFlags = {kOpXmm}, memFlags = {}, regId = 1\<rparr>,
         \<lparr>opFlags = {kOpMem}, memFlags = kMemOpAllSizes, regId = 255\<rparr>] 3)
      (signatureGroup (commonData ! 246))"
  by (simp add: signatureGroup_Vaddpd matching_defs)

lemma x64_mov_from_cr8:
  "validate p kTypeX64 kIdMov {} NoneOp [RegOp kRegGpd 0, RegOp kRegCr 8]
     = Inr kErrorInvalidInstruction"
proof -
  from translate_eax_x64 obtain m0 where
    t0: "translateOperand p x64ValidationData (RegOp kRegGpd 0) =
         Inr (\<lparr>opFlags = {kOpGpd}, memFlags = {}, regId = 0\<rparr>, m0)" ..
  from translate_cr8_x64 obtain m1 where
    t1: "translateOperand p x64ValidationData (RegOp kRegCr 8) =
         Inr (\<lparr>opFlags = {kOpCr}, memFlags = {}, regId = 8\<rparr>, m1)" ..
  have tr: "translateOperands p x64ValidationData [RegOp kRegGpd 0, RegOp kRegCr 8] =
      Inr (2, \<lparr>oSigTranslated = [\<lparr>opFlags = {kOpGpd}, memFlags = {}, regId = 0\<rparr>,
                                   \<lparr>opFlags = {kOpCr}, memFlags = {}, regId = 8\<rparr>],
                combinedOpFlags = {kOpGpd, kOpCr}, combinedRegMask = m0 OR m1,
                memOp = None\<rparr>)"
    by (simp add: translateOperands_def t0 t1 noneTranslated_def addTranslated_def insert_commute
        del: translateOperand.simps One_nat_def)
  have c: "iSignatureCount (commonData ! 136) \<noteq> 0"
    by (simp add: commonData_Mov COMMON_def)
  have i: "kIdMov < kIdCount"
    by (simp add: kIdMov_def kIdCount_eq)
  show ?thesis
    using c i mov_x64_no_signature
    by (simp add: validate_def validateOperands_def tr commonData_of_Mov)
qed

lemma x86_mov_from_cr8:
  assumes "8 < p"
  shows "validate p kTypeX86 kIdMov {} NoneOp [RegOp kRegGpd 0, RegOp kRegCr 8]
     = Inr kErrorInvalidPhysId"
proof -
  from translate_eax_x86 obtain m0 where
    t0: "translateOperand p x86ValidationData (RegOp kRegGpd 0) =
         Inr (\<lparr>opFlags = {kOpGpd}, memFlags = {}, regId = 0\<rparr>, m0)" ..
  have tr: "translateOperands p x86ValidationData [RegOp kRegGpd 0, RegOp kRegCr 8] =
      Return kErrorInvalidPhysId"
    by (simp add: translateOperands_def t0 translate_cr8_x86 [OF assms] noneTranslated_def
        del: translateOperand.simps One_nat_def)
  have i: "kIdMov < kIdCount"
    by (simp add: kIdMov_def kIdCount_eq)
  show ?thesis
    using i by (simp add: validate_def validateOperands_def tr)
qed

lemma vaddpd_registers_x86:
  "\<exists>m. validateOperands p kTypeX86 kIdVaddpd
          [RegOp kRegXmm 0, RegOp kRegXmm 1, RegOp kRegXmm 2] =
        Inr (commonData ! 246, 3,
          \<lparr>oSigTranslated = [\<lparr>opFlags = {kOpXmm}, memFlags = {}, regId = 0\<rparr>,
                             \<lparr>opFlags = {kOpXmm}, memFlags = {}, regId = 1\<rparr>,
                             \<lparr>opFlags = {kOpXmm}, memFlags = {}, regId = 2\<rparr>],
           combinedOpFlags = {kOpXmm}, combinedRegMask = m, memOp = None\<rparr>)"
proof -
  from translate_xmm_x86 obtain m0 m1 m2 where
    t: "translateOperand p x86ValidationData (RegOp kRegXmm 0) =
         Inr (\<lparr>opFlags = {kOpXmm}, memFlags = {}, regId = 0\<rparr>, m0)"
       "translateOperand p x86ValidationData (RegOp kRegXmm 1) =
         Inr (\<lparr>opFlags = {kOpXmm}, memFlags = {}, regId = 1\<rparr>, m1)"
       "translateOperand p x86ValidationData (RegOp kRegXmm 2) =
         Inr (\<lparr>opFlags = {kOpXmm}, memFlags = {}, regId = 2\<rparr>, m2)"
    by blast
  have tr: "translateOperands p x86ValidationData
      [RegOp kRegXmm 0, RegOp kRegXmm 1, RegOp kRegXmm 2] =
      Inr (3, \<lparr>oSigTranslated = [\<lparr>opFlags = {kOpXmm}, memFlags = {}, regId = 0\<rparr>,
                                   \<lparr>opFlags = {kOpXmm}, memFlags = {}, regId = 1\<rparr>,
                                   \<lparr>opFlags = {kOpXmm}, memFlags = {}, regId = 2\<rparr>],
                combinedOpFlags = {kOpXmm}, combinedRegMask = m0 OR m1 OR m2,
                memOp = None\<rparr>)"
    by (simp add: translateOperands_def t noneTranslated_def addTranslated_def ac_simps
        del: translateOperand.simps One_nat_def)
  have i: "kIdVaddpd < kIdCount"
    by (simp add: kIdVaddpd_def kIdCount_eq)
  have "validateOperands p kTypeX86 kIdVaddpd
          [RegOp kRegXmm 0, RegOp kRegXmm 1, RegOp kRegXmm 2] =
        Inr (commonData ! 246, 3,
          \<lparr>oSigTranslated = [\<lparr>opFlags = {kOpXmm}, memFlags = {}, regId = 0\<rparr>,
                             \<lparr>opFlags = {kOpXmm}, memFlags = {}, regId = 1\<rparr>,
                             \<lparr>opFlags = {kOpXmm}, memFlags = {}, regId = 2\<rparr>],
           combinedOpFlags = {kOpXmm}, combinedRegMask = m0 OR m1 OR m2, memOp = None\<rparr>)"
    using i vaddpd_x86_registers
    by (simp add: validateOperands_def tr commonData_of_Vaddpd del: One_nat_def)
  then show ?thesis ..
qed

lemma vaddpd_memory_x86:
  "\<exists>m. validateOperands p kTypeX86 kIdVaddpd
          [RegOp kRegXmm 0, RegOp kRegXmm 1, MemOp 4 kRegGpd 0] =
        Inr (commonData ! 246, 3,
          \<lparr>oSigTranslated = [\<lparr>opFlags = {kOpXmm}, memFlags = {}, regId = 0\<rparr>,
                             \<lparr>opFlags = {kOpXmm}, memFlags = {}, regId = 1\<rparr>,
                             \<lparr>opFlags = {kOpMem}, memFlags = kMemOpAllSizes, regId = 255\<rparr>],
           combinedOpFlags = {kOpXmm, kOpMem}, combinedRegMask = m,
           memOp = Some (MemOp 4 kRegGpd 0)\<rparr>)"
proof -
  from translate_xmm_x86 obtain m0 m1 where
    t: "translateOperand p x86ValidationData (RegOp kRegXmm 0) =
         Inr (\<lparr>opFlags = {kOpXmm}, memFlags = {}, regId = 0\<rparr>, m0)"
       "translateOperand p x86ValidationData (RegOp kRegXmm 1) =
         Inr (\<lparr>opFlags = {kOpXmm}, memFlags = {}, regId = 1\<rparr>, m1)"
    by blast
  have tr: "translateOperands p x86ValidationData
      [RegOp kRegXmm 0, RegOp kRegXmm 1, MemOp 4 kRegGpd 0] =
      Inr (3, \<lparr>oSigTranslated = [\<lparr>opFlags = {kOpXmm}, memFlags = {}, regId = 0\<rparr>,
                                   \<lparr>opFlags = {kOpXmm}, memFlags = {}, regId = 1\<rparr>,
                                   \<lparr>opFlags = {kOpMem}, memFlags = kMemOpAllSizes,
                                     regId = 255\<rparr>],
                combinedOpFlags = {kOpXmm, kOpMem}, combinedRegMask = m0 OR m1,
                memOp = Some (MemOp 4 kRegGpd 0)\<rparr>)"
    by (simp add: translateOperands_def t translate_m32_x86 noneTranslated_def addTranslated_def
        insert_commute del: translateOperand.simps One_nat_def)
  have i: "kIdVaddpd < kIdCount"
    by (simp add: kIdVaddpd_def kIdCount_eq)
  have "validateOperands p kTypeX86 kIdVaddpd
          [RegOp kRegXmm 0, RegOp kRegXmm 1, MemOp 4 kRegGpd 0] =
        Inr (commonData ! 246, 3,
          \<lparr>oSigTranslated = [\<lparr>opFlags = {kOpXmm}, memFlags = {}, regId = 0\<rparr>,
                             \<lparr>opFlags = {kOpXmm}, memFlags = {}, regId = 1\<rparr>,
                             \<lparr>opFlags = {kOpMem}, memFlags = kMemOpAllSizes, regId = 255\<rparr>],
           combinedOpFlags = {kOpXmm, kOpMem}, combinedRegMask = m0 OR m1,
           memOp = Some (MemOp 4 kRegGpd 0)\<rparr>)"
    using i vaddpd_x86_memory
    by (simp add: validateOperands_def tr commonData_of_Vaddpd del: One_nat_def)
  then show ?thesis ..
qed

subsection \<open>MOV with a control register\<close>

text \<open>
  C2, as the spec states it, fails: on x64 the call for MOV with the operands
  \<^verbatim>\<open>eax, cr8\<close> does not end with \<^verbatim>\<open>kErrorInvalidPhysId\<close>.
\<close>

theorem mov_eax_cr8_counterexample:
  "validate 256 kTypeX64 kIdMov {} NoneOp [RegOp kRegGpd 0, RegOp kRegCr 8]
     \<noteq> Inr kErrorInvalidPhysId"
  by (simp add: x64_mov_from_cr8)

text \<open>
  C2, amended: on x64 the table of allowed registers has the bit of \<^verbatim>\<open>cr8\<close>, and the
  call for MOV with \<^verbatim>\<open>eax, cr8\<close> and no options returns
  \<^verbatim>\<open>kErrorInvalidInstruction\<close>, since no signature of MOV for x64 takes a 32-bit
  register with a control register.  \<^verbatim>\<open>kErrorInvalidPhysId\<close> is what the same call
  returns on x86 (the id 8 being a physical one, below the threshold of the virtual ids).
\<close>

theorem mov_eax_cr8:
  "validate kPackedIdMin kTypeX64 kIdMov {} NoneOp [RegOp kRegGpd 0, RegOp kRegCr 8]
     = Inr kErrorInvalidInstruction
   \<and> (8 < kPackedIdMin \<longrightarrow>
        validate kPackedIdMin kTypeX86 kIdMov {} NoneOp [RegOp kRegGpd 0, RegOp kRegCr 8]
          = Inr kErrorInvalidPhysId)"
  by (simp add: x64_mov_from_cr8 x86_mov_from_cr8)

theorem mov_eax_cr8_witness:
  "validate 256 kTypeX64 kIdMov {} NoneOp [RegOp kRegGpd 0, RegOp kRegCr 8]
     = Inr kErrorInvalidInstruction
   \<and> (8::nat) < 256
   \<and> validate 256 kTypeX86 kIdMov {} NoneOp [RegOp kRegGpd 0, RegOp kRegCr 8]
     = Inr kErrorInvalidPhysId"
  using mov_eax_cr8 [of 256] by simp

subsection \<open>The options of AVX-512\<close>

lemma validateOperands_translate:
  assumes "validateOperands p archType instId opArray = Inr (cd, n, st)"
  shows "translateOperands p
           (if archType = kTypeX86 then x86ValidationData else x64ValidationData) opArray
         = Inr (n, st)"
  using assms
  by (auto simp: validateOperands_def Let_def split: if_splits sum.splits)

lemma translateOperands_memOp:
  assumes "translateOperands p vd ops = Inr (n, st)"
  shows "(memOp st \<noteq> None) = list_ex isMem ops"
proof -
  from assms have l: "translateLoop p vd ops 0 noneTranslated = Inr (n, st)"
    and g: "\<not> (n < length ops \<and> list_ex present (drop (n + 1) ops))"
    by (auto simp: translateOperands_def split: sum.splits if_splits)
  from translateLoop_count [OF l] have n: "n = length (takeWhile present ops)"
    by simp
  note m = translateLoop_memOp [OF l]
  show ?thesis
  proof
    assume "memOp st \<noteq> None"
    then obtain x where "memOp st = Some x"
      by auto
    with m have "isMem x \<and> x \<in> set ops"
      by (simp add: noneTranslated_def)
    then show "list_ex isMem ops"
      by (auto simp: list_ex_iff)
  next
    assume "list_ex isMem ops"
    then obtain x where x: "x \<in> set ops" "isMem x"
      by (auto simp: list_ex_iff)
    from x(2) have "present x"
      by (cases x) simp_all
    from no_gap_present [OF g [unfolded n] x(1) this]
    have "x \<in> set (takeWhile present ops)" .
    with m x(2) show "memOp st \<noteq> None"
      by auto
  qed
qed

lemma validateOperands_memOp:
  assumes "validateOperands p archType instId opArray = Inr (cd, n, st)"
  shows "(memOp st \<noteq> None) = list_ex isMem opArray"
  using translateOperands_memOp [OF validateOperands_translate [OF assms]] .

lemmas vaddpd_flags = commonData_Vaddpd COMMON_def A512_def hasFlag_def

lemmas option_checks =
  validateOptions_def checkMask_def checkBroadcast_def checkRounding_def kAvx512Options_def

text \<open>
  C5, as the spec states it, fails: the checks of the mask come first.  VADDPD with the
  operands \<^verbatim>\<open>xmm0, xmm1, [ebx]\<close> passes everything up to the search of the signature;
  with \<^verbatim>\<open>{sae}\<close> and \<^verbatim>\<open>{z}\<close>, but no mask register, the call ends with
  \<^verbatim>\<open>kErrorInvalidKZeroUse\<close>.
\<close>

theorem rounding_counterexample:
  "\<not> isl (validateOperands 256 kTypeX86 kIdVaddpd
            [RegOp kRegXmm 0, RegOp kRegXmm 1, MemOp 4 kRegGpd 0])
   \<and> list_ex isMem [RegOp kRegXmm 0, RegOp kRegXmm 1, MemOp 4 kRegGpd 0]
   \<and> validate 256 kTypeX86 kIdVaddpd {kOptionSAE, kOptionKZ} NoneOp
        [RegOp kRegXmm 0, RegOp kRegXmm 1, MemOp 4 kRegGpd 0] = Inr kErrorInvalidKZeroUse"
proof -
  from vaddpd_memory_x86 [of 256] obtain m where
    "validateOperands 256 kTypeX86 kIdVaddpd
       [RegOp kRegXmm 0, RegOp kRegXmm 1, MemOp 4 kRegGpd 0] =
     Inr (commonData ! 246, 3,
       \<lparr>oSigTranslated = [\<lparr>opFlags = {kOpXmm}, memFlags = {}, regId = 0\<rparr>,
                          \<lparr>opFlags = {kOpXmm}, memFlags = {}, regId = 1\<rparr>,
                          \<lparr>opFlags = {kOpMem}, memFlags = kMemOpAllSizes, regId = 255\<rparr>],
        combinedOpFlags = {kOpXmm, kOpMem}, combinedRegMask = m,
        memOp = Some (MemOp 4 kRegGpd 0)\<rparr>)" ..
  then show ?thesis
    by (simp add: validate_def option_checks del: One_nat_def)
qed

text \<open>
  C5, amended.  Let the call pass everything up to the search of the signature, and let it
  pass the checks of the mask and of the broadcast, which come before the check of
  \<^verbatim>\<open>{sae}\<close> and \<^verbatim>\<open>{er}\<close>.  If \<^verbatim>\<open>{sae}\<close> or \<^verbatim>\<open>{er}\<close> is set and there is a
  memory operand, the call returns \<^verbatim>\<open>kErrorInvalidSAEOrER\<close>.  If \<^verbatim>\<open>{er}\<close> is set,
  there is no memory operand, the instruction has \<^verbatim>\<open>EvexB4\<close> or \<^verbatim>\<open>EvexB8\<close>, there
  are two operands or more and neither of the first two is a ZMM register, it returns
  \<^verbatim>\<open>kErrorInvalidSAEOrER\<close> as well.  VADDPD with \<^verbatim>\<open>{er}\<close> and the operands
  \<^verbatim>\<open>xmm0, xmm1, xmm2\<close> on x86 is such a call.
\<close>

theorem rounding_options:
  assumes "validateOperands kPackedIdMin archType instId opArray = Inr (cd, n, st)"
    and "checkMask options opExtra cd = None"
    and "checkBroadcast options cd (memOp st) = None"
  shows "(options \<inter> {kOptionSAE, kOptionER} \<noteq> {} \<and> list_ex isMem opArray \<longrightarrow>
            validate kPackedIdMin archType instId options opExtra opArray
              = Inr kErrorInvalidSAEOrER)
       \<and> (options \<inter> {kOptionER} \<noteq> {} \<and> \<not> list_ex isMem opArray
            \<and> flags cd \<inter> {kInstFlagEvexB4, kInstFlagEvexB8} \<noteq> {} \<and> 2 \<le> n
            \<and> \<not> isZmm (opArray ! 0) \<and> \<not> isZmm (opArray ! 1) \<longrightarrow>
            validate kPackedIdMin archType instId options opExtra opArray
              = Inr kErrorInvalidSAEOrER)
       \<and> validate kPackedIdMin kTypeX86 kIdVaddpd {kOptionER} NoneOp
            [RegOp kRegXmm 0, RegOp kRegXmm 1, RegOp kRegXmm 2] = Inr kErrorInvalidSAEOrER"
proof (intro conjI impI)
  note mem = validateOperands_memOp [OF assms(1)]
  {
    assume a: "options \<inter> {kOptionSAE, kOptionER} \<noteq> {} \<and> list_ex isMem opArray"
    with mem have "memOp st \<noteq> None"
      by simp
    moreover from a have "options \<inter> kAvx512Options \<noteq> {}"
      by (auto simp: kAvx512Options_def)
    ultimately show "validate kPackedIdMin archType instId options opExtra opArray
        = Inr kErrorInvalidSAEOrER"
      using assms a by (simp add: validate_def validateOptions_def checkRounding_def)
  }
  {
    assume a: "options \<inter> {kOptionER} \<noteq> {} \<and> \<not> list_ex isMem opArray
        \<and> flags cd \<inter> {kInstFlagEvexB4, kInstFlagEvexB8} \<noteq> {} \<and> 2 \<le> n
        \<and> \<not> isZmm (opArray ! 0) \<and> \<not> isZmm (opArray ! 1)"
    with mem have "memOp st = None"
      by simp
    moreover from a have "options \<inter> kAvx512Options \<noteq> {}"
      and "options \<inter> {kOptionSAE, kOptionER} \<noteq> {}"
      by (auto simp: kAvx512Options_def)
    ultimately show "validate kPackedIdMin archType instId options opExtra opArray
        = Inr kErrorInvalidSAEOrER"
      using assms a by (simp add: validate_def validateOptions_def checkRounding_def)
  }
  from vaddpd_registers_x86 [of kPackedIdMin] obtain m where
    "validateOperands kPackedIdMin kTypeX86 kIdVaddpd
       [RegOp kRegXmm 0, RegOp kRegXmm 1, RegOp kRegXmm 2] =
     Inr (commonData ! 246, 3,
       \<lparr>oSigTranslated = [\<lparr>opFlags = {kOpXmm}, memFlags = {}, regId = 0\<rparr>,
                          \<lparr>opFlags = {kOpXmm}, memFlags = {}, regId = 1\<rparr>,
                          \<lparr>opFlags = {kOpXmm}, memFlags = {}, regId = 2\<rparr>],
        combinedOpFlags = {kOpXmm}, combinedRegMask = m, memOp = None\<rparr>)" ..
  then show "validate kPackedIdMin kTypeX86 kIdVaddpd {kOptionER} NoneOp
      [RegOp kRegXmm 0, RegOp kRegXmm 1, RegOp kRegXmm 2] = Inr kErrorInvalidSAEOrER"
    by (simp add: validate_def option_checks vaddpd_flags kReg_defs del: One_nat_def)
qed

theorem rounding_options_witness:
  "\<not> isl (validateOperands 256 kTypeX86 kIdVaddpd
            [RegOp kRegXmm 0, RegOp kRegXmm 1, MemOp 4 kRegGpd 0])
   \<and> checkMask {kOptionSAE} NoneOp (commonData ! 246) = None
   \<and> checkBroadcast {kOptionSAE} (commonData ! 246) (Some (MemOp 4 kRegGpd 0)) = None
   \<and> list_ex isMem [RegOp kRegXmm 0, RegOp kRegXmm 1, MemOp 4 kRegGpd 0]
   \<and> validate 256 kTypeX86 kIdVaddpd {kOptionSAE} NoneOp
        [RegOp kRegXmm 0, RegOp kRegXmm 1, MemOp 4 kRegGpd 0] = Inr kErrorInvalidSAEOrER
   \<and> \<not> isl (validateOperands 256 kTypeX86 kIdVaddpd
            [RegOp kRegXmm 0, RegOp kRegXmm 1, RegOp kRegXmm 2])
   \<and> checkMask {kOptionER} NoneOp (commonData ! 246) = None
   \<and> checkBroadcast {kOptionER} (commonData ! 246) None = None
   \<and> \<not> list_ex isMem [RegOp kRegXmm 0, RegOp kRegXmm 1, RegOp kRegXmm 2]
   \<and> flags (commonData ! 246) \<inter> {kInstFlagEvexB4, kInstFlagEvexB8} \<noteq> {}
   \<and> \<not> isZmm (RegOp kRegXmm 0) \<and> \<not> isZmm (RegOp kRegXmm 1)
   \<and> validate 256 kTypeX86 kIdVaddpd {kOptionER} NoneOp
        [RegOp kRegXmm 0, RegOp kRegXmm 1, RegOp kRegXmm 2] = Inr kErrorInvalidSAEOrER"
proof -
  from vaddpd_memory_x86 [of 256] obtain m where
    v1: "validateOperands 256 kTypeX86 kIdVaddpd
       [RegOp kRegXmm 0, RegOp kRegXmm 1, MemOp 4 kRegGpd 0] =
     Inr (commonData ! 246, 3,
       \<lparr>oSigTranslated = [\<lparr>opFlags = {kOpXmm}, memFlags = {}, regId = 0\<rparr>,
                          \<lparr>opFlags = {kOpXmm}, memFlags = {}, regId = 1\<rparr>,
                          \<lparr>opFlags = {kOpMem}, memFlags = kMemOpAllSizes, regId = 255\<rparr>],
        combinedOpFlags = {kOpXmm, kOpMem}, combinedRegMask = m,
        memOp = Some (MemOp 4 kRegGpd 0)\<rparr>)" ..
  from vaddpd_registers_x86 [of 256] obtain m' where
    v2: "validateOperands 256 kTypeX86 kIdVaddpd
       [RegOp kRegXmm 0, RegOp kRegXmm 1, RegOp kRegXmm 2] =
     Inr (commonData ! 246, 3,
       \<lparr>oSigTranslated = [\<lparr>opFlags = {kOpXmm}, memFlags = {}, regId = 0\<rparr>,
                          \<lparr>opFlags = {kOpXmm}, memFlags = {}, regId = 1\<rparr>,
                          \<lparr>opFlags = {kOpXmm}, memFlags = {}, regId = 2\<rparr>],
        combinedOpFlags = {kOpXmm}, combinedRegMask = m', memOp = None\<rparr>)" ..
  have c1: "checkMask {kOptionSAE} NoneOp (commonData ! 246) = None"
    "checkMask {kOptionER} NoneOp (commonData ! 246) = None"
    by (simp_all add: checkMask_def)
  have b1: "checkBroadcast {kOptionSAE} (commonData ! 246) (Some (MemOp 4 kRegGpd 0)) = None"
    "checkBroadcast {kOptionER} (commonData ! 246) None = None"
    by (simp_all add: checkBroadcast_def)
  have f: "flags (commonData ! 246) \<inter> {kInstFlagEvexB4, kInstFlagEvexB8} \<noteq> {}"
    by (simp add: vaddpd_flags)
  have z: "\<not> isZmm (RegOp kRegXmm 0)" "\<not> isZmm (RegOp kRegXmm 1)"
    by (simp_all add: kReg_defs)
  from rounding_options [OF v1 c1(1)] b1(1)
  have r1: "validate 256 kTypeX86 kIdVaddpd {kOptionSAE} NoneOp
        [RegOp kRegXmm 0, RegOp kRegXmm 1, MemOp 4 kRegGpd 0] = Inr kErrorInvalidSAEOrER"
    by simp
  from rounding_options [OF v2 c1(2)] b1(2) f z
  have r2: "validate 256 kTypeX86 kIdVaddpd {kOptionER} NoneOp
        [RegOp kRegXmm 0, RegOp kRegXmm 1, RegOp kRegXmm 2] = Inr kErrorInvalidSAEOrER"
    by simp
  from v1 v2 c1 b1 f z r1 r2 show ?thesis
    by simp
qed

text \<open>
  C6, as the spec states it, fails for the same reason: VADDPD with the operands
  \<^verbatim>\<open>xmm0, xmm1, xmm2\<close>, with \<^verbatim>\<open>{1tox}\<close> and \<^verbatim>\<open>{z}\<close> but no mask register, ends
  with \<^verbatim>\<open>kErrorInvalidKZeroUse\<close>.
\<close>

theorem broadcast_counterexample:
  "\<not> isl (validateOperands 256 kTypeX86 kIdVaddpd
            [RegOp kRegXmm 0, RegOp kRegXmm 1, RegOp kRegXmm 2])
   \<and> \<not> list_ex isMem [RegOp kRegXmm 0, RegOp kRegXmm 1, RegOp kRegXmm 2]
   \<and> validate 256 kTypeX86 kIdVaddpd {kOption1ToX, kOptionKZ} NoneOp
        [RegOp kRegXmm 0, RegOp kRegXmm 1, RegOp kRegXmm 2] = Inr kErrorInvalidKZeroUse"
proof -
  from vaddpd_registers_x86 [of 256] obtain m where
    "validateOperands 256 kTypeX86 kIdVaddpd
       [RegOp kRegXmm 0, RegOp kRegXmm 1, RegOp kRegXmm 2] =
     Inr (commonData ! 246, 3,
       \<lparr>oSigTranslated = [\<lparr>opFlags = {kOpXmm}, memFlags = {}, regId = 0\<rparr>,
                          \<lparr>opFlags = {kOpXmm}, memFlags = {}, regId = 1\<rparr>,
                          \<lparr>opFlags = {kOpXmm}, memFlags = {}, regId = 2\<rparr>],
        combinedOpFlags = {kOpXmm}, combinedRegMask = m, memOp = None\<rparr>)" ..
  then show ?thesis
    by (simp add: validate_def option_checks del: One_nat_def)
qed

lemma translateOperands_memOp_unique:
  assumes "translateOperands p vd ops = Inr (n, st)"
    and "set (filter isMem ops) = {m}"
  shows "memOp st = Some m"
proof -
  from assms(2) have "list_ex isMem ops"
    by (auto simp: list_ex_iff)
  with translateOperands_memOp [OF assms(1)] obtain x where x: "memOp st = Some x"
    by auto
  from assms(1) have "translateLoop p vd ops 0 noneTranslated = Inr (n, st)"
    by (auto simp: translateOperands_def split: sum.splits if_splits)
  from translateLoop_memOp [OF this] x have "isMem x \<and> x \<in> set ops"
    by (simp add: noneTranslated_def)
  with assms(2) have "x = m"
    by auto
  with x show ?thesis
    by simp
qed

text \<open>
  C6, amended.  Let the call pass everything up to the search of the signature and the
  checks of the mask, which come before the check of the broadcast, and let \<^verbatim>\<open>{1tox}\<close>
  be set.  If there is no memory operand, the call returns \<^verbatim>\<open>kErrorInvalidBroadcast\<close>.
  If \<open>m\<close> is the memory operand of the call and has a size that is not zero, and the
  instruction has \<^verbatim>\<open>EvexB4\<close> and the size is not 4, or has \<^verbatim>\<open>EvexB8\<close> and the size
  is not 8, the call returns \<^verbatim>\<open>kErrorInvalidBroadcast\<close> as well.  VADDPD with
  \<^verbatim>\<open>{1tox}\<close> and the operands \<^verbatim>\<open>xmm0, xmm1\<close> and a memory operand of four bytes on
  x86 is such a call.
\<close>

theorem broadcast_option:
  assumes "validateOperands kPackedIdMin archType instId opArray = Inr (cd, n, st)"
    and "checkMask options opExtra cd = None"
    and "options \<inter> {kOption1ToX} \<noteq> {}"
  shows "(\<not> list_ex isMem opArray \<longrightarrow>
            validate kPackedIdMin archType instId options opExtra opArray
              = Inr kErrorInvalidBroadcast)
       \<and> (set (filter isMem opArray) = {m} \<and> getSize m \<noteq> 0
            \<and> (hasFlag cd kInstFlagEvexB4 \<and> getSize m \<noteq> 4
                \<or> hasFlag cd kInstFlagEvexB8 \<and> getSize m \<noteq> 8) \<longrightarrow>
            validate kPackedIdMin archType instId options opExtra opArray
              = Inr kErrorInvalidBroadcast)
       \<and> validate kPackedIdMin kTypeX86 kIdVaddpd {kOption1ToX} NoneOp
            [RegOp kRegXmm 0, RegOp kRegXmm 1, MemOp 4 kRegGpd 0] = Inr kErrorInvalidBroadcast"
proof (intro conjI impI)
  from assms(3) have o: "options \<inter> kAvx512Options \<noteq> {}"
    by (auto simp: kAvx512Options_def)
  {
    assume "\<not> list_ex isMem opArray"
    with validateOperands_memOp [OF assms(1)] have "memOp st = None"
      by simp
    with assms o show "validate kPackedIdMin archType instId options opExtra opArray
        = Inr kErrorInvalidBroadcast"
      by (simp add: validate_def validateOptions_def checkBroadcast_def)
  }
  {
    assume a: "set (filter isMem opArray) = {m} \<and> getSize m \<noteq> 0
        \<and> (hasFlag cd kInstFlagEvexB4 \<and> getSize m \<noteq> 4
            \<or> hasFlag cd kInstFlagEvexB8 \<and> getSize m \<noteq> 8)"
    with translateOperands_memOp_unique [OF validateOperands_translate [OF assms(1)]]
    have "memOp st = Some m"
      by simp
    with assms o a show "validate kPackedIdMin archType instId options opExtra opArray
        = Inr kErrorInvalidBroadcast"
      by (auto simp: validate_def validateOptions_def checkBroadcast_def)
  }
  from vaddpd_memory_x86 [of kPackedIdMin] obtain k where
    "validateOperands kPackedIdMin kTypeX86 kIdVaddpd
       [RegOp kRegXmm 0, RegOp kRegXmm 1, MemOp 4 kRegGpd 0] =
     Inr (commonData ! 246, 3,
       \<lparr>oSigTranslated = [\<lparr>opFlags = {kOpXmm}, memFlags = {}, regId = 0\<rparr>,
                          \<lparr>opFlags = {kOpXmm}, memFlags = {}, regId = 1\<rparr>,
                          \<lparr>opFlags = {kOpMem}, memFlags = kMemOpAllSizes, regId = 255\<rparr>],
        combinedOpFlags = {kOpXmm, kOpMem}, combinedRegMask = k,
        memOp = Some (MemOp 4 kRegGpd 0)\<rparr>)" ..
  then show "validate kPackedIdMin kTypeX86 kIdVaddpd {kOption1ToX} NoneOp
      [RegOp kRegXmm 0, RegOp kRegXmm 1, MemOp 4 kRegGpd 0] = Inr kErrorInvalidBroadcast"
    by (simp add: validate_def option_checks vaddpd_flags del: One_nat_def)
qed

theorem broadcast_option_witness:
  "\<not> isl (validateOperands 256 kTypeX86 kIdVaddpd
            [RegOp kRegXmm 0, RegOp kRegXmm 1, RegOp kRegXmm 2])
   \<and> checkMask {kOption1ToX} NoneOp (commonData ! 246) = None
   \<and> {kOption1ToX} \<inter> {kOption1ToX} \<noteq> {}
   \<and> \<not> list_ex isMem [RegOp kRegXmm 0, RegOp kRegXmm 1, RegOp kRegXmm 2]
   \<and> validate 256 kTypeX86 kIdVaddpd {kOption1ToX} NoneOp
        [RegOp kRegXmm 0, RegOp kRegXmm 1, RegOp kRegXmm 2] = Inr kErrorInvalidBroadcast
   \<and> \<not> isl (validateOperands 256 kTypeX86 kIdVaddpd
            [RegOp kRegXmm 0, RegOp kRegXmm 1, MemOp 4 kRegGpd 0])
   \<and> set (filter isMem [RegOp kRegXmm 0, RegOp kRegXmm 1, MemOp 4 kRegGpd 0])
       = {MemOp 4 kRegGpd 0}
   \<and> getSize (MemOp 4 kRegGpd 0) \<noteq> 0
   \<and> hasFlag (commonData ! 246) kInstFlagEvexB8 \<and> getSize (MemOp 4 kRegGpd 0) \<noteq> 8
   \<and> validate 256 kTypeX86 kIdVaddpd {kOption1ToX} NoneOp
        [RegOp kRegXmm 0, RegOp kRegXmm 1, MemOp 4 kRegGpd 0] = Inr kErrorInvalidBroadcast"
proof -
  from vaddpd_memory_x86 [of 256] obtain k where
    v1: "validateOperands 256 kTypeX86 kIdVaddpd
       [RegOp kRegXmm 0, RegOp kRegXmm 1, MemOp 4 kRegGpd 0] =
     Inr (commonData ! 246, 3,
       \<lparr>oSigTranslated = [\<lparr>opFlags = {kOpXmm}, memFlags = {}, regId = 0\<rparr>,
                          \<lparr>opFlags = {kOpXmm}, memFlags = {}, regId = 1\<rparr>,
                          \<lparr>opFlags = {kOpMem}, memFlags = kMemOpAllSizes, regId = 255\<rparr>],
        combinedOpFlags = {kOpXmm, kOpMem}, combinedRegMask = k,
        memOp = Some (MemOp 4 kRegGpd 0)\<rparr>)" ..
  from vaddpd_registers_x86 [of 256] obtain k' where
    v2: "validateOperands 256 kTypeX86 kIdVaddpd
       [RegOp kRegXmm 0, RegOp kRegXmm 1, RegOp kRegXmm 2] =
     Inr (commonData ! 246, 3,
       \<lparr>oSigTranslated = [\<lparr>opFlags = {kOpXmm}, memFlags = {}, regId = 0\<rparr>,
                          \<lparr>opFlags = {kOpXmm}, memFlags = {}, regId = 1\<rparr>,
                          \<lparr>opFlags = {kOpXmm}, memFlags = {}, regId = 2\<rparr>],
        combinedOpFlags = {kOpXmm}, combinedRegMask = k', memOp = None\<rparr>)" ..
  have c: "checkMask {kOption1ToX} NoneOp (commonData ! 246) = None"
    by (simp add: checkMask_def)
  have o: "{kOption1ToX} \<inter> {kOption1ToX} \<noteq> {}"
    by simp
  have f: "hasFlag (commonData ! 246) kInstFlagEvexB8"
    by (simp add: vaddpd_flags)
  have s: "set (filter isMem [RegOp kRegXmm 0, RegOp kRegXmm 1, MemOp 4 kRegGpd 0])
      = {MemOp 4 kRegGpd 0}"
    by simp
  from broadcast_option [OF v2 c o, of "MemOp 4 kRegGpd 0"]
  have r2: "validate 256 kTypeX86 kIdVaddpd {kOption1ToX} NoneOp
        [RegOp kRegXmm 0, RegOp kRegXmm 1, RegOp kRegXmm 2] = Inr kErrorInvalidBroadcast"
    by simp
  from broadcast_option [OF v1 c o, of "MemOp 4 kRegGpd 0"] f s
  have r1: "validate 256 kTypeX86 kIdVaddpd {kOption1ToX} NoneOp
        [RegOp kRegXmm 0, RegOp kRegXmm 1, MemOp 4 kRegGpd 0] = Inr kErrorInvalidBroadcast"
    by simp
  from v1 v2 c o f s r1 r2 show ?thesis
    by simp
qed

subsection \<open>Looking up a name that ends at its terminator\<close>

lemma compareLoop_not_equal:
  assumes "i \<le> kX86InstMaxLength" and "kX86InstMaxLength < len"
  shows "compareLoop off b len i \<noteq> Inr 0"
  using assms
proof (induction "kX86InstMaxLength - i" arbitrary: i)
  case 0
  have eq: "compareLoop off b len i =
     (if i < len then
        (case readNameData (off + i) of
           Inl f \<Rightarrow> Inl f
         | Inr x \<Rightarrow>
            (case readBuffer b i of
               Inl f \<Rightarrow> Inl f
             | Inr y \<Rightarrow>
                 if int (of_char x) - int (of_char y) \<noteq> 0
                   then Inr (int (of_char x) - int (of_char y))
                 else compareLoop off b len (i + 1)))
      else
        (case readNameData (off + len) of
           Inl f \<Rightarrow> Inl f
         | Inr x \<Rightarrow> Inr (char_to_int x)))"
    by (rule compareLoop.simps)
  from 0 have "i = kX86InstMaxLength"
    by simp
  with 0 have "i < len" and "readBuffer b i = Inl OutOfBounds"
    by (simp_all add: readBuffer_def)
  then show ?case
    by (simp add: eq split: sum.splits)
next
  case (Suc k)
  have eq: "compareLoop off b len i =
     (if i < len then
        (case readNameData (off + i) of
           Inl f \<Rightarrow> Inl f
         | Inr x \<Rightarrow>
            (case readBuffer b i of
               Inl f \<Rightarrow> Inl f
             | Inr y \<Rightarrow>
                 if int (of_char x) - int (of_char y) \<noteq> 0
                   then Inr (int (of_char x) - int (of_char y))
                 else compareLoop off b len (i + 1)))
      else
        (case readNameData (off + len) of
           Inl f \<Rightarrow> Inl f
         | Inr x \<Rightarrow> Inr (char_to_int x)))"
    by (rule compareLoop.simps)
  from Suc have "k = kX86InstMaxLength - (i + 1)" and "i + 1 \<le> kX86InstMaxLength"
    by simp_all
  from Suc.hyps(1) [OF this Suc.prems(2)]
  have r: "compareLoop off b len (i + 1) \<noteq> Inr 0" .
  from Suc have "i < len"
    by simp
  with r show ?case
    by (simp add: eq split: sum.splits)
qed

lemma compareName_not_equal:
  "kX86InstMaxLength < len \<Longrightarrow> X86Inst_compareName off b len \<noteq> Inr 0"
  by (simp add: X86Inst_compareName_def compareLoop_not_equal)

lemma linearSearch_no_match:
  "kX86InstMaxLength < len \<Longrightarrow> linearSearch b len base e = Inr r \<Longrightarrow> r = kInvalidInst"
proof (induction b len base e rule: linearSearch.induct)
  case (1 b len base e)
  have eq: "linearSearch b len base e =
     (if base = e then Inr kInvalidInst
      else if base \<ge> kIdCount then Inl OutOfBounds
      else
        (case X86Inst_compareName (nameDataIndex (instData ! base)) b len of
           Inl f \<Rightarrow> Inl f
         | Inr c \<Rightarrow> if c = 0 then Inr base else linearSearch b len (base + 1) e))"
    by (rule linearSearch.simps)
  show ?case
  proof (cases "base = e \<or> base \<ge> kIdCount")
    case True
    with "1.prems"(2) show ?thesis
      by (auto simp: eq split: if_splits)
  next
    case False
    show ?thesis
    proof (cases "X86Inst_compareName (nameDataIndex (instData ! base)) b len")
      case (Inl f)
      with False "1.prems"(2) show ?thesis
        by (simp add: eq)
    next
      case (Inr c)
      with compareName_not_equal [OF "1.prems"(1)] have c: "c \<noteq> 0"
        by metis
      with False Inr "1.prems"(2) have "linearSearch b len (base + 1) e = Inr r"
        by (simp add: eq)
      with "1.IH" [of c] False Inr c "1.prems"(1) show ?thesis
        by simp
    qed
  qed
qed

lemma binarySearch_no_match:
  "kX86InstMaxLength < len \<Longrightarrow> binarySearch b len base lim = Inr r \<Longrightarrow> r = kInvalidInst"
proof (induction b len base lim rule: binarySearch.induct)
  case (1 b len base lim)
  have eq: "binarySearch b len base lim =
     (if lim = 0 then Inr kInvalidInst
      else if base + lim div 2 \<ge> kIdCount then Inl OutOfBounds
      else
        (case X86Inst_compareName (nameDataIndex (instData ! (base + lim div 2))) b len of
           Inl f \<Rightarrow> Inl f
         | Inr c \<Rightarrow>
             if c < 0 then binarySearch b len (base + lim div 2 + 1) ((lim - 1) div 2)
             else if c > 0 then binarySearch b len base (lim div 2)
             else Inr (base + lim div 2)))"
    by (rule binarySearch.simps)
  show ?case
  proof (cases "lim = 0 \<or> base + lim div 2 \<ge> kIdCount")
    case True
    with "1.prems"(2) show ?thesis
      by (auto simp: eq split: if_splits)
  next
    case False
    show ?thesis
    proof (cases "X86Inst_compareName (nameDataIndex (instData ! (base + lim div 2))) b len")
      case (Inl f)
      with False "1.prems"(2) show ?thesis
        by (simp add: eq)
    next
      case (Inr c)
      with compareName_not_equal [OF "1.prems"(1)] have c: "c \<noteq> 0"
        by metis
      show ?thesis
      proof (cases "c < 0")
        case True
        with False Inr "1.prems"(2)
        have "binarySearch b len (base + lim div 2 + 1) ((lim - 1) div 2) = Inr r"
          by (simp add: eq)
        with "1.IH"(1) [of c] False Inr True "1.prems"(1) show ?thesis
          by simp
      next
        case n: False
        with c have p: "c > 0"
          by simp
        with False Inr n "1.prems"(2) have "binarySearch b len base (lim div 2) = Inr r"
          by (simp add: eq)
        with "1.IH"(2) [of c] False Inr n p "1.prems"(1) show ?thesis
          by simp
      qed
    qed
  qed
qed

lemma searchName_no_match:
  "kX86InstMaxLength < len \<Longrightarrow> searchName b len = Inr r \<Longrightarrow> r = kInvalidInst"
  by (auto simp: searchName_def Let_def split: if_splits
      dest: linearSearch_no_match binarySearch_no_match)

lemma getIdByName_no_match:
  assumes "kX86InstMaxLength < kInvalidIndex"
    and "getIdByName kInvalidIndex stack name kInvalidIndex = Inr r"
  shows "r = kInvalidInst"
proof (cases name)
  case None
  with assms(2) show ?thesis
    by (simp add: getIdByName_def)
next
  case (Some s)
  show ?thesis
  proof (cases "lowerToNul s stack 0")
    case (Inl f)
    with Some assms(2) show ?thesis
      by (simp add: getIdByName_def)
  next
    case (Inr x)
    show ?thesis
    proof (cases x)
      case None
      with Some Inr assms(2) show ?thesis
        by (simp add: getIdByName_def)
    next
      case (Some nameLower)
      with \<open>name = Some s\<close> Inr assms(2) have "searchName nameLower kInvalidIndex = Inr r"
        by (simp add: getIdByName_def)
      with assms(1) show ?thesis
        by (rule searchName_no_match)
    qed
  qed
qed

subsection \<open>The name blob\<close>

lemmas nameData_chunks =
  nameData_0_def nameData_1_def nameData_2_def nameData_3_def nameData_4_def nameData_5_def
  nameData_6_def nameData_7_def nameData_8_def nameData_9_def nameData_10_def

lemma length_nameData_chunks:
  "length nameData_0 = 624" "length nameData_1 = 583" "length nameData_2 = 668"
  "length nameData_3 = 795" "length nameData_4 = 1003" "length nameData_5 = 1187"
  "length nameData_6 = 1008" "length nameData_7 = 891" "length nameData_8 = 922"
  "length nameData_9 = 850" "length nameData_10 = 924"
  by (simp_all add: nameData_chunks cstr_def)

lemma length_nameData: "length nameData = 9455"
  by (simp add: nameData_def length_nameData_chunks)

lemma nameData_reads:
  "nameData ! 1 = CHR ''a''"
  "nameData ! 2 = CHR ''d''"
  "nameData ! 3 = CHR ''c''"
  "nameData ! 4 = CHR 0x00"
  "nameData ! 5 = CHR ''a''"
  "nameData ! 6 = CHR ''d''"
  "nameData ! 7 = CHR ''c''"
  "nameData ! 8 = CHR ''x''"
  "nameData ! 657 = CHR ''a''"
  "nameData ! 658 = CHR ''d''"
  "nameData ! 659 = CHR ''d''"
  "nameData ! 2798 = CHR ''a''"
  "nameData ! 2799 = CHR ''e''"
  "nameData ! 4779 = CHR ''a''"
  "nameData ! 4780 = CHR ''d''"
  "nameData ! 4781 = CHR ''d''"
  by (simp_all add: nameData_def nth_append length_nameData_chunks
      nameData_0_def nameData_1_def nameData_4_def nameData_5_def cstr_def)

lemma instData_a_rows:
  "nameDataIndex (instData ! 1) = 1"
  "nameDataIndex (instData ! 2) = 5"
  "nameDataIndex (instData ! 3) = 657"
  "nameDataIndex (instData ! 6) = 4779"
  "nameDataIndex (instData ! 12) = 2798"
  by (simp_all add: instData_def nth_append length_instData_chunks instData_0_def INST_def
      del: One_nat_def)

lemmas kIdAlpha_defs =
  kIdAdc_def kIdBextr_def kIdCall_def kIdDaa_def kIdEmms_def kIdF2xm1_def kIdHaddpd_def
  kIdIdiv_def kIdJa_def kIdKaddb_def kIdLahf_def kIdMaskmovdqu_def kIdNeg_def kIdOr_def
  kIdPabsb_def kIdRcl_def kIdSahf_def kIdT1mskc_def kIdUcomisd_def kIdVaddpd_def
  kIdWrfsbase_def kIdXadd_def

lemmas lookup_defs =
  getIdByName_def lowerToLen.simps lowerToNul.simps readName_def toLower_def searchName_def
  char_to_int_def x86InstAlphaIndex_def kIdAlpha_defs nextLetter.simps kX86InstMaxLength_def
  kX86InstAlphaIndexFirst_def kX86InstAlphaIndexLast_def kX86InstAlphaIndexInvalid_def
  binarySearch.simps X86Inst_compareName_def compareLoop.simps readNameData_def
  length_nameData nameData_reads readBuffer_def instData_a_rows kIdCount_eq kInvalidInst_def
  Let_def

text \<open>
  The name of the instruction with the id \<open>1\<close> is \<^verbatim>\<open>adc\<close>.  When its length is
  passed along with it, the lookup finds the id.
\<close>

lemma getIdByName_adc_with_length:
  "kInvalidIndex \<noteq> 3 \<Longrightarrow> getIdByName kInvalidIndex stack (Some ''adc'') 3 = Inr kIdAdc"
  by (simp add: lookup_defs del: One_nat_def)

text \<open>
  When the name ends at its terminator and the stack holds zeros, the lookup compares
  \<^verbatim>\<open>adc\<close> with the first five characters \<^verbatim>\<open>adc\\0a\<close> at the offset of the name and
  ends with the id of "none".
\<close>

lemma getIdByName_adc_terminated:
  "getIdByName (2 ^ 64 - 1) (\<lambda>k. CHR 0x00) (Some ''adc'') (2 ^ 64 - 1) = Inr kInvalidInst"
  by (simp add: lookup_defs del: One_nat_def)

lemma getNameById_adc: "getNameById kIdAdc = Some ''adc''"
proof -
  have a: "\<not> kIdAdc \<ge> kIdCount"
    by (simp add: kIdAdc_def kIdCount_eq)
  have b: "nameDataIndex (instData ! kIdAdc) = 1"
    using instData_a_rows(1) by (simp add: kIdAdc_def)
  show ?thesis
    by (simp add: getNameById_def a b nameData_def nameData_0_def cstr_def)
qed

text \<open>
  C1 does not hold of the code.  In the branch for a name that ends at its terminator,
  \<^verbatim>\<open>getIdByName\<close> copies the name but never sets \<open>len\<close> to its length: the comparisons
  run with \<open>len = kInvalidIndex\<close>, read \<^verbatim>\<open>nameLower\<close> behind the name and cannot come
  out equal.  Whatever the stack held, and for every value of \<^verbatim>\<open>kInvalidIndex\<close> above
  the size of the buffer, the lookup of the name of an instruction does not give the id of
  that instruction, unless this is the id \<open>0\<close> of "none".  (The unit test
  \<^verbatim>\<open>x86_inst_names\<close> of the same file expects the id of the instruction.)
\<close>

theorem getIdByName_of_name:
  assumes "kX86InstMaxLength < kInvalidIndex" and "i \<noteq> kInvalidInst"
  shows "getIdByName kInvalidIndex stack (getNameById i) kInvalidIndex \<noteq> Inr i"
  using assms getIdByName_no_match [of kInvalidIndex stack "getNameById i" i]
  by blast

theorem getIdByName_of_name_witness:
  "kX86InstMaxLength < 2 ^ 64 - 1 \<and> kIdAdc \<noteq> kInvalidInst
   \<and> getIdByName (2 ^ 64 - 1) (\<lambda>k. CHR 0x00) (getNameById kIdAdc) (2 ^ 64 - 1) \<noteq> Inr kIdAdc"
proof -
  have a: "kX86InstMaxLength < 2 ^ 64 - 1"
    by (simp add: kX86InstMaxLength_def)
  have b: "kIdAdc \<noteq> kInvalidInst"
    by (simp add: kIdAdc_def kInvalidInst_def)
  from getIdByName_of_name [OF a b] a b show ?thesis
    by blast
qed


end
